theory Spec2Isabelle
  imports Main "HOL-Library.AList"
begin

section \<open>Python values, exceptions and effects\<close>

text \<open>
  The managers handle dynamically shaped payloads: the argument bag of a tool call and
  the nested structures the remote clients return. They are modelled by one datatype of
  JSON values. A dict is an association list looked up with \<open>map_of\<close>. Floating point
  numbers are left out of the value model.
\<close>

datatype json =
    JNull
  | JBool bool
  | JInt int
  | JStr string
  | JList "json list"
  | JDict "(string \<times> json) list"

datatype exn_kind =
    KeyError | TypeError | ValueError | AttributeError | NameError | RuntimeError
  | RemoteError

text \<open>An exception is its class and the text that \<^verbatim>\<open>str(e)\<close> gives.\<close>

datatype exn = Exn exn_kind string

fun exn_str :: "exn \<Rightarrow> string" where
  "exn_str (Exn k m) = m"

fun exn_kind_of :: "exn \<Rightarrow> exn_kind" where
  "exn_kind_of (Exn k m) = k"

text \<open>Truthiness, as \<^verbatim>\<open>if x:\<close> and \<^verbatim>\<open>not x\<close> test it.\<close>

fun truthy :: "json \<Rightarrow> bool" where
  "truthy JNull = False"
| "truthy (JBool b) = b"
| "truthy (JInt n) = (n \<noteq> 0)"
| "truthy (JStr s) = (s \<noteq> [])"
| "truthy (JList xs) = (xs \<noteq> [])"
| "truthy (JDict kvs) = (kvs \<noteq> [])"

definition quoted :: "string \<Rightarrow> string" where
  "quoted k = [CHR 0x27] @ k @ [CHR 0x27]"

text \<open>\<^verbatim>\<open>x[k]\<close> with a string key: only a dict has one.\<close>

fun getitem :: "json \<Rightarrow> string \<Rightarrow> exn + json" where
  "getitem (JDict kvs) k =
     (case map_of kvs k of
        None \<Rightarrow> Inl (Exn KeyError (quoted k))
      | Some v \<Rightarrow> Inr v)"
| "getitem (JStr s) k = Inl (Exn TypeError ''string indices must be integers'')"
| "getitem (JList xs) k = Inl (Exn TypeError ''list indices must be integers or slices, not str'')"
| "getitem v k = Inl (Exn TypeError ''object is not subscriptable'')"

text \<open>\<^verbatim>\<open>x.get(k, default)\<close>: a method of dicts only.\<close>

fun get_default :: "json \<Rightarrow> string \<Rightarrow> json \<Rightarrow> exn + json" where
  "get_default (JDict kvs) k d =
     (case map_of kvs k of None \<Rightarrow> Inr d | Some v \<Rightarrow> Inr v)"
| "get_default v k d = Inl (Exn AttributeError ''object has no attribute get'')"

text \<open>\<^verbatim>\<open>k in x\<close> for a string \<open>k\<close>.\<close>

fun is_infix :: "string \<Rightarrow> string \<Rightarrow> bool" where
  "is_infix k [] = (k = [])"
| "is_infix k (c # cs) = (take (length k) (c # cs) = k \<or> is_infix k cs)"

fun contains :: "json \<Rightarrow> string \<Rightarrow> exn + bool" where
  "contains (JDict kvs) k = Inr (map_of kvs k \<noteq> None)"
| "contains (JList xs) k = Inr (JStr k \<in> set xs)"
| "contains (JStr s) k = Inr (is_infix k s)"
| "contains v k = Inl (Exn TypeError ''argument is not iterable'')"

text \<open>\<^verbatim>\<open>for x in v\<close>: the elements of a list, the keys of a dict, the characters of a string.\<close>

fun iterate :: "json \<Rightarrow> exn + json list" where
  "iterate (JList xs) = Inr xs"
| "iterate (JDict kvs) = Inr (map (\<lambda>kv. JStr (fst kv)) kvs)"
| "iterate (JStr s) = Inr (map (\<lambda>c. JStr [c]) s)"
| "iterate v = Inl (Exn TypeError ''object is not iterable'')"

subsection \<open>Decimal rendering of integers\<close>

definition digit_char :: "nat \<Rightarrow> char" where
  "digit_char d = ''0123456789'' ! d"

fun str_nat :: "nat \<Rightarrow> string" where
  "str_nat n = (if n < 10 then [digit_char n] else str_nat (n div 10) @ [digit_char (n mod 10)])"

definition str_int :: "int \<Rightarrow> string" where
  "str_int i = (if i < 0 then CHR ''-'' # str_nat (nat (- i)) else str_nat (nat i))"

text \<open>
  \<^verbatim>\<open>str(v)\<close> as an f-string applies it. The text of a list or a dict is Python's
  \<^verbatim>\<open>repr\<close>, taken as the parameter \<open>repr\<close>.
\<close>

fun py_str :: "(json \<Rightarrow> string) \<Rightarrow> json \<Rightarrow> string" where
  "py_str repr JNull = ''None''"
| "py_str repr (JBool b) = (if b then ''True'' else ''False'')"
| "py_str repr (JInt n) = str_int n"
| "py_str repr (JStr s) = s"
| "py_str repr v = repr v"

section \<open>Request types (types.py)\<close>

record Document =
  page_content :: json
  metadata :: "(string \<times> json) list"

record ConfluencePageUpdate =
  page_id :: string
  title :: string
  content :: string
  version :: int

record JiraIssueCreate =
  project_key :: string
  summary :: string
  description :: string
  issue_type :: string
  epic_link :: "string option"
  custom_fields :: "(string \<times> json) list"

record JiraIssueUpdate =
  issue_key :: string
  fields' :: "(string \<times> json) list"

text \<open>
  The dataclass constructor of \<^verbatim>\<open>JiraIssueCreate\<close> followed by its
  \<^verbatim>\<open>__post_init__\<close>. The last two arguments are optional in the source and
  default to \<^verbatim>\<open>None\<close>; \<^verbatim>\<open>self.custom_fields or {}\<close> turns an absent (or
  empty) mapping into the empty one.
\<close>

definition new_JiraIssueCreate ::
  "string \<Rightarrow> string \<Rightarrow> string \<Rightarrow> string \<Rightarrow> string option \<Rightarrow> (string \<times> json) list option
   \<Rightarrow> exn + JiraIssueCreate" where
  "new_JiraIssueCreate pk sm ds ty el cf =
     (if ty \<notin> set [''Epic'', ''Story'']
      then Inl (Exn ValueError (''issue_type must be either '' @ quoted ''Epic'' @ '' or '' @ quoted ''Story''))
      else if ty = ''Epic'' \<and> el \<noteq> None
      then Inl (Exn ValueError ''Epic issues cannot have an epic_link'')
      else Inr \<lparr> project_key = pk, summary = sm, description = ds, issue_type = ty,
                 epic_link = el,
                 custom_fields = (case cf of None \<Rightarrow> [] | Some kvs \<Rightarrow> kvs) \<rparr>)"

section \<open>Effects: remote calls and the log\<close>

text \<open>
  The REST clients are black boxes. A call is the name of the client method and its
  arguments in the order the source writes them; the answer of the remote side may depend
  on every call made before, so it is a function of the call history. The state threaded
  through the managers is that history together with the lines written to the logger.
\<close>

datatype call = Call string "json list"

datatype log_level = Info | Warning | Error

record st =
  calls :: "call list"
  logs :: "(log_level \<times> string) list"

type_synonym 'a M = "st \<Rightarrow> (exn + 'a) \<times> st"

record response =
  status_code :: int
  resp_text :: string

text \<open>
  The fields of a \<^verbatim>\<open>datetime\<close> object, the offset from UTC in microseconds.
\<close>

record datetime =
  year :: nat
  month :: nat
  day :: nat
  hour :: nat
  minute :: nat
  second :: nat
  microsecond :: nat
  utcoffset :: "int option"

text \<open>
  What the source takes from outside this repository: the two configured base URLs, the
  remote clients, the two operations of the text preprocessor (as functions of their
  arguments; lookups the preprocessor makes on its own are not part of the recorded
  history), the field catalog as it stands after start-up, \<^verbatim>\<open>json.dumps\<close>,
  \<^verbatim>\<open>int\<close> on a string and \<^verbatim>\<open>repr\<close> of a container. Three more parameters stand
  for what the Python library does and this file does not fix: \<^verbatim>\<open>str.lower\<close>, which
  follows the Unicode tables; \<^verbatim>\<open>datetime.fromisoformat\<close> on the strings that the
  versions of the library do not all read alike; and the text \<^verbatim>\<open>%Y\<close> of
  \<^verbatim>\<open>strftime\<close> for a year below 1000, which the C library of the platform decides.
\<close>

record env =
  confluence_url :: string
  jira_url :: string
  remote :: "call list \<Rightarrow> call \<Rightarrow> exn + json"
  session_put :: "call list \<Rightarrow> string \<Rightarrow> json \<Rightarrow> exn + response"
  get_url :: "string \<Rightarrow> string"
  process_html_content :: "json \<Rightarrow> json \<Rightarrow> exn + string \<times> string"
  clean_jira_text :: "json \<Rightarrow> exn + string"
  CUSTOM_FIELD_MAPPINGS :: "(string \<times> string) list"
  json_dumps :: "json \<Rightarrow> string"
  int_of_str :: "string \<Rightarrow> exn + int"
  repr :: "json \<Rightarrow> string"
  str_lower :: "string \<Rightarrow> string"
  fromisoformat_other :: "string \<Rightarrow> exn + datetime"
  strftime_year :: "nat \<Rightarrow> string"

definition returnM :: "'a \<Rightarrow> 'a M" where
  "returnM x = (\<lambda>s. (Inr x, s))"

definition raise :: "exn \<Rightarrow> 'a M" where
  "raise e = (\<lambda>s. (Inl e, s))"

definition lift :: "exn + 'a \<Rightarrow> 'a M" where
  "lift r = (\<lambda>s. (r, s))"

definition bindM :: "'a M \<Rightarrow> ('a \<Rightarrow> 'b M) \<Rightarrow> 'b M" where
  "bindM m f = (\<lambda>s. case m s of (Inl e, s') \<Rightarrow> (Inl e, s') | (Inr x, s') \<Rightarrow> f x s')"

text \<open>\<^verbatim>\<open>try: m  except Exception as e: h e\<close>\<close>

definition try_except :: "'a M \<Rightarrow> (exn \<Rightarrow> 'a M) \<Rightarrow> 'a M" where
  "try_except m h = (\<lambda>s. case m s of (Inl e, s') \<Rightarrow> h e s' | (Inr x, s') \<Rightarrow> (Inr x, s'))"

definition log :: "log_level \<Rightarrow> string \<Rightarrow> unit M" where
  "log lv msg = (\<lambda>s. (Inr (), s\<lparr>logs := logs s @ [(lv, msg)]\<rparr>))"

definition remote_call :: "env \<Rightarrow> string \<Rightarrow> json list \<Rightarrow> json M" where
  "remote_call E name args =
     (\<lambda>s. (remote E (calls s) (Call name args), s\<lparr>calls := calls s @ [Call name args]\<rparr>))"

text \<open>A loop that appends one result per element and stops at the first exception.\<close>

fun mapM :: "('a \<Rightarrow> 'b M) \<Rightarrow> 'a list \<Rightarrow> 'b list M" where
  "mapM f [] = returnM []"
| "mapM f (x # xs) = bindM (f x) (\<lambda>y. bindM (mapM f xs) (\<lambda>ys. returnM (y # ys)))"

text \<open>The same for a loop body without effects.\<close>

definition bindE :: "exn + 'a \<Rightarrow> ('a \<Rightarrow> exn + 'b) \<Rightarrow> exn + 'b" where
  "bindE r f = (case r of Inl e \<Rightarrow> Inl e | Inr x \<Rightarrow> f x)"

fun mapE :: "('a \<Rightarrow> exn + 'b) \<Rightarrow> 'a list \<Rightarrow> exn + 'b list" where
  "mapE f [] = Inr []"
| "mapE f (x # xs) = bindE (f x) (\<lambda>y. bindE (mapE f xs) (\<lambda>ys. Inr (y # ys)))"

section \<open>ConfluenceManager (confluence.py)\<close>

definition get_page_content :: "env \<Rightarrow> json \<Rightarrow> bool \<Rightarrow> Document M" where
  "get_page_content E page_id' clean_html =
     bindM (remote_call E ''confluence.get_page_by_id''
              [page_id', JStr ''body.storage,version,space'']) (\<lambda>page.
     bindM (lift (bindE (get_default page ''space'' (JDict []))
                    (\<lambda>sp. get_default sp ''key'' (JStr [])))) (\<lambda>space_key.
     bindM (lift (bindE (getitem page ''body'') (\<lambda>b. bindE (getitem b ''storage'')
                    (\<lambda>st. getitem st ''value'')))) (\<lambda>content'.
     bindM (lift (process_html_content E content' space_key)) (\<lambda>(processed_html, processed_markdown).
     bindM (lift (get_default page ''version'' (JDict []))) (\<lambda>version'.
     bindM (lift (get_default version' ''by'' (JDict []))) (\<lambda>author.
     bindM (lift (getitem page ''title'')) (\<lambda>m_title.
     bindM (lift (get_default version' ''number'' JNull)) (\<lambda>m_version.
     bindM (lift (get_default author ''displayName'' JNull)) (\<lambda>m_author.
     bindM (lift (bindE (get_default page ''space'' (JDict []))
                    (\<lambda>sp. get_default sp ''name'' (JStr [])))) (\<lambda>m_space_name.
     bindM (lift (get_default version' ''when'' JNull)) (\<lambda>m_when.
     returnM \<lparr> page_content = JStr (if clean_html then processed_markdown else processed_html),
               metadata =
                 [(''page_id'', page_id'),
                  (''title'', m_title),
                  (''version'', m_version),
                  (''url'', JStr (confluence_url E @ ''/wiki/spaces/'' @ py_str (repr E) space_key
                                   @ ''/pages/'' @ py_str (repr E) page_id')),
                  (''space_key'', space_key),
                  (''author_name'', m_author),
                  (''space_name'', m_space_name),
                  (''last_modified'', m_when)] \<rparr>)))))))))))"

text \<open>
  \<^verbatim>\<open>get_page_by_title\<close> and \<^verbatim>\<open>get_space_pages\<close> call
  \<^verbatim>\<open>self._clean_html_content\<close>, a method the class does not define: the attribute
  lookup raises.
\<close>

definition clean_html_content :: "json \<Rightarrow> exn + json" where
  "clean_html_content c =
     Inl (Exn AttributeError
       (quoted ''ConfluenceManager'' @ '' object has no attribute '' @ quoted ''_clean_html_content''))"

text \<open>The body of the \<^verbatim>\<open>try\<close> block of \<^verbatim>\<open>get_page_by_title\<close>.\<close>

definition get_page_by_title_try ::
  "env \<Rightarrow> string \<Rightarrow> string \<Rightarrow> bool \<Rightarrow> Document option M" where
  "get_page_by_title_try E space_key title' clean_html =
     bindM (remote_call E ''confluence.get_page_by_title''
              [JStr space_key, JStr title', JStr ''body.storage,version'']) (\<lambda>page.
     if \<not> truthy page then returnM None
     else
     bindM (lift (bindE (getitem page ''body'') (\<lambda>b. bindE (getitem b ''storage'')
                    (\<lambda>st. getitem st ''value'')))) (\<lambda>content0.
     bindM (lift (if clean_html then clean_html_content content0 else Inr content0)) (\<lambda>content'.
     bindM (lift (getitem page ''id'')) (\<lambda>m_id.
     bindM (lift (getitem page ''title'')) (\<lambda>m_title.
     bindM (lift (bindE (get_default page ''version'' (JDict []))
                    (\<lambda>v. get_default v ''number'' JNull))) (\<lambda>m_version.
     bindM (lift (getitem page ''id'')) (\<lambda>u_id.
     returnM (Some \<lparr> page_content = content',
                      metadata =
                        [(''page_id'', m_id),
                         (''title'', m_title),
                         (''version'', m_version),
                         (''space_key'', JStr space_key),
                         (''url'', JStr (confluence_url E @ ''/wiki/spaces/'' @ space_key
                                          @ ''/pages/'' @ py_str (repr E) u_id))] \<rparr>))))))))"

definition get_page_by_title :: "env \<Rightarrow> string \<Rightarrow> string \<Rightarrow> bool \<Rightarrow> Document option M" where
  "get_page_by_title E space_key title' clean_html =
     try_except (get_page_by_title_try E space_key title' clean_html)
       (\<lambda>e. bindM (log Error (''Error fetching page: '' @ exn_str e)) (\<lambda>_. returnM None))"

definition space_page_document :: "env \<Rightarrow> string \<Rightarrow> bool \<Rightarrow> json \<Rightarrow> exn + Document" where
  "space_page_document E space_key clean_html page =
     bindE (bindE (getitem page ''body'') (\<lambda>b. bindE (getitem b ''storage'')
              (\<lambda>st. getitem st ''value''))) (\<lambda>content0.
     bindE (if clean_html then clean_html_content content0 else Inr content0) (\<lambda>content'.
     bindE (getitem page ''id'') (\<lambda>m_id.
     bindE (getitem page ''title'') (\<lambda>m_title.
     bindE (bindE (get_default page ''version'' (JDict []))
              (\<lambda>v. get_default v ''number'' JNull)) (\<lambda>m_version.
     bindE (getitem page ''id'') (\<lambda>u_id.
     Inr \<lparr> page_content = content',
           metadata =
             [(''page_id'', m_id),
              (''title'', m_title),
              (''space_key'', JStr space_key),
              (''version'', m_version),
              (''url'', JStr (confluence_url E @ ''/wiki/spaces/'' @ space_key
                               @ ''/pages/'' @ py_str (repr E) u_id))] \<rparr>))))))"

definition get_space_pages :: "env \<Rightarrow> string \<Rightarrow> int \<Rightarrow> int \<Rightarrow> bool \<Rightarrow> Document list M" where
  "get_space_pages E space_key start limit clean_html =
     bindM (remote_call E ''confluence.get_all_pages_from_space''
              [JStr space_key, JInt start, JInt limit, JStr ''body.storage'']) (\<lambda>pages.
     bindM (lift (iterate pages)) (\<lambda>ps.
     lift (mapE (space_page_document E space_key clean_html) ps)))"

definition comment_document ::
  "env \<Rightarrow> json \<Rightarrow> bool \<Rightarrow> json \<Rightarrow> json \<Rightarrow> json \<Rightarrow> Document M" where
  "comment_document E page_id' clean_html space_key space_name comment =
     bindM (lift (bindE (getitem comment ''body'') (\<lambda>b. bindE (getitem b ''view'')
                    (\<lambda>v. getitem v ''value'')))) (\<lambda>body.
     bindM (lift (process_html_content E body space_key)) (\<lambda>(processed_html, processed_markdown).
     bindM (lift (bindE (get_default comment ''version'' (JDict []))
                    (\<lambda>v. get_default v ''by'' (JDict [])))) (\<lambda>author.
     bindM (lift (getitem comment ''id'')) (\<lambda>m_id.
     bindM (lift (bindE (get_default comment ''version'' (JDict []))
                    (\<lambda>v. get_default v ''when'' JNull))) (\<lambda>m_when.
     bindM (lift (get_default author ''displayName'' JNull)) (\<lambda>m_author.
     returnM \<lparr> page_content = JStr (if clean_html then processed_markdown else processed_html),
               metadata =
                 [(''page_id'', page_id'),
                  (''comment_id'', m_id),
                  (''last_modified'', m_when),
                  (''type'', JStr ''comment''),
                  (''author_name'', m_author),
                  (''space_key'', space_key),
                  (''space_name'', space_name)] \<rparr>))))))"

definition get_page_comments :: "env \<Rightarrow> json \<Rightarrow> bool \<Rightarrow> Document list M" where
  "get_page_comments E page_id' clean_html =
     bindM (remote_call E ''confluence.get_page_by_id'' [page_id', JStr ''space'']) (\<lambda>page.
     bindM (lift (bindE (get_default page ''space'' (JDict []))
                    (\<lambda>sp. get_default sp ''key'' (JStr [])))) (\<lambda>space_key.
     bindM (lift (bindE (get_default page ''space'' (JDict []))
                    (\<lambda>sp. get_default sp ''name'' (JStr [])))) (\<lambda>space_name.
     bindM (remote_call E ''confluence.get_page_comments''
              [page_id', JStr ''body.view.value,version'', JStr ''all'']) (\<lambda>r.
     bindM (lift (getitem r ''results'')) (\<lambda>comments.
     bindM (lift (iterate comments)) (\<lambda>cs.
     mapM (comment_document E page_id' clean_html space_key space_name) cs))))))"

text \<open>\<^verbatim>\<open>result.get("content", {}).get("type")\<close>\<close>

definition hit_type :: "json \<Rightarrow> exn + json" where
  "hit_type result =
     bindE (get_default result ''content'' (JDict [])) (\<lambda>c. get_default c ''type'' JNull)"

text \<open>
  The body of the loop of \<^verbatim>\<open>search\<close> for one hit: a document when the test
  \<^verbatim>\<open>content.get("type") == "page"\<close> succeeds, nothing otherwise.
\<close>

definition search_hit :: "env \<Rightarrow> json \<Rightarrow> exn + Document option" where
  "search_hit E result =
     bindE (get_default result ''content'' (JDict [])) (\<lambda>content'.
     bindE (get_default content' ''type'' JNull) (\<lambda>ty.
     if ty = JStr ''page'' then
       bindE (getitem content' ''id'') (\<lambda>m_id.
       bindE (getitem result ''title'') (\<lambda>m_title.
       bindE (bindE (get_default result ''resultGlobalContainer'' (JDict []))
                (\<lambda>c. get_default c ''title'' JNull)) (\<lambda>m_space.
       bindE (getitem result ''url'') (\<lambda>u.
       bindE (get_default result ''lastModified'' JNull) (\<lambda>m_when.
       bindE (getitem content' ''type'') (\<lambda>m_type.
       bindE (get_default result ''excerpt'' (JStr [])) (\<lambda>excerpt.
       Inr (Some \<lparr> page_content = excerpt,
                    metadata =
                      [(''page_id'', m_id),
                       (''title'', m_title),
                       (''space'', m_space),
                       (''url'', JStr (confluence_url E @ py_str (repr E) u)),
                       (''last_modified'', m_when),
                       (''type'', m_type)] \<rparr>))))))))
     else Inr None))"

text \<open>The body of the \<^verbatim>\<open>try\<close> block of \<^verbatim>\<open>search\<close>.\<close>

definition search_try :: "env \<Rightarrow> json \<Rightarrow> int \<Rightarrow> Document list M" where
  "search_try E cql limit =
     bindM (remote_call E ''confluence.cql'' [cql, JInt limit]) (\<lambda>results.
     bindM (lift (get_default results ''results'' (JList []))) (\<lambda>hits.
     bindM (lift (iterate hits)) (\<lambda>hs.
     bindM (lift (mapE (search_hit E) hs)) (\<lambda>ds.
     returnM (List.map_filter id ds)))))"

definition search :: "env \<Rightarrow> json \<Rightarrow> int \<Rightarrow> Document list M" where
  "search E cql limit =
     try_except (search_try E cql limit)
       (\<lambda>e. bindM (log Error (''Search failed with error: '' @ exn_str e)) (\<lambda>_. returnM []))"

text \<open>\<^verbatim>\<open>current_version != request.version\<close>, the right side an \<^verbatim>\<open>int\<close>.\<close>

fun ne_int :: "json \<Rightarrow> int \<Rightarrow> bool" where
  "ne_int (JInt n) v = (n \<noteq> v)"
| "ne_int (JBool b) v = ((if b then 1 else 0) \<noteq> v)"
| "ne_int j v = True"

definition update_page :: "env \<Rightarrow> ConfluencePageUpdate \<Rightarrow> Document M" where
  "update_page E request =
     try_except
       (bindM (remote_call E ''confluence.get_page_by_id''
                 [JStr (page_id request), JStr ''version'']) (\<lambda>current_page.
        if \<not> truthy current_page
        then raise (Exn ValueError (''Page '' @ page_id request @ '' does not exist''))
        else
        bindM (lift (bindE (getitem current_page ''version'') (\<lambda>v. getitem v ''number'')))
          (\<lambda>current_version.
        if ne_int current_version (version request)
        then raise (Exn ValueError
               (''Version conflict: current version is '' @ py_str (repr E) current_version
                @ '', but update requested for version '' @ str_int (version request)))
        else
        bindM (remote_call E ''confluence.update_page''
                 [JStr (page_id request), JStr (title request), JStr (content request),
                  JStr ''wiki'']) (\<lambda>page.
        bindM (lift (getitem page ''id'')) (\<lambda>new_id.
        get_page_content E new_id True)))))
       (\<lambda>e. bindM (log Error (''Error updating page: '' @ exn_str e)) (\<lambda>_. raise e))"

section \<open>Strings and timestamps\<close>

text \<open>
  \<^verbatim>\<open>s.replace(old, new)\<close> for a non-empty \<open>old\<close>: every occurrence, left to right, without
  overlap.
\<close>

function replace :: "string \<Rightarrow> string \<Rightarrow> string \<Rightarrow> string" where
  "replace old new [] = []"
| "replace old new (c # cs) =
     (if old \<noteq> [] \<and> take (length old) (c # cs) = old
      then new @ replace old new (drop (length old) (c # cs))
      else c # replace old new cs)"
  by pat_completeness auto
termination
  by (relation "measure (\<lambda>(old, new, s). length s)") auto

text \<open>\<^verbatim>\<open>s.split(sep)\<close> for a separator of one character.\<close>

fun split :: "char \<Rightarrow> string \<Rightarrow> string list" where
  "split sep [] = [[]]"
| "split sep (c # cs) =
     (if c = sep then [] # split sep cs
      else (case split sep cs of [] \<Rightarrow> [[c]] | p # ps \<Rightarrow> (c # p) # ps))"

definition startswith :: "string \<Rightarrow> string \<Rightarrow> bool" where
  "startswith s p = (take (length p) s = p)"

definition rstrip :: "char \<Rightarrow> string \<Rightarrow> string" where
  "rstrip ch s = rev (dropWhile (\<lambda>c. c = ch) (rev s))"

fun join :: "string \<Rightarrow> string list \<Rightarrow> string" where
  "join sep [] = []"
| "join sep [x] = x"
| "join sep (x # y # ys) = x @ sep @ join sep (y # ys)"

text \<open>
  \<^verbatim>\<open>datetime.fromisoformat\<close> belongs to the Python library, and what it accepts has
  grown from version to version. A string of the shape
  \<^verbatim>\<open>YYYY-MM-DD[*HH[:MM[:SS[.fff[fff]]]][+HH:MM[:SS[.ffffff]]]]\<close>, with \<^verbatim>\<open>*\<close> any one
  character and every field in its range, is read in the same way by every version that
  has the function: this is \<open>isoformat_common\<close> below. What the library does with any
  other string (it raises, or in later versions reads a basic-format, week-date or
  \<^verbatim>\<open>+HHMM\<close> timestamp) is the parameter \<open>fromisoformat_other\<close>.
\<close>

definition is_digit :: "char \<Rightarrow> bool" where
  "is_digit c = (c \<in> set ''0123456789'')"

definition digit_val :: "char \<Rightarrow> nat" where
  "digit_val c = of_char c - 48"

definition num_of :: "string \<Rightarrow> nat" where
  "num_of ds = foldl (\<lambda>a c. 10 * a + digit_val c) 0 ds"

definition digits :: "string \<Rightarrow> nat option" where
  "digits ds = (if ds \<noteq> [] \<and> list_all is_digit ds then Some (num_of ds) else None)"

definition is_leap :: "nat \<Rightarrow> bool" where
  "is_leap y = (y mod 4 = 0 \<and> (if y mod 100 = 0 then y mod 400 = 0 else True))"

definition days_in_month :: "nat \<Rightarrow> nat \<Rightarrow> nat" where
  "days_in_month y m =
     (if m = 2 then (if is_leap y then 29 else 28)
      else if m \<in> set [4, 6, 9, 11] then 30 else 31)"

text \<open>The date part: exactly ten characters.\<close>

definition parse_date :: "string \<Rightarrow> (nat \<times> nat \<times> nat) option" where
  "parse_date s =
     (if length s = 10 \<and> s ! 4 = CHR ''-'' \<and> s ! 7 = CHR ''-'' then
        (case (digits (take 4 s), digits (take 2 (drop 5 s)), digits (drop 8 s)) of
           (Some y, Some m, Some d) \<Rightarrow>
             if 1 \<le> y \<and> 1 \<le> m \<and> m \<le> 12 \<and> 1 \<le> d \<and> d \<le> days_in_month y m
             then Some (y, m, d) else None
         | _ \<Rightarrow> None)
      else None)"

text \<open>
  \<^verbatim>\<open>HH[:MM[:SS[.fff[fff]]]]\<close>, as hours, minutes, seconds and microseconds, before any
  range check.
\<close>

definition parse_hh_mm_ss_ff :: "string \<Rightarrow> (nat \<times> nat \<times> nat \<times> nat) option" where
  "parse_hh_mm_ss_ff t =
     (let n = length t;
          hh = digits (take 2 t);
          mm = (if n = 2 then Some 0 else digits (take 2 (drop 3 t)));
          ss = (if n \<le> 5 then Some 0 else digits (take 2 (drop 6 t)));
          ff = (if n \<le> 8 then Some 0
                else if n = 12 then map_option (\<lambda>f. f * 1000) (digits (drop 9 t))
                else digits (drop 9 t))
      in if n \<in> set [2, 5, 8, 12, 15]
            \<and> (if n > 2 then t ! 2 = CHR '':'' else True)
            \<and> (if n > 5 then t ! 5 = CHR '':'' else True)
            \<and> (if n > 8 then t ! 8 = CHR ''.'' else True)
         then (case (hh, mm, ss, ff) of
                 (Some h, Some m, Some s, Some f) \<Rightarrow> Some (h, m, s, f)
               | _ \<Rightarrow> None)
         else None)"

definition parse_time :: "string \<Rightarrow> (nat \<times> nat \<times> nat \<times> nat) option" where
  "parse_time t =
     (case parse_hh_mm_ss_ff t of
        Some (h, m, s, f) \<Rightarrow> if h < 24 \<and> m < 60 \<and> s < 60 then Some (h, m, s, f) else None
      | None \<Rightarrow> None)"

text \<open>
  \<^verbatim>\<open>+HH:MM[:SS[.ffffff]]\<close> with the hours below 24 and the minutes and seconds below
  60, as an offset in microseconds.
\<close>

definition parse_tz :: "string \<Rightarrow> int option" where
  "parse_tz z =
     (case z of
        [] \<Rightarrow> None
      | sign # t \<Rightarrow>
          if length t \<in> set [5, 8, 15] then
            (case parse_time t of
               Some (h, m, s, f) \<Rightarrow>
                 (let off = ((int h * 60 + int m) * 60 + int s) * 1000000 + int f
                  in Some (if sign = CHR ''-'' then - off else off))
             | None \<Rightarrow> None)
          else None)"

definition invalid_isoformat :: "string \<Rightarrow> exn" where
  "invalid_isoformat s = Exn ValueError (''Invalid isoformat string: '' @ quoted s)"

text \<open>
  What follows the date and the one separator character: the time up to the first sign,
  and the offset from that sign on.
\<close>

definition time_part :: "string \<Rightarrow> string" where
  "time_part s = takeWhile (\<lambda>c. c \<noteq> CHR ''+'' \<and> c \<noteq> CHR ''-'') (drop 11 s)"

definition zone_part :: "string \<Rightarrow> string" where
  "zone_part s = dropWhile (\<lambda>c. c \<noteq> CHR ''+'' \<and> c \<noteq> CHR ''-'') (drop 11 s)"

definition isoformat_common :: "string \<Rightarrow> datetime option" where
  "isoformat_common s =
     (case parse_date (take 10 s) of
        None \<Rightarrow> None
      | Some (y, mo, d) \<Rightarrow>
          if length s = 10
          then Some \<lparr> year = y, month = mo, day = d, hour = 0, minute = 0, second = 0,
                      microsecond = 0, utcoffset = None \<rparr>
          else
            (case parse_time (time_part s) of
               None \<Rightarrow> None
             | Some (h, mi, sec, us) \<Rightarrow>
                 if zone_part s = []
                 then Some \<lparr> year = y, month = mo, day = d, hour = h, minute = mi,
                             second = sec, microsecond = us, utcoffset = None \<rparr>
                 else (case parse_tz (zone_part s) of
                         None \<Rightarrow> None
                       | Some off \<Rightarrow>
                           Some \<lparr> year = y, month = mo, day = d, hour = h, minute = mi,
                                  second = sec, microsecond = us, utcoffset = Some off \<rparr>)))"

definition fromisoformat :: "env \<Rightarrow> string \<Rightarrow> exn + datetime" where
  "fromisoformat E s =
     (case isoformat_common s of
        Some dt \<Rightarrow> Inr dt
      | None \<Rightarrow> fromisoformat_other E s)"

definition zero_pad :: "nat \<Rightarrow> nat \<Rightarrow> string" where
  "zero_pad w n = replicate (w - length (str_nat n)) CHR ''0'' @ str_nat n"

text \<open>
  \<^verbatim>\<open>strftime("%Y-%m-%d")\<close> reads the year, the month and the day of the object and
  nothing else. The month and the day are printed with two digits, a year of four digits
  as it is; the text for a year below 1000 is the parameter \<open>strftime_year\<close> (glibc
  prints the year 5 as \<^verbatim>\<open>5\<close>, other C libraries as \<^verbatim>\<open>0005\<close>).
\<close>

definition strftime_ymd :: "env \<Rightarrow> datetime \<Rightarrow> string" where
  "strftime_ymd E dt =
     (if 1000 \<le> year dt then str_nat (year dt) else strftime_year E (year dt))
     @ ''-'' @ zero_pad 2 (month dt) @ ''-'' @ zero_pad 2 (day dt)"

text \<open>
  The expression that jira.py writes for the created date of an issue and of each of its
  comments:
  \<^verbatim>\<open>datetime.fromisoformat(x.replace("Z", "+00:00")).strftime("%Y-%m-%d")\<close>.
  Only a string has \<^verbatim>\<open>replace\<close>.
\<close>

fun format_date :: "env \<Rightarrow> json \<Rightarrow> exn + string" where
  "format_date E (JStr s) =
     bindE (fromisoformat E (replace ''Z'' ''+00:00'' s)) (\<lambda>dt. Inr (strftime_ymd E dt))"
| "format_date E v = Inl (Exn AttributeError ''object has no attribute replace'')"

section \<open>JiraManager (jira.py)\<close>

text \<open>Truthiness of what \<^verbatim>\<open>CUSTOM_FIELD_MAPPINGS.get(name)\<close> returns.\<close>

fun truthy_id :: "string option \<Rightarrow> bool" where
  "truthy_id None = False"
| "truthy_id (Some i) = (i \<noteq> [])"

definition get_custom_field_id :: "env \<Rightarrow> string \<Rightarrow> string option M" where
  "get_custom_field_id E field_name =
     (let field_id = map_of (CUSTOM_FIELD_MAPPINGS E) field_name
      in if \<not> truthy_id field_id
         then bindM (log Warning (''Unknown custom field: '' @ field_name))
                (\<lambda>_. returnM field_id)
         else returnM field_id)"

definition clean_text :: "env \<Rightarrow> json \<Rightarrow> exn + string" where
  "clean_text E text' = (if \<not> truthy text' then Inr [] else clean_jira_text E text')"

text \<open>
  The loop of \<^verbatim>\<open>_process_custom_fields\<close>, with the dict \<^verbatim>\<open>processed_fields\<close> as
  accumulator.
\<close>

fun process_custom_fields_loop ::
  "env \<Rightarrow> (string \<times> json) list \<Rightarrow> (string \<times> json) list \<Rightarrow> (string \<times> json) list M" where
  "process_custom_fields_loop E [] processed_fields = returnM processed_fields"
| "process_custom_fields_loop E ((field_name, v) # rest) processed_fields =
     bindM (get_custom_field_id E field_name) (\<lambda>field_id.
       case field_id of
         Some i \<Rightarrow>
           if i \<noteq> []
           then process_custom_fields_loop E rest (AList.update i v processed_fields)
           else bindM (log Warning (''Skipping unknown custom field: '' @ field_name))
                  (\<lambda>_. process_custom_fields_loop E rest processed_fields)
       | None \<Rightarrow>
           bindM (log Warning (''Skipping unknown custom field: '' @ field_name))
             (\<lambda>_. process_custom_fields_loop E rest processed_fields))"

definition process_custom_fields ::
  "env \<Rightarrow> (string \<times> json) list \<Rightarrow> (string \<times> json) list M" where
  "process_custom_fields E cfs = process_custom_fields_loop E cfs []"

text \<open>One comment of an issue, as the triple (body, created, author).\<close>

definition issue_comment :: "env \<Rightarrow> json \<Rightarrow> exn + string \<times> string \<times> json" where
  "issue_comment E comment =
     bindE (bindE (getitem comment ''body'') (clean_text E)) (\<lambda>processed_comment.
     bindE (bindE (getitem comment ''created'') (format_date E)) (\<lambda>created.
     bindE (bindE (getitem comment ''author'')
              (\<lambda>a. get_default a ''displayName'' (JStr ''Unknown''))) (\<lambda>author.
     Inr (processed_comment, created, author))))"

text \<open>
  The loop over \<^verbatim>\<open>CUSTOM_FIELD_MAPPINGS.items()\<close> in \<^verbatim>\<open>get_issue\<close>, with the dict
  \<^verbatim>\<open>custom_fields\<close> as accumulator.
\<close>

fun issue_custom_fields ::
  "json \<Rightarrow> (string \<times> string) list \<Rightarrow> (string \<times> json) list \<Rightarrow> exn + (string \<times> json) list" where
  "issue_custom_fields fs [] acc = Inr acc"
| "issue_custom_fields fs ((field_name, field_id) # rest) acc =
     bindE (contains fs field_id) (\<lambda>present.
       if present
       then bindE (getitem fs field_id) (\<lambda>v.
              issue_custom_fields fs rest (AList.update field_name v acc))
       else issue_custom_fields fs rest acc)"

definition custom_fields_text :: "env \<Rightarrow> (string \<times> json) list \<Rightarrow> string" where
  "custom_fields_text E cfs =
     (if cfs \<noteq> []
      then ''Custom Fields:\<newline>''
           @ concat (map (\<lambda>(name, v).
                 if truthy v then name @ '': '' @ py_str (repr E) v @ ''\<newline>'' else []) cfs)
           @ ''\<newline>''
      else [])"

definition comment_line :: "env \<Rightarrow> string \<times> string \<times> json \<Rightarrow> string" where
  "comment_line E c =
     (case c of (body, created, author) \<Rightarrow>
        created @ '' - '' @ py_str (repr E) author @ '': '' @ body)"

definition get_issue :: "env \<Rightarrow> json \<Rightarrow> json \<Rightarrow> Document M" where
  "get_issue E issue_key' expand =
     try_except
       (bindM (remote_call E ''jira.issue'' [issue_key', expand]) (\<lambda>issue.
        bindM (lift (bindE (getitem issue ''fields'') (\<lambda>f.
                     bindE (get_default f ''description'' (JStr [])) (clean_text E))))
          (\<lambda>description'.
        bindM (lift (bindE (getitem issue ''fields'') (\<lambda>f.
                     bindE (contains f ''comment'') (\<lambda>has.
                       if has
                       then bindE (getitem issue ''fields'') (\<lambda>f1.
                            bindE (getitem f1 ''comment'') (\<lambda>c.
                            bindE (getitem c ''comments'') (\<lambda>cs.
                            bindE (iterate cs) (mapE (issue_comment E)))))
                       else Inr [])))) (\<lambda>comments.
        bindM (lift (bindE (getitem issue ''fields'') (\<lambda>f.
                     bindE (getitem f ''created'') (format_date E)))) (\<lambda>formatted_created.
        bindM (lift (bindE (getitem issue ''fields'') (\<lambda>f.
                     issue_custom_fields f (CUSTOM_FIELD_MAPPINGS E) []))) (\<lambda>cfs.
        bindM (lift (bindE (getitem issue ''fields'') (\<lambda>f.
                     get_default f ''summary'' (JStr [])))) (\<lambda>c_title.
        bindM (lift (bindE (getitem issue ''fields'') (\<lambda>f.
                     bindE (getitem f ''issuetype'') (\<lambda>t. getitem t ''name'')))) (\<lambda>c_type.
        bindM (lift (bindE (getitem issue ''fields'') (\<lambda>f.
                     bindE (getitem f ''status'') (\<lambda>t. getitem t ''name'')))) (\<lambda>c_status.
        bindM (lift (bindE (getitem issue ''fields'') (\<lambda>f.
                     get_default f ''summary'' (JStr [])))) (\<lambda>m_title.
        bindM (lift (bindE (getitem issue ''fields'') (\<lambda>f.
                     bindE (getitem f ''issuetype'') (\<lambda>t. getitem t ''name'')))) (\<lambda>m_type.
        bindM (lift (bindE (getitem issue ''fields'') (\<lambda>f.
                     bindE (getitem f ''status'') (\<lambda>t. getitem t ''name'')))) (\<lambda>m_status.
        bindM (lift (bindE (getitem issue ''fields'') (\<lambda>f.
                     bindE (get_default f ''priority'' (JDict []))
                       (\<lambda>p. get_default p ''name'' (JStr ''None''))))) (\<lambda>m_priority.
        returnM
          \<lparr> page_content = JStr
              (''Issue: '' @ py_str (repr E) issue_key' @ ''\<newline>''
               @ ''Title: '' @ py_str (repr E) c_title @ ''\<newline>''
               @ ''Type: '' @ py_str (repr E) c_type @ ''\<newline>''
               @ ''Status: '' @ py_str (repr E) c_status @ ''\<newline>''
               @ ''Created: '' @ formatted_created @ ''\<newline>''
               @ ''\<newline>''
               @ ''Description:\<newline>''
               @ description' @ ''\<newline>''
               @ ''\<newline>''
               @ custom_fields_text E cfs
               @ ''Comments:\<newline>'' @ join ''\<newline>'' (map (comment_line E) comments)),
            metadata =
              [(''key'', issue_key'),
               (''title'', m_title),
               (''type'', m_type),
               (''status'', m_status),
               (''created_date'', JStr formatted_created),
               (''priority'', m_priority),
               (''link'', JStr (rstrip CHR ''/'' (jira_url E) @ ''/browse/''
                                 @ py_str (repr E) issue_key')),
               (''custom_fields'', JDict cfs)] \<rparr>)))))))))))))
       (\<lambda>e. bindM (log Error (''Error fetching issue '' @ py_str (repr E) issue_key' @ '': ''
                                @ exn_str e)) (\<lambda>_. raise e))"

definition search_issues ::
  "env \<Rightarrow> json \<Rightarrow> json \<Rightarrow> int \<Rightarrow> int \<Rightarrow> json \<Rightarrow> Document list M" where
  "search_issues E jql flds start limit expand =
     try_except
       (bindM (remote_call E ''jira.jql'' [jql, flds, JInt start, JInt limit, expand])
          (\<lambda>results.
        bindM (lift (bindE (getitem results ''issues'') iterate)) (\<lambda>issues.
        mapM (\<lambda>issue. bindM (lift (getitem issue ''key'')) (\<lambda>k. get_issue E k expand))
          issues)))
       (\<lambda>e. bindM (log Error (''Error searching issues with JQL '' @ py_str (repr E) jql
                                @ '': '' @ exn_str e)) (\<lambda>_. raise e))"

definition get_project_issues :: "env \<Rightarrow> json \<Rightarrow> int \<Rightarrow> int \<Rightarrow> Document list M" where
  "get_project_issues E project_key' start limit =
     search_issues E
       (JStr (''project = '' @ py_str (repr E) project_key' @ '' ORDER BY created DESC''))
       (JStr ''*all'') start limit JNull"

text \<open>\<^verbatim>\<open>fields.update(processed_fields)\<close>\<close>

definition dict_update :: "(string \<times> json) list \<Rightarrow> (string \<times> json) list \<Rightarrow> (string \<times> json) list" where
  "dict_update d new = foldl (\<lambda>acc kv. AList.update (fst kv) (snd kv) acc) d new"

text \<open>
  \<^verbatim>\<open>create_issue\<close>. The dict \<^verbatim>\<open>fields\<close> passes through three steps before it is
  sent: the literal written first, the branch for the issue type, and the custom fields.
\<close>

definition initial_fields :: "JiraIssueCreate \<Rightarrow> (string \<times> json) list" where
  "initial_fields request =
     [(''project'', JDict [(''key'', JStr (project_key request))]),
      (''summary'', JStr (summary request)),
      (''description'', JStr (description request)),
      (''issuetype'', JDict [(''name'', JStr (issue_type request))])]"

text \<open>\<^verbatim>\<open>not epic or epic["fields"]["issuetype"]["name"] != "Epic"\<close>\<close>

definition epic_link_invalid :: "json \<Rightarrow> exn + bool" where
  "epic_link_invalid epic =
     (if \<not> truthy epic then Inr True
      else bindE (getitem epic ''fields'') (\<lambda>f.
           bindE (getitem f ''issuetype'') (\<lambda>t.
           bindE (getitem t ''name'') (\<lambda>n.
           Inr (n \<noteq> JStr ''Epic'')))))"

text \<open>
  \<^verbatim>\<open>f = self._get_custom_field_id(name)\<close> followed by \<^verbatim>\<open>if f: fields[f] = v\<close>
\<close>

definition set_named_field ::
  "env \<Rightarrow> string \<Rightarrow> json \<Rightarrow> (string \<times> json) list \<Rightarrow> (string \<times> json) list M" where
  "set_named_field E name v flds =
     bindM (get_custom_field_id E name) (\<lambda>field_id.
       case field_id of
         Some i \<Rightarrow> if i \<noteq> [] then returnM (AList.update i v flds) else returnM flds
       | None \<Rightarrow> returnM flds)"

text \<open>The branches \<^verbatim>\<open>if request.issue_type == "Epic"\<close> and
  \<^verbatim>\<open>elif request.issue_type == "Story" and request.epic_link\<close>.\<close>

definition type_specific_fields ::
  "env \<Rightarrow> JiraIssueCreate \<Rightarrow> (string \<times> json) list \<Rightarrow> (string \<times> json) list M" where
  "type_specific_fields E request flds =
     (if issue_type request = ''Epic''
      then set_named_field E ''Epic Name'' (JStr (summary request)) flds
      else
        (case epic_link request of
           Some link \<Rightarrow>
             if issue_type request = ''Story'' \<and> link \<noteq> []
             then
               bindM (remote_call E ''jira.issue'' [JStr link]) (\<lambda>epic.
               bindM (lift (epic_link_invalid epic)) (\<lambda>invalid.
               if invalid
               then raise (Exn ValueError (''Invalid epic link: '' @ link))
               else set_named_field E ''Epic Link'' (JStr link) flds))
             else returnM flds
         | None \<Rightarrow> returnM flds))"

text \<open>The block \<^verbatim>\<open>if request.custom_fields:\<close>\<close>

definition with_custom_fields ::
  "env \<Rightarrow> JiraIssueCreate \<Rightarrow> (string \<times> json) list \<Rightarrow> (string \<times> json) list M" where
  "with_custom_fields E request flds =
     (if custom_fields request \<noteq> []
      then bindM (process_custom_fields E (custom_fields request))
             (\<lambda>processed_fields. returnM (dict_update flds processed_fields))
      else returnM flds)"

text \<open>The body of the \<^verbatim>\<open>try\<close> block of \<^verbatim>\<open>create_issue\<close>.\<close>

definition create_issue_try :: "env \<Rightarrow> JiraIssueCreate \<Rightarrow> Document M" where
  "create_issue_try E request =
     bindM (remote_call E ''jira.project'' [JStr (project_key request)]) (\<lambda>project.
     if \<not> truthy project
     then raise (Exn ValueError (''Project '' @ project_key request @ '' does not exist''))
     else
     bindM (type_specific_fields E request (initial_fields request)) (\<lambda>fields1.
     bindM (with_custom_fields E request fields1) (\<lambda>fields2.
     bindM (remote_call E ''jira.create_issue'' [JDict fields2]) (\<lambda>issue.
     bindM (lift (getitem issue ''key'')) (\<lambda>k.
     get_issue E k JNull)))))"

definition create_issue :: "env \<Rightarrow> JiraIssueCreate \<Rightarrow> Document M" where
  "create_issue E request =
     try_except (create_issue_try E request)
       (\<lambda>e. bindM (log Error (''Error creating issue: '' @ exn_str e)) (\<lambda>_. raise e))"

text \<open>The loop over \<^verbatim>\<open>request.fields.items()\<close> in \<^verbatim>\<open>update_issue\<close>.\<close>

fun update_fields_loop ::
  "env \<Rightarrow> (string \<times> json) list \<Rightarrow> (string \<times> json) list \<Rightarrow> (string \<times> json) list M" where
  "update_fields_loop E [] flds = returnM flds"
| "update_fields_loop E ((field_name, v) # rest) flds =
     bindM (get_custom_field_id E field_name) (\<lambda>field_id.
       case field_id of
         Some i \<Rightarrow>
           if i \<noteq> []
           then update_fields_loop E rest (AList.update i v flds)
           else update_fields_loop E rest (AList.update (str_lower E field_name) v flds)
       | None \<Rightarrow> update_fields_loop E rest (AList.update (str_lower E field_name) v flds))"

definition session_put_call :: "env \<Rightarrow> string \<Rightarrow> json \<Rightarrow> response M" where
  "session_put_call E url payload =
     (\<lambda>s. (session_put E (calls s) url payload,
            s\<lparr>calls := calls s @ [Call ''jira._session.put'' [JStr url, payload]]\<rparr>))"

text \<open>The body of the \<^verbatim>\<open>try\<close> block of \<^verbatim>\<open>update_issue\<close>.\<close>

definition update_issue_try :: "env \<Rightarrow> JiraIssueUpdate \<Rightarrow> Document M" where
  "update_issue_try E request =
     bindM (remote_call E ''jira.issue'' [JStr (issue_key request)]) (\<lambda>current_issue.
     if \<not> truthy current_issue
     then raise (Exn ValueError (''Issue '' @ issue_key request @ '' does not exist''))
     else
     bindM (update_fields_loop E (fields' request) []) (\<lambda>flds.
     bindM (session_put_call E (get_url E (''rest/api/2/issue/'' @ issue_key request))
              (JDict [(''fields'', JDict flds)])) (\<lambda>response.
     if status_code response \<notin> set [200, 204]
     then (let error_msg = ''Failed to update issue. Status: '' @ str_int (status_code response)
                             @ '', Response: '' @ resp_text response
           in bindM (log Error error_msg) (\<lambda>_. raise (Exn ValueError error_msg)))
     else get_issue E (JStr (issue_key request)) JNull)))"

definition update_issue :: "env \<Rightarrow> JiraIssueUpdate \<Rightarrow> Document M" where
  "update_issue E request =
     try_except (update_issue_try E request)
       (\<lambda>e. bindM (log Error (''Error updating issue: '' @ exn_str e)) (\<lambda>_. raise e))"

text \<open>
  The key that each of the two loops writes for a field name. \<^verbatim>\<open>_process_custom_fields\<close>
  writes \<^verbatim>\<open>processed_fields[field_id]\<close> under the test \<^verbatim>\<open>if field_id\<close> and nothing
  otherwise; \<^verbatim>\<open>update_issue\<close> writes \<^verbatim>\<open>fields[field_id]\<close> under the same test and
  \<^verbatim>\<open>fields[field_name.lower()]\<close> otherwise.
\<close>

definition processed_key :: "env \<Rightarrow> string \<Rightarrow> string option" where
  "processed_key E field_name =
     (case map_of (CUSTOM_FIELD_MAPPINGS E) field_name of
        Some i \<Rightarrow> if i \<noteq> [] then Some i else None
      | None \<Rightarrow> None)"

definition update_key :: "env \<Rightarrow> string \<Rightarrow> string" where
  "update_key E field_name =
     (case map_of (CUSTOM_FIELD_MAPPINGS E) field_name of
        Some i \<Rightarrow> if i \<noteq> [] then i else str_lower E field_name
      | None \<Rightarrow> str_lower E field_name)"

section \<open>JiraManager, the variant in mcp_atlassian_ib/jira.py\<close>

text \<open>
  The second copy of jira.py differs from the first in \<^verbatim>\<open>_get_custom_field_id\<close>, which
  treats a name that starts with \<^verbatim>\<open>customfield_\<close> separately, in the custom-field
  lines of the issue text, and in \<^verbatim>\<open>create_issue\<close>, which writes the loop over the
  custom fields in place. What is the same text in both files is shared:
  \<open>issue_comment\<close>, \<open>issue_custom_fields\<close>, \<open>comment_line\<close>, \<open>initial_fields\<close> and
  \<open>epic_link_invalid\<close>.
\<close>

definition get_custom_field_id_ib :: "env \<Rightarrow> string \<Rightarrow> string option M" where
  "get_custom_field_id_ib E field_name =
     (if startswith field_name ''customfield_''
      then (let field_id = map_of (CUSTOM_FIELD_MAPPINGS E) field_name
            in if truthy_id field_id then returnM field_id
               else bindM (log Warning (''Unknown custom field ID: '' @ field_name))
                      (\<lambda>_. returnM None))
      else (let field_id = map_of (CUSTOM_FIELD_MAPPINGS E) field_name
            in if \<not> truthy_id field_id
               then bindM (log Warning (''Unknown custom field name: '' @ field_name))
                      (\<lambda>_. returnM field_id)
               else returnM field_id))"

definition custom_fields_text_ib :: "env \<Rightarrow> (string \<times> json) list \<Rightarrow> string" where
  "custom_fields_text_ib E cfs =
     (if cfs \<noteq> []
      then ''Custom Fields:\<newline>''
           @ concat (map (\<lambda>(name, v).
                 if truthy v \<and> \<not> startswith name ''customfield_''
                 then name @ '': '' @ py_str (repr E) v @ ''\<newline>'' else []) cfs)
           @ ''\<newline>''
      else [])"

definition get_issue_ib :: "env \<Rightarrow> json \<Rightarrow> json \<Rightarrow> Document M" where
  "get_issue_ib E issue_key' expand =
     try_except
       (bindM (remote_call E ''jira.issue'' [issue_key', expand]) (\<lambda>issue.
        bindM (lift (bindE (getitem issue ''fields'') (\<lambda>f.
                     bindE (get_default f ''description'' (JStr [])) (clean_text E))))
          (\<lambda>description'.
        bindM (lift (bindE (getitem issue ''fields'') (\<lambda>f.
                     bindE (contains f ''comment'') (\<lambda>has.
                       if has
                       then bindE (getitem issue ''fields'') (\<lambda>f1.
                            bindE (getitem f1 ''comment'') (\<lambda>c.
                            bindE (getitem c ''comments'') (\<lambda>cs.
                            bindE (iterate cs) (mapE (issue_comment E)))))
                       else Inr [])))) (\<lambda>comments.
        bindM (lift (bindE (getitem issue ''fields'') (\<lambda>f.
                     bindE (getitem f ''created'') (format_date E)))) (\<lambda>formatted_created.
        bindM (lift (bindE (getitem issue ''fields'') (\<lambda>f.
                     issue_custom_fields f (CUSTOM_FIELD_MAPPINGS E) []))) (\<lambda>cfs.
        bindM (lift (bindE (getitem issue ''fields'') (\<lambda>f.
                     get_default f ''summary'' (JStr [])))) (\<lambda>c_title.
        bindM (lift (bindE (getitem issue ''fields'') (\<lambda>f.
                     bindE (getitem f ''issuetype'') (\<lambda>t. getitem t ''name'')))) (\<lambda>c_type.
        bindM (lift (bindE (getitem issue ''fields'') (\<lambda>f.
                     bindE (getitem f ''status'') (\<lambda>t. getitem t ''name'')))) (\<lambda>c_status.
        bindM (lift (bindE (getitem issue ''fields'') (\<lambda>f.
                     get_default f ''summary'' (JStr [])))) (\<lambda>m_title.
        bindM (lift (bindE (getitem issue ''fields'') (\<lambda>f.
                     bindE (getitem f ''issuetype'') (\<lambda>t. getitem t ''name'')))) (\<lambda>m_type.
        bindM (lift (bindE (getitem issue ''fields'') (\<lambda>f.
                     bindE (getitem f ''status'') (\<lambda>t. getitem t ''name'')))) (\<lambda>m_status.
        bindM (lift (bindE (getitem issue ''fields'') (\<lambda>f.
                     bindE (get_default f ''priority'' (JDict []))
                       (\<lambda>p. get_default p ''name'' (JStr ''None''))))) (\<lambda>m_priority.
        returnM
          \<lparr> page_content = JStr
              (''Issue: '' @ py_str (repr E) issue_key' @ ''\<newline>''
               @ ''Title: '' @ py_str (repr E) c_title @ ''\<newline>''
               @ ''Type: '' @ py_str (repr E) c_type @ ''\<newline>''
               @ ''Status: '' @ py_str (repr E) c_status @ ''\<newline>''
               @ ''Created: '' @ formatted_created @ ''\<newline>''
               @ ''\<newline>''
               @ ''Description:\<newline>''
               @ description' @ ''\<newline>''
               @ ''\<newline>''
               @ custom_fields_text_ib E cfs
               @ ''Comments:\<newline>'' @ join ''\<newline>'' (map (comment_line E) comments)),
            metadata =
              [(''key'', issue_key'),
               (''title'', m_title),
               (''type'', m_type),
               (''status'', m_status),
               (''created_date'', JStr formatted_created),
               (''priority'', m_priority),
               (''link'', JStr (rstrip CHR ''/'' (jira_url E) @ ''/browse/''
                                 @ py_str (repr E) issue_key')),
               (''custom_fields'', JDict cfs)] \<rparr>)))))))))))))
       (\<lambda>e. bindM (log Error (''Error fetching issue '' @ py_str (repr E) issue_key' @ '': ''
                                @ exn_str e)) (\<lambda>_. raise e))"

definition set_named_field_ib ::
  "env \<Rightarrow> string \<Rightarrow> json \<Rightarrow> (string \<times> json) list \<Rightarrow> (string \<times> json) list M" where
  "set_named_field_ib E name v flds =
     bindM (get_custom_field_id_ib E name) (\<lambda>field_id.
       case field_id of
         Some i \<Rightarrow> if i \<noteq> [] then returnM (AList.update i v flds) else returnM flds
       | None \<Rightarrow> returnM flds)"

definition type_specific_fields_ib ::
  "env \<Rightarrow> JiraIssueCreate \<Rightarrow> (string \<times> json) list \<Rightarrow> (string \<times> json) list M" where
  "type_specific_fields_ib E request flds =
     (if issue_type request = ''Epic''
      then set_named_field_ib E ''Epic Name'' (JStr (summary request)) flds
      else
        (case epic_link request of
           Some link \<Rightarrow>
             if issue_type request = ''Story'' \<and> link \<noteq> []
             then
               bindM (remote_call E ''jira.issue'' [JStr link]) (\<lambda>epic.
               bindM (lift (epic_link_invalid epic)) (\<lambda>invalid.
               if invalid
               then raise (Exn ValueError (''Invalid epic link: '' @ link))
               else set_named_field_ib E ''Epic Link'' (JStr link) flds))
             else returnM flds
         | None \<Rightarrow> returnM flds))"

text \<open>The loop over \<^verbatim>\<open>request.custom_fields.items()\<close>, on the dict \<^verbatim>\<open>fields\<close> itself.\<close>

fun custom_fields_loop_ib ::
  "env \<Rightarrow> (string \<times> json) list \<Rightarrow> (string \<times> json) list \<Rightarrow> (string \<times> json) list M" where
  "custom_fields_loop_ib E [] flds = returnM flds"
| "custom_fields_loop_ib E ((field_name, v) # rest) flds =
     bindM (set_named_field_ib E field_name v flds) (custom_fields_loop_ib E rest)"

definition create_issue_try_ib :: "env \<Rightarrow> JiraIssueCreate \<Rightarrow> Document M" where
  "create_issue_try_ib E request =
     bindM (remote_call E ''jira.project'' [JStr (project_key request)]) (\<lambda>project.
     if \<not> truthy project
     then raise (Exn ValueError (''Project '' @ project_key request @ '' does not exist''))
     else
     bindM (type_specific_fields_ib E request (initial_fields request)) (\<lambda>fields1.
     bindM (if custom_fields request \<noteq> []
            then custom_fields_loop_ib E (custom_fields request) fields1
            else returnM fields1) (\<lambda>fields2.
     bindM (remote_call E ''jira.create_issue'' [JDict fields2]) (\<lambda>issue.
     bindM (lift (getitem issue ''key'')) (\<lambda>k.
     get_issue_ib E k JNull)))))"

definition create_issue_ib :: "env \<Rightarrow> JiraIssueCreate \<Rightarrow> Document M" where
  "create_issue_ib E request =
     try_except (create_issue_try_ib E request)
       (\<lambda>e. bindM (log Error (''Error creating issue: '' @ exn_str e)) (\<lambda>_. raise e))"

section \<open>The tool and resource routers (server.py)\<close>

datatype TextContent = TextContent string

text \<open>\<^verbatim>\<open>int(x)\<close>\<close>

fun py_int :: "env \<Rightarrow> json \<Rightarrow> exn + int" where
  "py_int E (JInt n) = Inr n"
| "py_int E (JBool b) = Inr (if b then 1 else 0)"
| "py_int E (JStr s) = int_of_str E s"
| "py_int E v = Inl (Exn TypeError ''int() argument must be a string, a bytes-like object or a real number'')"

text \<open>\<^verbatim>\<open>min(int(arguments.get("limit", 10)), 50)\<close>, written three times in \<^verbatim>\<open>call_tool\<close>.\<close>

definition effective_limit :: "env \<Rightarrow> json \<Rightarrow> exn + int" where
  "effective_limit E arguments =
     bindE (get_default arguments ''limit'' (JInt 10)) (\<lambda>l.
     bindE (py_int E l) (\<lambda>n. Inr (min n 50)))"

text \<open>\<^verbatim>\<open>doc.metadata[k]\<close>\<close>

definition meta :: "Document \<Rightarrow> string \<Rightarrow> exn + json" where
  "meta doc k = getitem (JDict (metadata doc)) k"

text \<open>
  \<^verbatim>\<open>doc.page_content[:500] + "..." if len(doc.page_content) > 500 else doc.page_content\<close>
\<close>

fun excerpt :: "json \<Rightarrow> exn + json" where
  "excerpt (JStr s) = Inr (if length s > 500 then JStr (take 500 s @ ''...'') else JStr s)"
| "excerpt (JList xs) =
     (if length xs > 500 then Inl (Exn TypeError ''can only concatenate list (not str) to list'')
      else Inr (JList xs))"
| "excerpt (JDict kvs) =
     (if length kvs > 500 then Inl (Exn TypeError ''unhashable type: slice'')
      else Inr (JDict kvs))"
| "excerpt v = Inl (Exn TypeError ''object has no len()'')"

definition confluence_search_result :: "Document \<Rightarrow> exn + json" where
  "confluence_search_result doc =
     bindE (meta doc ''page_id'') (\<lambda>a.
     bindE (meta doc ''title'') (\<lambda>b.
     bindE (meta doc ''space'') (\<lambda>c.
     bindE (meta doc ''url'') (\<lambda>d.
     bindE (meta doc ''last_modified'') (\<lambda>e.
     bindE (meta doc ''type'') (\<lambda>f.
     Inr (JDict [(''page_id'', a), (''title'', b), (''space'', c), (''url'', d),
                 (''last_modified'', e), (''type'', f),
                 (''excerpt'', page_content doc)])))))))"

definition formatted_comment :: "Document \<Rightarrow> exn + json" where
  "formatted_comment comment =
     bindE (meta comment ''author_name'') (\<lambda>a.
     bindE (meta comment ''last_modified'') (\<lambda>b.
     Inr (JDict [(''author'', a), (''created'', b), (''content'', page_content comment)])))"

definition jira_search_result :: "Document \<Rightarrow> exn + json" where
  "jira_search_result doc =
     bindE (meta doc ''key'') (\<lambda>a.
     bindE (meta doc ''title'') (\<lambda>b.
     bindE (meta doc ''type'') (\<lambda>c.
     bindE (meta doc ''status'') (\<lambda>d.
     bindE (meta doc ''created_date'') (\<lambda>e.
     bindE (meta doc ''priority'') (\<lambda>f.
     bindE (meta doc ''link'') (\<lambda>g.
     bindE (excerpt (page_content doc)) (\<lambda>x.
     Inr (JDict [(''key'', a), (''title'', b), (''type'', c), (''status'', d),
                 (''created_date'', e), (''priority'', f), (''link'', g),
                 (''excerpt'', x)])))))))))"

definition project_issue :: "Document \<Rightarrow> exn + json" where
  "project_issue doc =
     bindE (meta doc ''key'') (\<lambda>a.
     bindE (meta doc ''title'') (\<lambda>b.
     bindE (meta doc ''type'') (\<lambda>c.
     bindE (meta doc ''status'') (\<lambda>d.
     bindE (meta doc ''created_date'') (\<lambda>e.
     bindE (meta doc ''link'') (\<lambda>g.
     Inr (JDict [(''key'', a), (''title'', b), (''type'', c), (''status'', d),
                 (''created_date'', e), (''link'', g)])))))))"

definition content_and_metadata :: "Document \<Rightarrow> json" where
  "content_and_metadata doc =
     JDict [(''content'', page_content doc), (''metadata'', JDict (metadata doc))]"

definition text_result :: "env \<Rightarrow> json \<Rightarrow> TextContent list" where
  "text_result E v = [TextContent (json_dumps E v)]"

text \<open>
  server.py imports \<^verbatim>\<open>ConfluenceManager\<close> and \<^verbatim>\<open>JiraManager\<close> only. The request
  classes are not bound in the module, so each branch that builds one raises
  \<^verbatim>\<open>NameError\<close> when the name is looked up, before any argument is read.
\<close>

definition name_error :: "string \<Rightarrow> exn" where
  "name_error n = Exn NameError (''name '' @ quoted n @ '' is not defined'')"

text \<open>The body of the \<^verbatim>\<open>try\<close> block of \<^verbatim>\<open>call_tool\<close>.\<close>

definition dispatch :: "env \<Rightarrow> string \<Rightarrow> json \<Rightarrow> TextContent list M" where
  "dispatch E name arguments =
     (if name = ''confluence_search'' then
        bindM (lift (effective_limit E arguments)) (\<lambda>limit.
        bindM (lift (getitem arguments ''query'')) (\<lambda>q.
        bindM (search E q limit) (\<lambda>documents.
        bindM (lift (mapE confluence_search_result documents)) (\<lambda>search_results.
        returnM (text_result E (JList search_results))))))
      else if name = ''confluence_get_page'' then
        bindM (lift (getitem arguments ''page_id'')) (\<lambda>pid.
        bindM (get_page_content E pid True) (\<lambda>doc.
        bindM (lift (get_default arguments ''include_metadata'' (JBool True))) (\<lambda>include_metadata.
        returnM (text_result E
          (if truthy include_metadata then content_and_metadata doc
           else JDict [(''content'', page_content doc)])))))
      else if name = ''confluence_create_page'' then raise (name_error ''ConfluencePageCreate'')
      else if name = ''confluence_update_page'' then raise (name_error ''ConfluencePageUpdate'')
      else if name = ''confluence_get_comments'' then
        bindM (lift (getitem arguments ''page_id'')) (\<lambda>pid.
        bindM (get_page_comments E pid True) (\<lambda>comments.
        bindM (lift (mapE formatted_comment comments)) (\<lambda>formatted_comments.
        returnM (text_result E (JList formatted_comments)))))
      else if name = ''jira_get_issue'' then
        bindM (lift (getitem arguments ''issue_key'')) (\<lambda>k.
        bindM (lift (get_default arguments ''expand'' JNull)) (\<lambda>expand.
        bindM (get_issue E k expand) (\<lambda>doc.
        returnM (text_result E (content_and_metadata doc)))))
      else if name = ''jira_create_epic'' then raise (name_error ''JiraIssueCreate'')
      else if name = ''jira_create_story'' then raise (name_error ''JiraIssueCreate'')
      else if name = ''jira_update_issue'' then raise (name_error ''JiraIssueUpdate'')
      else if name = ''jira_search'' then
        bindM (lift (effective_limit E arguments)) (\<lambda>limit.
        bindM (lift (getitem arguments ''jql'')) (\<lambda>jql.
        bindM (lift (get_default arguments ''fields'' (JStr ''*all''))) (\<lambda>flds.
        bindM (search_issues E jql flds 0 limit JNull) (\<lambda>documents.
        bindM (lift (mapE jira_search_result documents)) (\<lambda>search_results.
        returnM (text_result E (JList search_results)))))))
      else if name = ''jira_get_project_issues'' then
        bindM (lift (effective_limit E arguments)) (\<lambda>limit.
        bindM (lift (getitem arguments ''project_key'')) (\<lambda>pk.
        bindM (get_project_issues E pk 0 limit) (\<lambda>documents.
        bindM (lift (mapE project_issue documents)) (\<lambda>project_issues.
        returnM (text_result E (JList project_issues))))))
      else raise (Exn ValueError (''Unknown tool: '' @ name)))"

definition call_tool :: "env \<Rightarrow> string \<Rightarrow> json \<Rightarrow> TextContent list M" where
  "call_tool E name arguments =
     try_except (dispatch E name arguments)
       (\<lambda>e. bindM (log Error (''Tool execution error: '' @ exn_str e))
               (\<lambda>_. raise (Exn RuntimeError (''Tool execution failed: '' @ exn_str e))))"

definition space_page_text :: "env \<Rightarrow> Document \<Rightarrow> exn + string" where
  "space_page_text E doc =
     bindE (meta doc ''title'') (\<lambda>t.
     Inr (''# '' @ py_str (repr E) t @ ''\<newline>\<newline>'' @ py_str (repr E) (page_content doc)
          @ ''\<newline>---''))"

definition project_issue_text :: "env \<Rightarrow> Document \<Rightarrow> exn + string" where
  "project_issue_text E issue =
     bindE (meta issue ''key'') (\<lambda>k.
     bindE (meta issue ''title'') (\<lambda>t.
     Inr (''# '' @ py_str (repr E) k @ '': '' @ py_str (repr E) t @ ''\<newline>\<newline>''
          @ py_str (repr E) (page_content issue) @ ''\<newline>---'')))"

definition invalid_resource :: "string \<Rightarrow> exn" where
  "invalid_resource uri_str = Exn ValueError (''Invalid resource URI: '' @ uri_str)"

definition read_resource :: "env \<Rightarrow> string \<Rightarrow> json M" where
  "read_resource E uri_str =
     (if startswith uri_str ''confluence://'' then
        (let parts = split CHR ''/'' (replace ''confluence://'' [] uri_str)
         in if length parts = 1 then
              bindM (get_space_pages E (parts ! 0) 0 10 True) (\<lambda>documents.
              bindM (lift (mapE (space_page_text E) documents)) (\<lambda>content'.
              returnM (JStr (join ''\<newline>\<newline>'' content'))))
            else if length parts \<ge> 3 \<and> parts ! 1 = ''pages'' then
              bindM (get_page_by_title E (parts ! 0) (parts ! 2) True) (\<lambda>doc.
              case doc of
                None \<Rightarrow> raise (Exn ValueError (''Page not found: '' @ parts ! 2))
              | Some d \<Rightarrow> returnM (page_content d))
            else raise (invalid_resource uri_str))
      else if startswith uri_str ''jira://'' then
        (let parts = split CHR ''/'' (replace ''jira://'' [] uri_str)
         in if length parts = 1 then
              bindM (get_project_issues E (JStr (parts ! 0)) 0 50) (\<lambda>issues.
              bindM (lift (mapE (project_issue_text E) issues)) (\<lambda>content'.
              returnM (JStr (join ''\<newline>\<newline>'' content'))))
            else if length parts \<ge> 3 \<and> parts ! 1 = ''issues'' then
              bindM (get_issue E (JStr (parts ! 2)) JNull) (\<lambda>issue.
              returnM (page_content issue))
            else raise (invalid_resource uri_str))
      else raise (invalid_resource uri_str))"

section \<open>Sample environments\<close>

text \<open>
  Concrete remote sides on which the operations are run below. \<open>sample_remote\<close> serves one
  Confluence page at version 7, a search with a page hit and a comment hit, the epic
  \<^verbatim>\<open>DEV-1\<close>, the story \<^verbatim>\<open>DEV-9\<close> and a project; \<open>failing_remote\<close> answers every call
  with a transport error.
\<close>

definition sample_page :: json where
  "sample_page =
     JDict [(''id'', JStr ''123''),
            (''title'', JStr ''Home''),
            (''space'', JDict [(''key'', JStr ''DEV''), (''name'', JStr ''Development'')]),
            (''body'', JDict [(''storage'', JDict [(''value'', JStr ''<p>Hello</p>'')])]),
            (''version'', JDict [(''number'', JInt 7),
                                 (''when'', JStr ''2024-01-05T10:00:00Z''),
                                 (''by'', JDict [(''displayName'', JStr ''Ann'')])])]"

definition sample_hit_page :: json where
  "sample_hit_page =
     JDict [(''content'', JDict [(''id'', JStr ''123''), (''type'', JStr ''page'')]),
            (''title'', JStr ''Home''),
            (''url'', JStr ''/spaces/DEV/pages/123''),
            (''excerpt'', JStr ''Hello'')]"

definition sample_hit_comment :: json where
  "sample_hit_comment =
     JDict [(''content'', JDict [(''id'', JStr ''456''), (''type'', JStr ''comment'')]),
            (''title'', JStr ''Re: Home''),
            (''url'', JStr ''/spaces/DEV/pages/123#comment-456''),
            (''excerpt'', JStr ''Thanks'')]"

definition sample_hits :: json where
  "sample_hits = JDict [(''results'', JList [sample_hit_page, sample_hit_comment])]"

definition sample_issue :: "string \<Rightarrow> json" where
  "sample_issue ty =
     JDict [(''key'', JStr ''DEV-1''),
            (''fields'', JDict
               [(''summary'', JStr ''X''),
                (''description'', JStr ''Some text''),
                (''issuetype'', JDict [(''name'', JStr ty)]),
                (''status'', JDict [(''name'', JStr ''Open'')]),
                (''created'', JStr ''2024-01-05T10:00:00Z''),
                (''comment'', JDict [(''comments'', JList
                   [JDict [(''body'', JStr ''Looks good''),
                           (''created'', JStr ''2024-02-29T23:59:59+05:30''),
                           (''author'', JDict [(''displayName'', JStr ''Bob'')])]])])])]"

fun sample_remote :: "call list \<Rightarrow> call \<Rightarrow> exn + json" where
  "sample_remote h (Call name args) =
     (if name = ''confluence.get_page_by_id'' then Inr sample_page
      else if name = ''confluence.get_page_by_title'' then Inr sample_page
      else if name = ''confluence.update_page'' then Inr (JDict [(''id'', JStr ''123'')])
      else if name = ''confluence.cql'' then Inr sample_hits
      else if name = ''jira.project'' then Inr (JDict [(''key'', JStr ''DEV'')])
      else if name = ''jira.issue'' then
        Inr (sample_issue (if take 1 args = [JStr ''DEV-9''] then ''Story'' else ''Epic''))
      else if name = ''jira.jql'' then
        Inr (JDict [(''issues'', JList [JDict [(''key'', JStr ''DEV-1'')]])])
      else if name = ''jira.create_issue'' then Inr (JDict [(''key'', JStr ''DEV-2'')])
      else Inl (Exn RemoteError ''404 Client Error: Not Found''))"

definition failing_remote :: "call list \<Rightarrow> call \<Rightarrow> exn + json" where
  "failing_remote h c = Inl (Exn RemoteError ''503 Server Error: Service Unavailable'')"

text \<open>
  The catalog of the sample environment is the seed written in the class body of
  \<^verbatim>\<open>JiraManager\<close>.
\<close>

definition seed_mappings :: "(string \<times> string) list" where
  "seed_mappings =
     [(''Epic Name'', ''customfield_10021''),
      (''Epic Link'', ''customfield_10019''),
      (''Acceptance Criteria'', ''customfield_11738''),
      (''Story Points'', ''customfield_10026'')]"

definition sample_text :: "json \<Rightarrow> exn + string" where
  "sample_text v = (case v of JStr s \<Rightarrow> Inr s | _ \<Rightarrow> Inl (Exn TypeError ''expected str''))"

text \<open>
  The names of the sample runs are ASCII; on such a string \<^verbatim>\<open>str.lower\<close> changes the
  letters A to Z and nothing else. The library of the sample environment is one that
  raises on every timestamp outside the common shape and pads the year to four digits.
\<close>

definition ascii_lower_char :: "char \<Rightarrow> char" where
  "ascii_lower_char c =
     (case map_of (zip ''ABCDEFGHIJKLMNOPQRSTUVWXYZ'' ''abcdefghijklmnopqrstuvwxyz'') c of
        Some l \<Rightarrow> l
      | None \<Rightarrow> c)"

definition ascii_lower :: "string \<Rightarrow> string" where
  "ascii_lower s = map ascii_lower_char s"

text \<open>A stand-in for \<^verbatim>\<open>json.dumps\<close> that spells out empty containers and scalars only.\<close>

definition sample_dumps :: "json \<Rightarrow> string" where
  "sample_dumps v =
     (case v of JList [] \<Rightarrow> ''[]'' | JDict [] \<Rightarrow> ''{}'' | _ \<Rightarrow> py_str (\<lambda>c. ''...'') v)"

definition sample_env :: "(call list \<Rightarrow> call \<Rightarrow> exn + json) \<Rightarrow> env" where
  "sample_env r =
     \<lparr> confluence_url = ''https://example.atlassian.net'',
       jira_url = ''https://example.atlassian.net/'',
       remote = r,
       session_put = (\<lambda>h url payload. Inr \<lparr> status_code = 204, resp_text = [] \<rparr>),
       get_url = (\<lambda>p. ''https://example.atlassian.net/'' @ p),
       process_html_content = (\<lambda>c k. bindE (sample_text c) (\<lambda>s. Inr (s, s))),
       clean_jira_text = sample_text,
       CUSTOM_FIELD_MAPPINGS = seed_mappings,
       json_dumps = sample_dumps,
       int_of_str = (\<lambda>s. Inl (Exn ValueError ''invalid literal for int() with base 10'')),
       repr = (\<lambda>v. ''...''),
       str_lower = ascii_lower,
       fromisoformat_other = (\<lambda>s. Inl (invalid_isoformat s)),
       strftime_year = zero_pad 4 \<rparr>"

text \<open>The document of the sample issue.\<close>

definition sample_issue_document :: Document where
  "sample_issue_document =
     \<lparr>page_content = JStr
        ''Issue: DEV-1\<newline>Title: X\<newline>Type: Epic\<newline>Status: Open\<newline>Created: 2024-01-05\<newline>\<newline>Description:\<newline>Some text\<newline>\<newline>Comments:\<newline>2024-02-29 - Bob: Looks good'',
      metadata =
        [(''key'', JStr ''DEV-1''), (''title'', JStr ''X''),
         (''type'', JStr ''Epic''), (''status'', JStr ''Open''),
         (''created_date'', JStr ''2024-01-05''),
         (''priority'', JStr ''None''),
         (''link'', JStr ''https://example.atlassian.net/browse/DEV-1''),
         (''custom_fields'', JDict [])]\<rparr>"

text \<open>
  An issue whose rendered content has 600 characters, behind a remote side that finds it
  in every search; a Confluence comment and a search hit that carry a timestamp.
\<close>

definition long_issue :: json where
  "long_issue =
     JDict [(''key'', JStr ''DEV-7''),
            (''fields'', JDict
               [(''summary'', JStr ''Long''),
                (''description'', JStr (replicate 504 CHR ''a'')),
                (''issuetype'', JDict [(''name'', JStr ''Story'')]),
                (''status'', JDict [(''name'', JStr ''Open'')]),
                (''created'', JStr ''2024-01-05T10:00:00Z'')])]"

fun long_remote :: "call list \<Rightarrow> call \<Rightarrow> exn + json" where
  "long_remote h (Call name args) =
     (if name = ''jira.jql'' then
        Inr (JDict [(''issues'', JList [JDict [(''key'', JStr ''DEV-7'')]])])
      else if name = ''jira.issue'' then Inr long_issue
      else Inl (Exn RemoteError ''404 Client Error: Not Found''))"

definition long_issue_document :: Document where
  "long_issue_document =
     \<lparr>page_content = JStr
        (''Issue: DEV-7\<newline>Title: Long\<newline>Type: Story\<newline>Status: Open\<newline>Created: 2024-01-05\<newline>\<newline>Description:\<newline>''
         @ replicate 504 CHR ''a'' @ ''\<newline>\<newline>Comments:\<newline>''),
      metadata =
        [(''key'', JStr ''DEV-7''), (''title'', JStr ''Long''),
         (''type'', JStr ''Story''), (''status'', JStr ''Open''),
         (''created_date'', JStr ''2024-01-05''),
         (''priority'', JStr ''None''),
         (''link'', JStr ''https://example.atlassian.net/browse/DEV-7''),
         (''custom_fields'', JDict [])]\<rparr>"

definition sample_page_comment :: json where
  "sample_page_comment =
     JDict [(''id'', JStr ''456''),
            (''body'', JDict [(''view'', JDict [(''value'', JStr ''<p>Thanks</p>'')])]),
            (''version'', JDict [(''when'', JStr ''2024-03-01T08:30:00.000Z''),
                                 (''by'', JDict [(''displayName'', JStr ''Bob'')])])]"

definition sample_hit_dated :: json where
  "sample_hit_dated =
     JDict [(''content'', JDict [(''id'', JStr ''123''), (''type'', JStr ''page'')]),
            (''title'', JStr ''Home''),
            (''url'', JStr ''/spaces/DEV/pages/123''),
            (''lastModified'', JStr ''2024-01-05T10:00:00.000Z''),
            (''excerpt'', JStr ''Hello'')]"

definition s0 :: st where
  "s0 = \<lparr> calls = [], logs = [] \<rparr>"

section \<open>Running the effects\<close>

lemma bindM_lift: "bindM (lift r) f s = (case r of Inl e \<Rightarrow> (Inl e, s) | Inr x \<Rightarrow> f x s)"
  by (simp add: bindM_def lift_def split: sum.splits)

lemma bindM_returnM: "bindM (returnM x) f s = f x s"
  by (simp add: bindM_def returnM_def)

lemma bindM_raise: "bindM (raise e) f s = (Inl e, s)"
  by (simp add: bindM_def raise_def)

lemma bindM_log: "bindM (log lv msg) f s = f () (s\<lparr>logs := logs s @ [(lv, msg)]\<rparr>)"
  by (simp add: bindM_def log_def)

lemma bindM_remote_call:
  "bindM (remote_call E n a) f s =
     (case remote E (calls s) (Call n a) of
        Inl e \<Rightarrow> (Inl e, s\<lparr>calls := calls s @ [Call n a]\<rparr>)
      | Inr x \<Rightarrow> f x (s\<lparr>calls := calls s @ [Call n a]\<rparr>))"
  by (simp add: bindM_def remote_call_def split: sum.splits)

lemma returnM_apply: "returnM x s = (Inr x, s)"
  by (simp add: returnM_def)

lemma raise_apply: "raise e s = (Inl e, s)"
  by (simp add: raise_def)

lemma lift_apply: "lift r s = (r, s)"
  by (simp add: lift_def)

lemmas monad_simps = bindM_lift bindM_returnM bindM_raise bindM_log bindM_remote_call
  returnM_apply raise_apply lift_apply

lemma bindE_Inr_iff: "bindE r f = Inr y \<longleftrightarrow> (\<exists>x. r = Inr x \<and> f x = Inr y)"
  by (cases r) (simp_all add: bindE_def)

lemma get_page_content_calls:
  "calls (snd (get_page_content E i b s)) =
     calls s @ [Call ''confluence.get_page_by_id'' [i, JStr ''body.storage,version,space'']]"
  by (simp add: get_page_content_def monad_simps split: sum.splits prod.splits)

lemma get_page_content_callsD:
  "get_page_content E i b s = (r, s') \<Longrightarrow>
     calls s' = calls s @ [Call ''confluence.get_page_by_id'' [i, JStr ''body.storage,version,space'']]"
  using get_page_content_calls [of E i b s] by simp

lemma search_calls:
  "calls (snd (search E q l s)) = calls s @ [Call ''confluence.cql'' [q, JInt l]]"
  by (simp add: search_def search_try_def try_except_def monad_simps
      split: sum.splits prod.splits)

lemma search_callsD:
  "search E q l s = (r, s') \<Longrightarrow> calls s' = calls s @ [Call ''confluence.cql'' [q, JInt l]]"
  using search_calls [of E q l s] by simp

section \<open>Construction of an issue-create request\<close>

text \<open>
  C3. Constructing a \<^verbatim>\<open>JiraIssueCreate\<close> succeeds exactly when the issue type is
  \<^verbatim>\<open>'Epic'\<close> or \<^verbatim>\<open>'Story'\<close> and it is not an Epic that carries an epic link. When it
  does not succeed the outcome is a \<^verbatim>\<open>ValueError\<close> and no object. A request built without
  a custom-fields argument has the empty mapping as its custom fields.
\<close>

theorem C3_issue_create_construction:
  "((\<exists>r. new_JiraIssueCreate pk sm ds ty el cf = Inr r) \<longleftrightarrow>
      (ty = ''Epic'' \<or> ty = ''Story'') \<and> \<not> (ty = ''Epic'' \<and> el \<noteq> None))
   \<and> ((\<exists>r. new_JiraIssueCreate pk sm ds ty el cf = Inr r)
        \<or> (\<exists>msg. new_JiraIssueCreate pk sm ds ty el cf = Inl (Exn ValueError msg)))
   \<and> (\<forall>r. new_JiraIssueCreate pk sm ds ty el None = Inr r \<longrightarrow> custom_fields r = [])"
  by (auto simp: new_JiraIssueCreate_def)

theorem C3_issue_create_construction_witness:
  "(\<exists>r. new_JiraIssueCreate ''DEV'' ''X'' [] ''Story'' (Some ''DEV-1'') None = Inr r
        \<and> custom_fields r = [])
   \<and> (\<nexists>r. new_JiraIssueCreate ''DEV'' ''X'' [] ''Epic'' (Some ''DEV-1'') None = Inr r)
   \<and> (\<nexists>r. new_JiraIssueCreate ''DEV'' ''X'' [] ''Task'' None None = Inr r)"
  using C3_issue_create_construction [of "''DEV''" "''X''" "[]" "''Story''" "Some ''DEV-1''" None]
        C3_issue_create_construction [of "''DEV''" "''X''" "[]" "''Epic''" "Some ''DEV-1''" None]
        C3_issue_create_construction [of "''DEV''" "''X''" "[]" "''Task''" None None]
  by auto

section \<open>The optimistic version check of a page update\<close>

text \<open>
  C2. Let the remote side answer the version lookup of \<^verbatim>\<open>update_page\<close> with an existing
  page whose version number is \<open>cur\<close>. If \<open>cur\<close> differs from the version in the request,
  \<^verbatim>\<open>update_page\<close> fails with a \<^verbatim>\<open>ValueError\<close> whose message names both numbers, and the
  lookup is the only remote call it has made: no write is issued. If the two are equal, the
  next remote call is the write \<^verbatim>\<open>update_page\<close> with the page id, title and content of
  the request.
\<close>

theorem C2_update_page_version_guard:
  assumes fetched: "remote E (calls s) (Call ''confluence.get_page_by_id''
                      [JStr (page_id request), JStr ''version'']) = Inr current_page"
    and present: "truthy current_page"
    and current: "bindE (getitem current_page ''version'') (\<lambda>v. getitem v ''number'')
                    = Inr (JInt cur)"
  shows "(cur \<noteq> version request \<longrightarrow>
            fst (update_page E request s) =
              Inl (Exn ValueError (''Version conflict: current version is '' @ str_int cur
                     @ '', but update requested for version '' @ str_int (version request)))
          \<and> calls (snd (update_page E request s)) =
              calls s @ [Call ''confluence.get_page_by_id''
                           [JStr (page_id request), JStr ''version'']])
       \<and> (cur = version request \<longrightarrow>
            (\<exists>rest. calls (snd (update_page E request s)) =
              calls s @ [Call ''confluence.get_page_by_id''
                           [JStr (page_id request), JStr ''version''],
                         Call ''confluence.update_page''
                           [JStr (page_id request), JStr (title request),
                            JStr (content request), JStr ''wiki'']] @ rest))"
proof (intro conjI impI)
  assume ne: "cur \<noteq> version request"
  show "fst (update_page E request s) =
          Inl (Exn ValueError (''Version conflict: current version is '' @ str_int cur
                 @ '', but update requested for version '' @ str_int (version request)))"
    using fetched present current ne
    by (simp add: update_page_def try_except_def monad_simps)
  show "calls (snd (update_page E request s)) =
          calls s @ [Call ''confluence.get_page_by_id''
                       [JStr (page_id request), JStr ''version'']]"
    using fetched present current ne
    by (simp add: update_page_def try_except_def monad_simps)
next
  assume eq: "cur = version request"
  show "\<exists>rest. calls (snd (update_page E request s)) =
          calls s @ [Call ''confluence.get_page_by_id''
                       [JStr (page_id request), JStr ''version''],
                     Call ''confluence.update_page''
                       [JStr (page_id request), JStr (title request),
                        JStr (content request), JStr ''wiki'']] @ rest"
    using fetched present current eq
    by (auto simp add: update_page_def try_except_def monad_simps
        dest!: get_page_content_callsD split: sum.splits prod.splits)
qed

theorem C2_update_page_version_guard_witness:
  "fst (update_page (sample_env sample_remote)
          \<lparr>page_id = ''123'', title = ''T'', content = ''c'', version = 6\<rparr> s0) =
     Inl (Exn ValueError
            ''Version conflict: current version is 7, but update requested for version 6'')
   \<and> calls (snd (update_page (sample_env sample_remote)
          \<lparr>page_id = ''123'', title = ''T'', content = ''c'', version = 6\<rparr> s0)) =
     [Call ''confluence.get_page_by_id'' [JStr ''123'', JStr ''version'']]
   \<and> (\<exists>rest. calls (snd (update_page (sample_env sample_remote)
          \<lparr>page_id = ''123'', title = ''T'', content = ''c'', version = 7\<rparr> s0)) =
        [Call ''confluence.get_page_by_id'' [JStr ''123'', JStr ''version''],
         Call ''confluence.update_page'' [JStr ''123'', JStr ''T'', JStr ''c'', JStr ''wiki'']]
        @ rest)"
proof -
  have fetched: "remote (sample_env sample_remote) (calls s0)
      (Call ''confluence.get_page_by_id'' [JStr ''123'', JStr ''version'']) = Inr sample_page"
    by (simp add: sample_env_def)
  have present: "truthy sample_page"
    by (simp add: sample_page_def)
  have current: "bindE (getitem sample_page ''version'') (\<lambda>v. getitem v ''number'')
                   = Inr (JInt 7)"
    by (simp add: sample_page_def bindE_def)
  show ?thesis
    using C2_update_page_version_guard
            [of "sample_env sample_remote" s0
                "\<lparr>page_id = ''123'', title = ''T'', content = ''c'', version = 6\<rparr>"
                sample_page 7]
          C2_update_page_version_guard
            [of "sample_env sample_remote" s0
                "\<lparr>page_id = ''123'', title = ''T'', content = ''c'', version = 7\<rparr>"
                sample_page 7]
          fetched present current
    by (simp add: s0_def str_int_def digit_char_def)
qed

section \<open>The result limit of the search tools\<close>

lemma effective_limit_le_50: "effective_limit E arguments = Inr n \<Longrightarrow> n \<le> 50"
  by (auto simp: effective_limit_def bindE_def split: sum.splits)

lemma effective_limit_int:
  "effective_limit E (JDict [(''limit'', JInt n)]) = Inr (min n 50)"
  by (simp add: effective_limit_def bindE_def)

text \<open>
  C1. A tool call \<^verbatim>\<open>confluence_search\<close> with \<^verbatim>\<open>limit = 0\<close>: the limit that reaches the
  remote search is 0. The source bounds the limit from above only, so a limit below 1 is
  passed on as it is, whatever the environment.
\<close>

theorem C1_limit_below_one_passed_on:
  "effective_limit E (JDict [(''query'', JStr ''type=page''), (''limit'', JInt 0)]) = Inr 0
   \<and> calls (snd (call_tool E ''confluence_search''
                    (JDict [(''query'', JStr ''type=page''), (''limit'', JInt 0)]) s)) =
       calls s @ [Call ''confluence.cql'' [JStr ''type=page'', JInt 0]]"
proof
  show lim: "effective_limit E (JDict [(''query'', JStr ''type=page''), (''limit'', JInt 0)])
               = Inr 0"
    by (simp add: effective_limit_def bindE_def)
  show "calls (snd (call_tool E ''confluence_search''
                    (JDict [(''query'', JStr ''type=page''), (''limit'', JInt 0)]) s)) =
       calls s @ [Call ''confluence.cql'' [JStr ''type=page'', JInt 0]]"
    by (auto simp add: lim call_tool_def dispatch_def try_except_def monad_simps bindM_def
        log_def dest!: search_callsD split: sum.splits prod.splits)
qed

section \<open>Page lookup by title\<close>

lemma try_except_Inl:
  "m s = (Inl e, s1) \<Longrightarrow> try_except m h s = h e s1"
  by (simp add: try_except_def)

lemma try_except_Inr:
  "m s = (Inr x, s1) \<Longrightarrow> try_except m h s = (Inr x, s1)"
  by (simp add: try_except_def)

lemma get_page_by_title_absent:
  "fst (get_page_by_title_try E sp t ch s) = Inl e \<Longrightarrow>
   fst (get_page_by_title E sp t ch s) = Inr None"
  by (cases "get_page_by_title_try E sp t ch s")
     (simp add: get_page_by_title_def try_except_def monad_simps)

lemma get_page_by_title_remote_failure:
  "remote E (calls s) (Call ''confluence.get_page_by_title''
      [JStr sp, JStr t, JStr ''body.storage,version'']) = Inl e \<Longrightarrow>
   fst (get_page_by_title_try E sp t ch s) = Inl e"
  by (simp add: get_page_by_title_try_def monad_simps)

text \<open>
  C10. Whatever exception the \<^verbatim>\<open>try\<close> block of \<^verbatim>\<open>get_page_by_title\<close> raises, in the
  remote fetch or while the content is processed, the operation returns \<^verbatim>\<open>None\<close>. A
  transport failure of the remote lookup is such an exception, and for a URI of the shape
  \<^verbatim>\<open>confluence://{space}/pages/{title}\<close> the resource router then raises the same
  \<^verbatim>\<open>Page not found\<close> error as for a missing page.
\<close>

theorem C10_page_by_title_failure_reported_as_not_found:
  "(fst (get_page_by_title_try E sp t ch s) = Inl e \<longrightarrow>
      fst (get_page_by_title E sp t ch s) = Inr None)
   \<and> (remote E (calls s) (Call ''confluence.get_page_by_title''
          [JStr sp, JStr t, JStr ''body.storage,version'']) = Inl e \<longrightarrow>
        fst (get_page_by_title_try E sp t ch s) = Inl e
        \<and> fst (get_page_by_title E sp t ch s) = Inr None)
   \<and> (startswith uri ''confluence://''
        \<and> split CHR ''/'' (replace ''confluence://'' [] uri) = sp # ''pages'' # t # rest
        \<and> remote E (calls s) (Call ''confluence.get_page_by_title''
              [JStr sp, JStr t, JStr ''body.storage,version'']) = Inl e \<longrightarrow>
        fst (read_resource E uri s) = Inl (Exn ValueError (''Page not found: '' @ t)))"
proof (intro conjI impI)
  assume "fst (get_page_by_title_try E sp t ch s) = Inl e"
  then show "fst (get_page_by_title E sp t ch s) = Inr None"
    by (rule get_page_by_title_absent)
next
  assume r: "remote E (calls s) (Call ''confluence.get_page_by_title''
          [JStr sp, JStr t, JStr ''body.storage,version'']) = Inl e"
  then show "fst (get_page_by_title_try E sp t ch s) = Inl e"
    by (rule get_page_by_title_remote_failure)
  then show "fst (get_page_by_title E sp t ch s) = Inr None"
    by (rule get_page_by_title_absent)
next
  assume a: "startswith uri ''confluence://''
        \<and> split CHR ''/'' (replace ''confluence://'' [] uri) = sp # ''pages'' # t # rest
        \<and> remote E (calls s) (Call ''confluence.get_page_by_title''
              [JStr sp, JStr t, JStr ''body.storage,version'']) = Inl e"
  then have "fst (get_page_by_title E sp t True s) = Inr None"
    using get_page_by_title_remote_failure get_page_by_title_absent by blast
  then obtain s1 where "get_page_by_title E sp t True s = (Inr None, s1)"
    by (cases "get_page_by_title E sp t True s") simp
  with a show "fst (read_resource E uri s) = Inl (Exn ValueError (''Page not found: '' @ t))"
    by (simp add: read_resource_def bindM_def raise_def)
qed

theorem C10_page_by_title_failure_reported_as_not_found_witness:
  "fst (get_page_by_title (sample_env failing_remote) ''DEV'' ''Home'' True s0) = Inr None
   \<and> fst (read_resource (sample_env failing_remote) ''confluence://DEV/pages/Home'' s0) =
       Inl (Exn ValueError ''Page not found: Home'')"
proof -
  have r: "remote (sample_env failing_remote) (calls s0) (Call ''confluence.get_page_by_title''
              [JStr ''DEV'', JStr ''Home'', JStr ''body.storage,version'']) =
           Inl (Exn RemoteError ''503 Server Error: Service Unavailable'')"
    by (simp add: sample_env_def failing_remote_def)
  have u: "startswith ''confluence://DEV/pages/Home'' ''confluence://''"
    by (simp add: startswith_def)
  have p: "split CHR ''/'' (replace ''confluence://'' [] ''confluence://DEV/pages/Home'')
             = ''DEV'' # ''pages'' # ''Home'' # []"
    by simp
  show ?thesis
    using C10_page_by_title_failure_reported_as_not_found
      [of "sample_env failing_remote" "''DEV''" "''Home''" True s0
          "Exn RemoteError ''503 Server Error: Service Unavailable''"
          "''confluence://DEV/pages/Home''" "[]"] r u p
    by simp
qed

section \<open>Confluence search\<close>

lemma mapE_Inr_list_all2:
  "mapE f xs = Inr ys \<Longrightarrow> list_all2 (\<lambda>x y. f x = Inr y) xs ys"
proof (induction xs arbitrary: ys)
  case Nil
  then show ?case by simp
next
  case (Cons x xs)
  then show ?case
    by (auto simp: bindE_Inr_iff)
qed

lemma search_hit_Some:
  "search_hit E h = Inr (Some d) \<Longrightarrow> hit_type h = Inr (JStr ''page'')"
  by (auto simp: search_hit_def hit_type_def bindE_def split: sum.splits if_splits)

lemma get_default_getitem:
  "get_default c k d0 = Inr v \<Longrightarrow> getitem c k = Inr w \<Longrightarrow> w = v"
  by (cases c) (auto split: option.splits)

lemma search_hit_Some_type:
  "search_hit E h = Inr (Some d) \<Longrightarrow> meta d ''type'' = Inr (JStr ''page'')"
  by (auto simp: search_hit_def meta_def bindE_Inr_iff split: if_splits
      dest: get_default_getitem)

lemma search_hit_None:
  "search_hit E h = Inr None \<Longrightarrow> hit_type h \<noteq> Inr (JStr ''page'')"
  by (auto simp: search_hit_def hit_type_def bindE_def split: sum.splits if_splits)

lemma map_filter_id_pages:
  "list_all2 (\<lambda>h y. search_hit E h = Inr y) hits ys \<Longrightarrow>
   length (List.map_filter id ys) = length (filter (\<lambda>h. hit_type h = Inr (JStr ''page'')) hits)
   \<and> (\<forall>d \<in> set (List.map_filter id ys). \<exists>h \<in> set hits. search_hit E h = Inr (Some d))"
proof (induction rule: list_all2_induct)
  case Nil
  then show ?case by (simp add: List.map_filter_simps)
next
  case (Cons h hs y ys)
  then show ?case
    by (cases y) (auto simp: List.map_filter_simps dest: search_hit_Some search_hit_None)
qed

lemma search_never_raises: "\<exists>docs. fst (search E cql limit s) = Inr docs"
  by (cases "search_try E cql limit s"; cases "fst (search_try E cql limit s)")
     (auto simp add: search_def try_except_def monad_simps)

text \<open>
  C9. Let the remote search answer with a list of hits. Every document that \<^verbatim>\<open>search\<close>
  returns was made from a hit whose content type is \<^verbatim>\<open>"page"\<close>, and carries that
  type; hits of any other type give no document. So there are at most as many documents as
  page hits, which may be fewer than the hits, and exactly as many when no hit raises.
\<close>

theorem C9_search_keeps_page_hits_only:
  assumes answered: "remote E (calls s) (Call ''confluence.cql'' [cql, JInt limit]) = Inr results"
    and hits: "get_default results ''results'' (JList []) = Inr (JList hits)"
  shows "\<exists>docs. fst (search E cql limit s) = Inr docs
           \<and> (\<forall>d \<in> set docs. meta d ''type'' = Inr (JStr ''page'')
                 \<and> (\<exists>h \<in> set hits. hit_type h = Inr (JStr ''page'')
                        \<and> search_hit E h = Inr (Some d)))
           \<and> length docs \<le> length (filter (\<lambda>h. hit_type h = Inr (JStr ''page'')) hits)
           \<and> length (filter (\<lambda>h. hit_type h = Inr (JStr ''page'')) hits) \<le> length hits
           \<and> ((\<exists>ds. mapE (search_hit E) hits = Inr ds) \<longrightarrow>
                length docs = length (filter (\<lambda>h. hit_type h = Inr (JStr ''page'')) hits))"
proof (cases "mapE (search_hit E) hits")
  case (Inl e)
  then have "fst (search E cql limit s) = Inr []"
    using answered hits
    by (simp add: search_def search_try_def try_except_def monad_simps)
  then show ?thesis using Inl by simp
next
  case (Inr ds)
  then have run: "fst (search E cql limit s) = Inr (List.map_filter id ds)"
    using answered hits
    by (simp add: search_def search_try_def try_except_def monad_simps)
  from Inr have "list_all2 (\<lambda>h y. search_hit E h = Inr y) hits ds"
    by (rule mapE_Inr_list_all2)
  then have m: "length (List.map_filter id ds)
                  = length (filter (\<lambda>h. hit_type h = Inr (JStr ''page'')) hits)
      \<and> (\<forall>d \<in> set (List.map_filter id ds). \<exists>h \<in> set hits. search_hit E h = Inr (Some d))"
    by (rule map_filter_id_pages)
  show ?thesis
  proof (intro exI conjI)
    show "fst (search E cql limit s) = Inr (List.map_filter id ds)" by (rule run)
    show "\<forall>d \<in> set (List.map_filter id ds). meta d ''type'' = Inr (JStr ''page'')
                 \<and> (\<exists>h \<in> set hits. hit_type h = Inr (JStr ''page'')
                        \<and> search_hit E h = Inr (Some d))"
      using m by (blast dest: search_hit_Some search_hit_Some_type)
    show "length (List.map_filter id ds)
            \<le> length (filter (\<lambda>h. hit_type h = Inr (JStr ''page'')) hits)"
      using m by simp
    show "length (filter (\<lambda>h. hit_type h = Inr (JStr ''page'')) hits) \<le> length hits"
      by simp
    show "(\<exists>ds. mapE (search_hit E) hits = Inr ds) \<longrightarrow>
            length (List.map_filter id ds)
              = length (filter (\<lambda>h. hit_type h = Inr (JStr ''page'')) hits)"
      using m by simp
  qed
qed


theorem C9_search_keeps_page_hits_only_witness:
  "\<exists>docs. fst (search (sample_env sample_remote) (JStr ''space=DEV'') 10 s0) = Inr docs
      \<and> length docs \<le> 1
      \<and> length [sample_hit_page, sample_hit_comment] = 2"
proof -
  have answered: "remote (sample_env sample_remote) (calls s0)
                    (Call ''confluence.cql'' [JStr ''space=DEV'', JInt 10]) = Inr sample_hits"
    by (simp add: sample_env_def)
  have hits: "get_default sample_hits ''results'' (JList [])
                = Inr (JList [sample_hit_page, sample_hit_comment])"
    by (simp add: sample_hits_def)
  have pages: "filter (\<lambda>h. hit_type h = Inr (JStr ''page'')) [sample_hit_page, sample_hit_comment]
                 = [sample_hit_page]"
    by (simp add: hit_type_def sample_hit_page_def sample_hit_comment_def bindE_def)
  show ?thesis
    using C9_search_keeps_page_hits_only [OF answered hits] pages
    by auto
qed

section \<open>Failures at the router boundary\<close>

lemma get_issue_calls:
  "calls (snd (get_issue E k x s)) = calls s @ [Call ''jira.issue'' [k, x]]"
  by (simp add: get_issue_def try_except_def monad_simps split: sum.splits prod.splits)

lemma get_issue_callsD:
  "get_issue E k x s = (r, s') \<Longrightarrow> calls s' = calls s @ [Call ''jira.issue'' [k, x]]"
  using get_issue_calls [of E k x s] by simp

lemma get_issue_remote_failure:
  "remote E (calls s) (Call ''jira.issue'' [k, x]) = Inl e \<Longrightarrow> fst (get_issue E k x s) = Inl e"
  by (simp add: get_issue_def try_except_def monad_simps)

lemma bindM_Inl: "fst (m s) = Inl e \<Longrightarrow> fst (bindM m f s) = Inl e"
  by (cases "m s") (simp add: bindM_def)

lemma sample_env_sel:
  "confluence_url (sample_env r) = ''https://example.atlassian.net''"
  "jira_url (sample_env r) = ''https://example.atlassian.net/''"
  "remote (sample_env r) = r"
  "session_put (sample_env r) = (\<lambda>h url payload. Inr \<lparr> status_code = 204, resp_text = [] \<rparr>)"
  "get_url (sample_env r) = (\<lambda>p. ''https://example.atlassian.net/'' @ p)"
  "process_html_content (sample_env r) = (\<lambda>c k. bindE (sample_text c) (\<lambda>s. Inr (s, s)))"
  "clean_jira_text (sample_env r) = sample_text"
  "CUSTOM_FIELD_MAPPINGS (sample_env r) = seed_mappings"
  "json_dumps (sample_env r) = sample_dumps"
  "repr (sample_env r) = (\<lambda>v. ''...'')"
  by (simp_all add: sample_env_def)

lemma search_swallows:
  "fst (search_try E cql limit s) = Inl e \<Longrightarrow> fst (search E cql limit s) = Inr []"
  by (cases "search_try E cql limit s")
     (simp add: search_def try_except_def monad_simps)

lemma bindM_InrD:
  "bindM m f s = (Inr y, s') \<Longrightarrow> \<exists>x s1. m s = (Inr x, s1) \<and> f x s1 = (Inr y, s')"
  by (auto simp: bindM_def split: prod.splits sum.splits)

lemma dispatch_one_payload:
  "dispatch E name arguments s = (Inr out, s') \<Longrightarrow> \<exists>v. out = [TextContent (json_dumps E v)]"
  unfolding dispatch_def
  by (auto simp: text_result_def returnM_def raise_def dest!: bindM_InrD split: if_splits)

lemma call_tool_wraps:
  "dispatch E name arguments s = (Inl e0, s1) \<Longrightarrow>
   call_tool E name arguments s =
     (Inl (Exn RuntimeError (''Tool execution failed: '' @ exn_str e0)),
      s1\<lparr>logs := logs s1 @ [(Error, ''Tool execution error: '' @ exn_str e0)]\<rparr>)"
  by (simp add: call_tool_def try_except_def monad_simps)

lemma call_tool_passes:
  "dispatch E name arguments s = (Inr out, s1) \<Longrightarrow>
   call_tool E name arguments s = (Inr out, s1)"
  by (simp add: call_tool_def try_except_def)

text \<open>
  C4 does not hold as stated. With a remote side that fails every call, the tool call
  \<^verbatim>\<open>confluence_search\<close> does not raise: \<^verbatim>\<open>search\<close> logs the transport error and
  returns the empty list, and the router serves the payload \<^verbatim>\<open>[]\<close> as a success.
\<close>

theorem C4_search_failure_served_as_empty_result:
  "remote (sample_env failing_remote) (calls s0)
      (Call ''confluence.cql'' [JStr ''type=page'', JInt 10]) =
     Inl (Exn RemoteError ''503 Server Error: Service Unavailable'')
   \<and> call_tool (sample_env failing_remote) ''confluence_search''
        (JDict [(''query'', JStr ''type=page'')]) s0 =
       (Inr [TextContent ''[]''],
        \<lparr>calls = [Call ''confluence.cql'' [JStr ''type=page'', JInt 10]],
          logs = [(Error, ''Search failed with error: 503 Server Error: Service Unavailable'')]\<rparr>)"
proof
  show "remote (sample_env failing_remote) (calls s0)
      (Call ''confluence.cql'' [JStr ''type=page'', JInt 10]) =
     Inl (Exn RemoteError ''503 Server Error: Service Unavailable'')"
    by (simp add: sample_env_def failing_remote_def)
  have found: "search (sample_env failing_remote) (JStr ''type=page'') 10 s0 =
      (Inr [],
       \<lparr>calls = [Call ''confluence.cql'' [JStr ''type=page'', JInt 10]],
         logs = [(Error, ''Search failed with error: 503 Server Error: Service Unavailable'')]\<rparr>)"
    by (simp add: search_def search_try_def try_except_def monad_simps sample_env_sel
        failing_remote_def s0_def)
  have limit: "effective_limit (sample_env failing_remote) (JDict [(''query'', JStr ''type=page'')])
                 = Inr 10"
    by (simp add: effective_limit_def bindE_def)
  have "dispatch (sample_env failing_remote) ''confluence_search''
          (JDict [(''query'', JStr ''type=page'')]) s0 =
        (Inr [TextContent ''[]''],
         \<lparr>calls = [Call ''confluence.cql'' [JStr ''type=page'', JInt 10]],
           logs = [(Error, ''Search failed with error: 503 Server Error: Service Unavailable'')]\<rparr>)"
    by (simp add: dispatch_def monad_simps limit bindM_def found text_result_def
        sample_env_sel sample_dumps_def)
  then show "call_tool (sample_env failing_remote) ''confluence_search''
        (JDict [(''query'', JStr ''type=page'')]) s0 =
       (Inr [TextContent ''[]''],
        \<lparr>calls = [Call ''confluence.cql'' [JStr ''type=page'', JInt 10]],
          logs = [(Error, ''Search failed with error: 503 Server Error: Service Unavailable'')]\<rparr>)"
    by (rule call_tool_passes)
qed

text \<open>
  C4, amended. An exception that leaves the \<^verbatim>\<open>try\<close> block of \<^verbatim>\<open>call_tool\<close> is logged and
  raised again as a \<^verbatim>\<open>RuntimeError\<close> whose message is \<^verbatim>\<open>Tool execution failed: \<close> followed
  by the original message; a tool call ends either with exactly one text payload or with
  that error. An exception inside Confluence \<^verbatim>\<open>search\<close> never gets that far: \<^verbatim>\<open>search\<close>
  always returns a list, the empty one when its body raised. \<^verbatim>\<open>read_resource\<close> has no
  handler of its own: a remote failure while an issue resource is read comes out as it was
  raised.
\<close>

theorem C4_router_outcomes:
  "(\<forall>e0 s1. dispatch E name arguments s = (Inl e0, s1) \<longrightarrow>
       call_tool E name arguments s =
         (Inl (Exn RuntimeError (''Tool execution failed: '' @ exn_str e0)),
          s1\<lparr>logs := logs s1 @ [(Error, ''Tool execution error: '' @ exn_str e0)]\<rparr>))
   \<and> (case fst (call_tool E name arguments s) of
         Inr out \<Rightarrow> \<exists>v. out = [TextContent (json_dumps E v)]
       | Inl e \<Rightarrow> \<exists>msg. e = Exn RuntimeError (''Tool execution failed: '' @ msg))
   \<and> (\<exists>docs. fst (search E cql limit s) = Inr docs)
   \<and> (\<forall>e. fst (search_try E cql limit s) = Inl e \<longrightarrow> fst (search E cql limit s) = Inr [])
   \<and> (\<forall>e p k rest.
         \<not> startswith uri ''confluence://'' \<and> startswith uri ''jira://''
         \<and> split CHR ''/'' (replace ''jira://'' [] uri) = p # ''issues'' # k # rest
         \<and> remote E (calls s) (Call ''jira.issue'' [JStr k, JNull]) = Inl e \<longrightarrow>
         fst (read_resource E uri s) = Inl e)"
proof (intro conjI allI impI)
  fix e0 s1
  assume "dispatch E name arguments s = (Inl e0, s1)"
  then show "call_tool E name arguments s =
         (Inl (Exn RuntimeError (''Tool execution failed: '' @ exn_str e0)),
          s1\<lparr>logs := logs s1 @ [(Error, ''Tool execution error: '' @ exn_str e0)]\<rparr>)"
    by (rule call_tool_wraps)
next
  show "case fst (call_tool E name arguments s) of
         Inr out \<Rightarrow> \<exists>v. out = [TextContent (json_dumps E v)]
       | Inl e \<Rightarrow> \<exists>msg. e = Exn RuntimeError (''Tool execution failed: '' @ msg)"
  proof (cases "dispatch E name arguments s")
    case (Pair r s1)
    show ?thesis
    proof (cases r)
      case (Inl e0)
      with Pair show ?thesis by (simp add: call_tool_wraps)
    next
      case (Inr out)
      with Pair show ?thesis
        by (simp add: call_tool_passes dispatch_one_payload)
    qed
  qed
next
  show "\<exists>docs. fst (search E cql limit s) = Inr docs"
    by (rule search_never_raises)
next
  fix e
  assume "fst (search_try E cql limit s) = Inl e"
  then show "fst (search E cql limit s) = Inr []"
    by (rule search_swallows)
next
  fix e p k rest
  assume a: "\<not> startswith uri ''confluence://'' \<and> startswith uri ''jira://''
         \<and> split CHR ''/'' (replace ''jira://'' [] uri) = p # ''issues'' # k # rest
         \<and> remote E (calls s) (Call ''jira.issue'' [JStr k, JNull]) = Inl e"
  then have "fst (get_issue E (JStr k) JNull s) = Inl e"
    by (simp add: get_issue_remote_failure)
  then have "fst (bindM (get_issue E (JStr k) JNull) (\<lambda>issue. returnM (page_content issue)) s)
               = Inl e"
    by (rule bindM_Inl)
  with a show "fst (read_resource E uri s) = Inl e"
    by (simp add: read_resource_def)
qed

theorem C4_router_outcomes_witness:
  "call_tool (sample_env failing_remote) ''no_such_tool'' (JDict []) s0 =
     (Inl (Exn RuntimeError ''Tool execution failed: Unknown tool: no_such_tool''),
      \<lparr>calls = [], logs = [(Error, ''Tool execution error: Unknown tool: no_such_tool'')]\<rparr>)
   \<and> fst (search (sample_env failing_remote) (JStr ''type=page'') 10 s0) = Inr []
   \<and> fst (read_resource (sample_env failing_remote) ''jira://DEV/issues/DEV-1'' s0) =
       Inl (Exn RemoteError ''503 Server Error: Service Unavailable'')"
proof -
  have d: "dispatch (sample_env failing_remote) ''no_such_tool'' (JDict []) s0 =
             (Inl (Exn ValueError ''Unknown tool: no_such_tool''), s0)"
    by (simp add: dispatch_def monad_simps)
  have t: "fst (search_try (sample_env failing_remote) (JStr ''type=page'') 10 s0) =
             Inl (Exn RemoteError ''503 Server Error: Service Unavailable'')"
    by (simp add: search_try_def monad_simps sample_env_sel failing_remote_def)
  have u: "\<not> startswith ''jira://DEV/issues/DEV-1'' ''confluence://''
           \<and> startswith ''jira://DEV/issues/DEV-1'' ''jira://''
           \<and> split CHR ''/'' (replace ''jira://'' [] ''jira://DEV/issues/DEV-1'')
                 = ''DEV'' # ''issues'' # ''DEV-1'' # []
           \<and> remote (sample_env failing_remote) (calls s0)
                 (Call ''jira.issue'' [JStr ''DEV-1'', JNull])
                 = Inl (Exn RemoteError ''503 Server Error: Service Unavailable'')"
    by (simp add: startswith_def sample_env_sel failing_remote_def)
  show ?thesis
    using C4_router_outcomes
            [of "sample_env failing_remote" "''no_such_tool''" "JDict []" s0
                "JStr ''type=page''" 10 "''jira://DEV/issues/DEV-1''"] d t u
    by (simp add: s0_def)
qed

section \<open>Creating an issue\<close>

lemma get_custom_field_id_run:
  "get_custom_field_id E n s =
     (Inr (map_of (CUSTOM_FIELD_MAPPINGS E) n),
      if truthy_id (map_of (CUSTOM_FIELD_MAPPINGS E) n) then s
      else s\<lparr>logs := logs s @ [(Warning, ''Unknown custom field: '' @ n)]\<rparr>)"
  by (simp add: get_custom_field_id_def Let_def monad_simps)

lemma bindM_get_custom_field_id:
  "bindM (get_custom_field_id E n) f s =
     f (map_of (CUSTOM_FIELD_MAPPINGS E) n)
       (if truthy_id (map_of (CUSTOM_FIELD_MAPPINGS E) n) then s
        else s\<lparr>logs := logs s @ [(Warning, ''Unknown custom field: '' @ n)]\<rparr>)"
  by (simp add: bindM_def get_custom_field_id_run)

lemma process_custom_fields_loop_total:
  "\<not> isl (fst (process_custom_fields_loop E cfs acc s))
   \<and> calls (snd (process_custom_fields_loop E cfs acc s)) = calls s"
proof (induction cfs arbitrary: acc s)
  case Nil
  then show ?case by (simp add: monad_simps)
next
  case (Cons a cfs)
  obtain n v where a: "a = (n, v)" by (cases a)
  show ?case
    by (cases "map_of (CUSTOM_FIELD_MAPPINGS E) n")
       (simp_all add: a bindM_get_custom_field_id monad_simps Cons.IH)
qed

lemma set_named_field_frame:
  "\<not> isl (fst (set_named_field E name v flds s))
   \<and> calls (snd (set_named_field E name v flds s)) = calls s"
  by (cases "map_of (CUSTOM_FIELD_MAPPINGS E) name")
     (simp_all add: set_named_field_def bindM_get_custom_field_id monad_simps)

lemma with_custom_fields_frame:
  "\<not> isl (fst (with_custom_fields E r flds s))
   \<and> calls (snd (with_custom_fields E r flds s)) = calls s"
proof (cases "custom_fields r = []")
  case True
  then show ?thesis by (simp add: with_custom_fields_def monad_simps)
next
  case False
  obtain res s1 where run: "process_custom_fields E (custom_fields r) s = (res, s1)"
    by (cases "process_custom_fields E (custom_fields r) s")
  with process_custom_fields_loop_total [of E "custom_fields r" "[]" s]
  obtain out where "res = Inr out" and "calls s1 = calls s"
    by (cases res) (auto simp: process_custom_fields_def)
  with False run show ?thesis
    by (simp add: with_custom_fields_def bindM_def monad_simps)
qed

text \<open>What follows the type-specific step: only the create call and the read-back.\<close>

lemma create_issue_tail_calls:
  "\<exists>rest. calls (snd (bindM (with_custom_fields E r fields1) (\<lambda>fields2.
              bindM (remote_call E ''jira.create_issue'' [JDict fields2]) (\<lambda>issue.
              bindM (lift (getitem issue ''key'')) (\<lambda>k.
              get_issue E k JNull))) s)) = calls s @ rest"
proof -
  obtain res s1 where w: "with_custom_fields E r fields1 s = (res, s1)"
    by (cases "with_custom_fields E r fields1 s")
  with with_custom_fields_frame [of E r fields1 s]
  obtain fields2 where res: "res = Inr fields2" and c1: "calls s1 = calls s"
    by (cases res) auto
  show ?thesis
  proof (cases "remote E (calls s1) (Call ''jira.create_issue'' [JDict fields2])")
    case (Inl e)
    with w res c1 show ?thesis
      by (simp add: bindM_def remote_call_def)
  next
    case (Inr issue)
    show ?thesis
    proof (cases "getitem issue ''key''")
      case (Inl e)
      with w res c1 Inr show ?thesis
        by (simp add: bindM_def remote_call_def lift_def)
    next
      case k: (Inr k)
      obtain r2 s2 where g: "get_issue E k JNull
          (s1\<lparr>calls := calls s1 @ [Call ''jira.create_issue'' [JDict fields2]]\<rparr>) = (r2, s2)"
        by (cases "get_issue E k JNull
          (s1\<lparr>calls := calls s1 @ [Call ''jira.create_issue'' [JDict fields2]]\<rparr>)")
      from get_issue_callsD [OF g] w res c1 Inr k g show ?thesis
        by (simp add: bindM_def remote_call_def lift_def)
    qed
  qed
qed

lemma type_specific_fields_story:
  assumes story: "issue_type r = ''Story''" and link: "epic_link r = Some k" and nonempty: "k \<noteq> []"
  shows "type_specific_fields E r flds s =
           (case remote E (calls s) (Call ''jira.issue'' [JStr k]) of
              Inl e \<Rightarrow> (Inl e, s\<lparr>calls := calls s @ [Call ''jira.issue'' [JStr k]]\<rparr>)
            | Inr epic \<Rightarrow>
                (case epic_link_invalid epic of
                   Inl e \<Rightarrow> (Inl e, s\<lparr>calls := calls s @ [Call ''jira.issue'' [JStr k]]\<rparr>)
                 | Inr invalid \<Rightarrow>
                     if invalid
                     then (Inl (Exn ValueError (''Invalid epic link: '' @ k)),
                           s\<lparr>calls := calls s @ [Call ''jira.issue'' [JStr k]]\<rparr>)
                     else set_named_field E ''Epic Link'' (JStr k) flds
                            (s\<lparr>calls := calls s @ [Call ''jira.issue'' [JStr k]]\<rparr>)))"
  using assms
  by (simp add: type_specific_fields_def monad_simps split: sum.splits)


lemma try_except_reraise:
  "fst (try_except m (\<lambda>e. bindM (log lv (msg e)) (\<lambda>_. raise e)) s) = fst (m s)
   \<and> calls (snd (try_except m (\<lambda>e. bindM (log lv (msg e)) (\<lambda>_. raise e)) s)) = calls (snd (m s))"
  by (cases "m s"; cases "fst (m s)") (auto simp: try_except_def monad_simps)

lemma epic_link_invalid_False:
  "epic_link_invalid epic = Inr False \<longleftrightarrow>
     truthy epic \<and> bindE (getitem epic ''fields'') (\<lambda>f. bindE (getitem f ''issuetype'')
                      (\<lambda>t. getitem t ''name'')) = Inr (JStr ''Epic'')"
  by (auto simp: epic_link_invalid_def bindE_def split: sum.splits)

lemma epic_link_invalid_True:
  "\<not> truthy epic \<or> (\<exists>n. bindE (getitem epic ''fields'') (\<lambda>f. bindE (getitem f ''issuetype'')
                      (\<lambda>t. getitem t ''name'')) = Inr n \<and> n \<noteq> JStr ''Epic'')
   \<Longrightarrow> epic_link_invalid epic = Inr True"
  by (auto simp: epic_link_invalid_def bindE_def split: sum.splits)

lemma create_issue_try_story:
  assumes story: "issue_type r = ''Story''" and link: "epic_link r = Some k" and nonempty: "k \<noteq> []"
    and project: "remote E (calls s) (Call ''jira.project'' [JStr (project_key r)]) = Inr project"
    and present: "truthy project"
  shows "create_issue_try E r s =
           bindM (type_specific_fields E r (initial_fields r)) (\<lambda>fields1.
           bindM (with_custom_fields E r fields1) (\<lambda>fields2.
           bindM (remote_call E ''jira.create_issue'' [JDict fields2]) (\<lambda>issue.
           bindM (lift (getitem issue ''key'')) (\<lambda>k.
           get_issue E k JNull))))
             (s\<lparr>calls := calls s @ [Call ''jira.project'' [JStr (project_key r)]]\<rparr>)"
  using project present by (simp add: create_issue_try_def monad_simps)

text \<open>
  C8, amended. Take a Story with a non-empty epic link \<open>k\<close> whose project lookup has
  succeeded. The lookup of \<open>k\<close> is the next remote call. If it returns nothing, or an issue
  whose type is not \<^verbatim>\<open>Epic\<close>, \<^verbatim>\<open>create_issue\<close> fails with
  \<^verbatim>\<open>ValueError("Invalid epic link: k")\<close> and makes no further call. In every run a create
  call is issued only after the lookup has returned an issue of type \<^verbatim>\<open>Epic\<close>.
\<close>

theorem C8_story_epic_link_checked_before_create:
  assumes story: "issue_type r = ''Story''" and link: "epic_link r = Some k" and nonempty: "k \<noteq> []"
    and project: "remote E (calls s) (Call ''jira.project'' [JStr (project_key r)]) = Inr project"
    and present: "truthy project"
  shows "(\<forall>epic. remote E (calls s @ [Call ''jira.project'' [JStr (project_key r)]])
                   (Call ''jira.issue'' [JStr k]) = Inr epic
                 \<and> (\<not> truthy epic
                      \<or> (\<exists>n. bindE (getitem epic ''fields'') (\<lambda>f. bindE (getitem f ''issuetype'')
                                 (\<lambda>t. getitem t ''name'')) = Inr n \<and> n \<noteq> JStr ''Epic''))
            \<longrightarrow> fst (create_issue E r s) = Inl (Exn ValueError (''Invalid epic link: '' @ k))
                \<and> calls (snd (create_issue E r s)) =
                    calls s @ [Call ''jira.project'' [JStr (project_key r)],
                               Call ''jira.issue'' [JStr k]])
       \<and> (\<exists>rest. calls (snd (create_issue E r s)) =
                    calls s @ [Call ''jira.project'' [JStr (project_key r)],
                               Call ''jira.issue'' [JStr k]] @ rest
                \<and> ((\<exists>flds. Call ''jira.create_issue'' flds \<in> set rest) \<longrightarrow>
                     (\<exists>epic. remote E (calls s @ [Call ''jira.project'' [JStr (project_key r)]])
                               (Call ''jira.issue'' [JStr k]) = Inr epic
                            \<and> truthy epic
                            \<and> bindE (getitem epic ''fields'') (\<lambda>f. bindE (getitem f ''issuetype'')
                                  (\<lambda>t. getitem t ''name'')) = Inr (JStr ''Epic''))))"
proof -
  let ?p = "Call ''jira.project'' [JStr (project_key r)]"
  let ?i = "Call ''jira.issue'' [JStr k]"
  let ?s1 = "s\<lparr>calls := calls s @ [?p]\<rparr>"
  let ?s2 = "?s1\<lparr>calls := calls ?s1 @ [?i]\<rparr>"
  let ?tail = "\<lambda>fields1. bindM (with_custom_fields E r fields1) (\<lambda>fields2.
                 bindM (remote_call E ''jira.create_issue'' [JDict fields2]) (\<lambda>issue.
                 bindM (lift (getitem issue ''key'')) (\<lambda>k.
                 get_issue E k JNull)))"
  have body: "create_issue_try E r s = bindM (type_specific_fields E r (initial_fields r)) ?tail ?s1"
    using assms by (rule create_issue_try_story)
  have wrap: "fst (create_issue E r s) = fst (create_issue_try E r s)"
             "calls (snd (create_issue E r s)) = calls (snd (create_issue_try E r s))"
    by (simp_all add: create_issue_def try_except_reraise)
  have tsf: "type_specific_fields E r (initial_fields r) ?s1 =
           (case remote E (calls ?s1) ?i of
              Inl e \<Rightarrow> (Inl e, ?s2)
            | Inr epic \<Rightarrow>
                (case epic_link_invalid epic of
                   Inl e \<Rightarrow> (Inl e, ?s2)
                 | Inr invalid \<Rightarrow>
                     if invalid
                     then (Inl (Exn ValueError (''Invalid epic link: '' @ k)), ?s2)
                     else set_named_field E ''Epic Link'' (JStr k) (initial_fields r) ?s2))"
    using story link nonempty by (rule type_specific_fields_story)
  have stopped: "\<And>e. type_specific_fields E r (initial_fields r) ?s1 = (Inl e, ?s2) \<Longrightarrow>
          fst (create_issue E r s) = Inl e
          \<and> calls (snd (create_issue E r s)) = calls s @ [?p, ?i]"
    by (simp add: wrap body bindM_def)
  show ?thesis
  proof (intro conjI allI impI)
    fix epic
    assume a: "remote E (calls s @ [?p]) ?i = Inr epic
                 \<and> (\<not> truthy epic
                      \<or> (\<exists>n. bindE (getitem epic ''fields'') (\<lambda>f. bindE (getitem f ''issuetype'')
                                 (\<lambda>t. getitem t ''name'')) = Inr n \<and> n \<noteq> JStr ''Epic''))"
    then have "epic_link_invalid epic = Inr True"
      using epic_link_invalid_True by blast
    with a have "type_specific_fields E r (initial_fields r) ?s1
                   = (Inl (Exn ValueError (''Invalid epic link: '' @ k)), ?s2)"
      by (simp add: tsf)
    then have r: "fst (create_issue E r s) = Inl (Exn ValueError (''Invalid epic link: '' @ k))
          \<and> calls (snd (create_issue E r s)) = calls s @ [?p, ?i]"
      by (rule stopped)
    from r show "fst (create_issue E r s) = Inl (Exn ValueError (''Invalid epic link: '' @ k))"
      by simp
    from r show "calls (snd (create_issue E r s)) = calls s @ [?p, ?i]"
      by simp
  next
    show "\<exists>rest. calls (snd (create_issue E r s)) = calls s @ [?p, ?i] @ rest
                \<and> ((\<exists>flds. Call ''jira.create_issue'' flds \<in> set rest) \<longrightarrow>
                     (\<exists>epic. remote E (calls s @ [?p]) ?i = Inr epic
                            \<and> truthy epic
                            \<and> bindE (getitem epic ''fields'') (\<lambda>f. bindE (getitem f ''issuetype'')
                                  (\<lambda>t. getitem t ''name'')) = Inr (JStr ''Epic'')))"
    proof (cases "remote E (calls s @ [?p]) ?i")
      case (Inl e)
      then have "type_specific_fields E r (initial_fields r) ?s1 = (Inl e, ?s2)"
        by (simp add: tsf)
      from stopped [OF this] show ?thesis by simp
    next
      case (Inr epic)
      show ?thesis
      proof (cases "epic_link_invalid epic")
        case (Inl e)
        with Inr have "type_specific_fields E r (initial_fields r) ?s1 = (Inl e, ?s2)"
          by (simp add: tsf)
        from stopped [OF this] show ?thesis by simp
      next
        case inv: (Inr invalid)
        show ?thesis
        proof (cases invalid)
          case True
          with Inr inv have "type_specific_fields E r (initial_fields r) ?s1
                   = (Inl (Exn ValueError (''Invalid epic link: '' @ k)), ?s2)"
            by (simp add: tsf)
          from stopped [OF this] show ?thesis by simp
        next
          case False
          with inv have valid: "truthy epic
              \<and> bindE (getitem epic ''fields'') (\<lambda>f. bindE (getitem f ''issuetype'')
                                  (\<lambda>t. getitem t ''name'')) = Inr (JStr ''Epic'')"
            by (simp add: epic_link_invalid_False)
          obtain res s3 where named:
            "set_named_field E ''Epic Link'' (JStr k) (initial_fields r) ?s2 = (res, s3)"
            by (cases "set_named_field E ''Epic Link'' (JStr k) (initial_fields r) ?s2")
          with set_named_field_frame [of E "''Epic Link''" "JStr k" "initial_fields r" ?s2]
          obtain fields1 where res: "res = Inr fields1" and c3: "calls s3 = calls s @ [?p, ?i]"
            by (cases res) auto
          from Inr inv False named res
          have "type_specific_fields E r (initial_fields r) ?s1 = (Inr fields1, s3)"
            by (simp add: tsf)
          then have "create_issue_try E r s = ?tail fields1 s3"
            by (simp add: body bindM_def)
          moreover obtain rest where "calls (snd (?tail fields1 s3)) = calls s3 @ rest"
            using create_issue_tail_calls [of E r fields1 s3] by blast
          ultimately have "calls (snd (create_issue E r s)) = calls s @ [?p, ?i] @ rest"
            by (simp add: wrap c3)
          with Inr valid show ?thesis by blast
        qed
      qed
    qed
  qed
qed


text \<open>
  C8 does not hold for a Story whose epic link is the empty string. The request is built,
  the test \<^verbatim>\<open>request.epic_link\<close> is false, and the story is created without any lookup of
  the linked key.
\<close>

theorem C8_empty_epic_link_not_validated:
  "new_JiraIssueCreate ''DEV'' ''S'' ''d'' ''Story'' (Some []) None =
     Inr \<lparr>project_key = ''DEV'', summary = ''S'', description = ''d'', issue_type = ''Story'',
          epic_link = Some [], custom_fields = []\<rparr>
   \<and> calls (snd (create_issue (sample_env sample_remote)
        \<lparr>project_key = ''DEV'', summary = ''S'', description = ''d'', issue_type = ''Story'',
          epic_link = Some [], custom_fields = []\<rparr> s0)) =
     [Call ''jira.project'' [JStr ''DEV''],
      Call ''jira.create_issue''
        [JDict [(''project'', JDict [(''key'', JStr ''DEV'')]),
                (''summary'', JStr ''S''),
                (''description'', JStr ''d''),
                (''issuetype'', JDict [(''name'', JStr ''Story'')])]],
      Call ''jira.issue'' [JStr ''DEV-2'', JNull]]"
  by (simp add: new_JiraIssueCreate_def create_issue_def try_except_reraise create_issue_try_def
      type_specific_fields_def with_custom_fields_def initial_fields_def monad_simps
      sample_env_sel s0_def get_issue_calls)

theorem C8_story_epic_link_checked_before_create_witness:
  "fst (create_issue (sample_env sample_remote)
        \<lparr>project_key = ''DEV'', summary = ''S'', description = ''d'', issue_type = ''Story'',
          epic_link = Some ''DEV-9'', custom_fields = []\<rparr> s0) =
     Inl (Exn ValueError ''Invalid epic link: DEV-9'')
   \<and> calls (snd (create_issue (sample_env sample_remote)
        \<lparr>project_key = ''DEV'', summary = ''S'', description = ''d'', issue_type = ''Story'',
          epic_link = Some ''DEV-9'', custom_fields = []\<rparr> s0)) =
     [Call ''jira.project'' [JStr ''DEV''], Call ''jira.issue'' [JStr ''DEV-9'']]"
proof -
  let ?r = "\<lparr>project_key = ''DEV'', summary = ''S'', description = ''d'', issue_type = ''Story'',
          epic_link = Some ''DEV-9'', custom_fields = []\<rparr>"
  have story: "issue_type ?r = ''Story''" and link: "epic_link ?r = Some ''DEV-9''"
    and nonempty: "''DEV-9'' \<noteq> []"
    by simp_all
  have project: "remote (sample_env sample_remote) (calls s0)
                   (Call ''jira.project'' [JStr (project_key ?r)]) = Inr (JDict [(''key'', JStr ''DEV'')])"
    by (simp add: sample_env_sel)
  have present: "truthy (JDict [(''key'', JStr ''DEV'')])"
    by simp
  have epic: "remote (sample_env sample_remote)
                (calls s0 @ [Call ''jira.project'' [JStr (project_key ?r)]])
                (Call ''jira.issue'' [JStr ''DEV-9'']) = Inr (sample_issue ''Story'')
              \<and> (\<not> truthy (sample_issue ''Story'')
                   \<or> (\<exists>n. bindE (getitem (sample_issue ''Story'') ''fields'')
                              (\<lambda>f. bindE (getitem f ''issuetype'') (\<lambda>t. getitem t ''name''))
                            = Inr n \<and> n \<noteq> JStr ''Epic''))"
    by (simp add: sample_env_sel sample_issue_def bindE_def)
  from C8_story_epic_link_checked_before_create [OF story link nonempty project present] epic
  have "fst (create_issue (sample_env sample_remote) ?r s0)
          = Inl (Exn ValueError (''Invalid epic link: '' @ ''DEV-9''))
        \<and> calls (snd (create_issue (sample_env sample_remote) ?r s0)) =
            calls s0 @ [Call ''jira.project'' [JStr (project_key ?r)],
                        Call ''jira.issue'' [JStr ''DEV-9'']]"
    by blast
  then show ?thesis by (simp add: s0_def)
qed

section \<open>Custom field names on create and update\<close>

lemma bindM_eval: "m s = (Inr x, s1) \<Longrightarrow> bindM m f s = f x s1"
  by (simp add: bindM_def)

lemma bindM_session_put_call:
  "bindM (session_put_call E url payload) f s =
     (case session_put E (calls s) url payload of
        Inl e \<Rightarrow> (Inl e, s\<lparr>calls := calls s @ [Call ''jira._session.put'' [JStr url, payload]]\<rparr>)
      | Inr x \<Rightarrow> f x (s\<lparr>calls := calls s @ [Call ''jira._session.put'' [JStr url, payload]]\<rparr>))"
  by (simp add: bindM_def session_put_call_def split: sum.splits)

lemma process_custom_fields_loop_run:
  "process_custom_fields_loop E cfs acc s =
     (Inr (foldl (\<lambda>acc nv. case processed_key E (fst nv) of
                      Some i \<Rightarrow> AList.update i (snd nv) acc
                    | None \<Rightarrow> acc) acc cfs),
      s\<lparr>logs := logs s @ concat (map (\<lambda>nv.
             if truthy_id (map_of (CUSTOM_FIELD_MAPPINGS E) (fst nv)) then []
             else [(Warning, ''Unknown custom field: '' @ fst nv),
                   (Warning, ''Skipping unknown custom field: '' @ fst nv)]) cfs)\<rparr>)"
proof (induction cfs arbitrary: acc s)
  case Nil
  then show ?case by (simp add: monad_simps)
next
  case (Cons a cfs)
  obtain n v where a: "a = (n, v)" by (cases a)
  show ?case
    by (cases "map_of (CUSTOM_FIELD_MAPPINGS E) n")
       (simp_all add: a bindM_get_custom_field_id monad_simps Cons.IH processed_key_def)
qed

lemma update_fields_loop_run:
  "update_fields_loop E fs acc s =
     (Inr (foldl (\<lambda>acc nv. AList.update (update_key E (fst nv)) (snd nv) acc) acc fs),
      s\<lparr>logs := logs s @ concat (map (\<lambda>nv.
             if truthy_id (map_of (CUSTOM_FIELD_MAPPINGS E) (fst nv)) then []
             else [(Warning, ''Unknown custom field: '' @ fst nv)]) fs)\<rparr>)"
proof (induction fs arbitrary: acc s)
  case Nil
  then show ?case by (simp add: monad_simps)
next
  case (Cons a fs)
  obtain n v where a: "a = (n, v)" by (cases a)
  show ?case
    by (cases "map_of (CUSTOM_FIELD_MAPPINGS E) n")
       (simp_all add: a bindM_get_custom_field_id monad_simps Cons.IH update_key_def)
qed

text \<open>A dict written key by key holds, under each key, the value written last.\<close>

lemma last_write_wins:
  "map_of (foldl (\<lambda>acc nv. case key nv of Some i \<Rightarrow> AList.update i (snd nv) acc
                                 | None \<Rightarrow> acc) acc xs) k =
     (case map snd (filter (\<lambda>nv. key nv = Some k) xs) of
        [] \<Rightarrow> map_of acc k
      | vs \<Rightarrow> Some (last vs))"
proof (induction xs rule: rev_induct)
  case Nil
  then show ?case by simp
next
  case (snoc x xs)
  then show ?case
    by (cases "key x") (auto simp: update_conv' split: list.splits)
qed

lemma last_write_wins_total:
  "map_of (foldl (\<lambda>acc nv. AList.update (key nv) (snd nv) acc) acc xs) k =
     (case map snd (filter (\<lambda>nv. key nv = k) xs) of
        [] \<Rightarrow> map_of acc k
      | vs \<Rightarrow> Some (last vs))"
  using last_write_wins [of "\<lambda>nv. Some (key nv)" acc xs k] by simp

lemma distinct_keys_fold:
  "distinct (map fst acc) \<Longrightarrow>
   distinct (map fst (foldl (\<lambda>acc nv. case key nv of Some i \<Rightarrow> AList.update i (snd nv) acc
                                 | None \<Rightarrow> acc) acc xs))"
proof (induction xs rule: rev_induct)
  case Nil
  then show ?case by simp
next
  case (snoc x xs)
  then show ?case
    by (cases "key x") (simp_all add: distinct_update)
qed

lemma distinct_entries:
  "distinct (map fst new) \<Longrightarrow>
   map snd (filter (\<lambda>kv. fst kv = k) new) = (case map_of new k of None \<Rightarrow> [] | Some v \<Rightarrow> [v])"
proof (induction new)
  case Nil
  then show ?case by simp
next
  case (Cons a new)
  obtain k' v' where a: "a = (k', v')" by (cases a)
  from Cons.prems a have fresh: "map_of new k' = None"
    by (simp add: map_of_eq_None_iff)
  from Cons show ?case
    by (auto simp: a fresh)
qed

lemma dict_update_conv:
  assumes "distinct (map fst new)"
  shows "map_of (dict_update d new) k = (case map_of new k of Some v \<Rightarrow> Some v | None \<Rightarrow> map_of d k)"
  unfolding dict_update_def last_write_wins_total [of fst d new k] distinct_entries [OF assms]
  by (simp split: option.splits)


lemma get_issue_logs:
  "\<exists>more. logs (snd (get_issue E k x s)) = logs s @ more"
  by (simp add: get_issue_def try_except_def monad_simps split: sum.splits prod.splits)

lemma with_custom_fields_run:
  "with_custom_fields E r flds s =
     (Inr (dict_update flds
             (foldl (\<lambda>acc nv. case processed_key E (fst nv) of
                      Some i \<Rightarrow> AList.update i (snd nv) acc
                    | None \<Rightarrow> acc) [] (custom_fields r))),
      s\<lparr>logs := logs s @ concat (map (\<lambda>nv.
             if truthy_id (map_of (CUSTOM_FIELD_MAPPINGS E) (fst nv)) then []
             else [(Warning, ''Unknown custom field: '' @ fst nv),
                   (Warning, ''Skipping unknown custom field: '' @ fst nv)]) (custom_fields r))\<rparr>)"
proof (cases "custom_fields r = []")
  case True
  then show ?thesis
    by (simp add: with_custom_fields_def monad_simps dict_update_def)
next
  case False
  then show ?thesis
    by (simp add: with_custom_fields_def process_custom_fields_def
        bindM_eval [OF process_custom_fields_loop_run] monad_simps)
qed

lemma with_custom_fields_sent:
  "map_of (dict_update flds
             (foldl (\<lambda>acc nv. case processed_key E (fst nv) of
                      Some i \<Rightarrow> AList.update i (snd nv) acc
                    | None \<Rightarrow> acc) [] cfs)) k =
     (case map snd (filter (\<lambda>nv. processed_key E (fst nv) = Some k) cfs) of
        [] \<Rightarrow> map_of flds k
      | vs \<Rightarrow> Some (last vs))"
proof -
  let ?P = "foldl (\<lambda>acc nv. case processed_key E (fst nv) of
                      Some i \<Rightarrow> AList.update i (snd nv) acc
                    | None \<Rightarrow> acc) [] cfs"
  have d: "distinct (map fst ?P)"
    by (rule distinct_keys_fold) simp
  have p: "map_of ?P k =
     (case map snd (filter (\<lambda>nv. processed_key E (fst nv) = Some k) cfs) of
        [] \<Rightarrow> None
      | vs \<Rightarrow> Some (last vs))"
    using last_write_wins [of "\<lambda>nv. processed_key E (fst nv)" "[]" cfs k]
    by (simp split: list.splits)
  show ?thesis
    unfolding dict_update_conv [OF d] p
    by (simp split: list.splits)
qed

text \<open>What follows once the fields are complete: the create call and the read-back.\<close>

lemma create_call_tail:
  "\<exists>rest more.
     calls (snd (bindM (remote_call E ''jira.create_issue'' [JDict sent]) (\<lambda>issue.
              bindM (lift (getitem issue ''key'')) (\<lambda>k.
              get_issue E k JNull)) s))
       = calls s @ Call ''jira.create_issue'' [JDict sent] # rest
     \<and> logs (snd (bindM (remote_call E ''jira.create_issue'' [JDict sent]) (\<lambda>issue.
              bindM (lift (getitem issue ''key'')) (\<lambda>k.
              get_issue E k JNull)) s))
       = logs s @ more"
proof (cases "remote E (calls s) (Call ''jira.create_issue'' [JDict sent])")
  case (Inl e)
  then show ?thesis
    by (simp add: monad_simps)
next
  case (Inr issue)
  show ?thesis
  proof (cases "getitem issue ''key''")
    case (Inl e)
    with Inr show ?thesis
      by (simp add: monad_simps)
  next
    case k: (Inr k)
    let ?s1 = "s\<lparr>calls := calls s @ [Call ''jira.create_issue'' [JDict sent]]\<rparr>"
    from get_issue_logs [of E k JNull ?s1] obtain more where
      "logs (snd (get_issue E k JNull ?s1)) = logs s @ more"
      by auto
    with get_issue_calls [of E k JNull ?s1] Inr k show ?thesis
      by (simp add: monad_simps)
  qed
qed

lemma try_except_reraise_logs:
  "\<exists>more. logs (snd (try_except m (\<lambda>e. bindM (log lv (msg e)) (\<lambda>_. raise e)) s))
            = logs (snd (m s)) @ more"
  by (cases "m s"; cases "fst (m s)") (auto simp: try_except_def monad_simps)

lemma create_issue_fields_sent:
  assumes project: "remote E (calls s) (Call ''jira.project'' [JStr (project_key r)]) = Inr project"
    and present: "truthy project"
    and typed: "type_specific_fields E r (initial_fields r)
                  (s\<lparr>calls := calls s @ [Call ''jira.project'' [JStr (project_key r)]]\<rparr>)
                = (Inr fields1, s2)"
  shows "\<exists>sent rest more.
           calls (snd (create_issue E r s))
             = calls s2 @ Call ''jira.create_issue'' [JDict sent] # rest
         \<and> (\<forall>k. map_of sent k =
               (case map snd (filter (\<lambda>nv. processed_key E (fst nv) = Some k) (custom_fields r)) of
                  [] \<Rightarrow> map_of fields1 k
                | vs \<Rightarrow> Some (last vs)))
         \<and> logs (snd (create_issue E r s))
             = logs s2 @ concat (map (\<lambda>nv.
                 if truthy_id (map_of (CUSTOM_FIELD_MAPPINGS E) (fst nv)) then []
                 else [(Warning, ''Unknown custom field: '' @ fst nv),
                       (Warning, ''Skipping unknown custom field: '' @ fst nv)])
                 (custom_fields r)) @ more"
proof -
  let ?sent = "dict_update fields1
             (foldl (\<lambda>acc nv. case processed_key E (fst nv) of
                      Some i \<Rightarrow> AList.update i (snd nv) acc
                    | None \<Rightarrow> acc) [] (custom_fields r))"
  let ?W = "concat (map (\<lambda>nv.
                 if truthy_id (map_of (CUSTOM_FIELD_MAPPINGS E) (fst nv)) then []
                 else [(Warning, ''Unknown custom field: '' @ fst nv),
                       (Warning, ''Skipping unknown custom field: '' @ fst nv)])
                 (custom_fields r))"
  let ?s3 = "s2\<lparr>logs := logs s2 @ ?W\<rparr>"
  let ?tail = "bindM (remote_call E ''jira.create_issue'' [JDict ?sent]) (\<lambda>issue.
              bindM (lift (getitem issue ''key'')) (\<lambda>k.
              get_issue E k JNull))"
  have body: "create_issue_try E r s = ?tail ?s3"
    using project present
    by (simp add: create_issue_try_def monad_simps
        bindM_eval [of "type_specific_fields E r (initial_fields r)" _ fields1 s2, OF typed]
        bindM_eval [OF with_custom_fields_run])
  from create_call_tail [of E ?sent ?s3] obtain rest more where
    c: "calls (snd (?tail ?s3)) = calls s2 @ Call ''jira.create_issue'' [JDict ?sent] # rest"
    and l: "logs (snd (?tail ?s3)) = logs s2 @ ?W @ more"
    by auto
  from try_except_reraise_logs [of "create_issue_try E r" Error
         "\<lambda>e. ''Error creating issue: '' @ exn_str e" s]
  obtain more' where
    l': "logs (snd (create_issue E r s)) = logs (snd (create_issue_try E r s)) @ more'"
    by (auto simp: create_issue_def)
  have c': "calls (snd (create_issue E r s)) = calls (snd (create_issue_try E r s))"
    by (simp add: create_issue_def try_except_reraise)
  show ?thesis
  proof (intro exI conjI allI)
    show "calls (snd (create_issue E r s))
             = calls s2 @ Call ''jira.create_issue'' [JDict ?sent] # rest"
      using c c' body by simp
    show "map_of ?sent k =
               (case map snd (filter (\<lambda>nv. processed_key E (fst nv) = Some k) (custom_fields r)) of
                  [] \<Rightarrow> map_of fields1 k
                | vs \<Rightarrow> Some (last vs))" for k
      by (rule with_custom_fields_sent)
    show "logs (snd (create_issue E r s)) = logs s2 @ ?W @ (more @ more')"
      using l l' body by simp
  qed
qed


text \<open>What follows once the fields of an update are complete: the write and the read-back.\<close>

lemma update_call_tail:
  "\<exists>rest more.
     calls (snd (bindM (session_put_call E url payload) (\<lambda>response.
        if status_code response \<notin> set [200, 204]
        then (let error_msg = ''Failed to update issue. Status: ''
                                @ str_int (status_code response)
                                @ '', Response: '' @ resp_text response
              in bindM (log Error error_msg) (\<lambda>_. raise (Exn ValueError error_msg)))
        else get_issue E k JNull) s))
       = calls s @ Call ''jira._session.put'' [JStr url, payload] # rest
     \<and> logs (snd (bindM (session_put_call E url payload) (\<lambda>response.
        if status_code response \<notin> set [200, 204]
        then (let error_msg = ''Failed to update issue. Status: ''
                                @ str_int (status_code response)
                                @ '', Response: '' @ resp_text response
              in bindM (log Error error_msg) (\<lambda>_. raise (Exn ValueError error_msg)))
        else get_issue E k JNull) s))
       = logs s @ more"
proof (cases "session_put E (calls s) url payload")
  case (Inl e)
  then show ?thesis
    by (simp add: bindM_session_put_call)
next
  case (Inr response)
  let ?s1 = "s\<lparr>calls := calls s @ [Call ''jira._session.put'' [JStr url, payload]]\<rparr>"
  show ?thesis
  proof (cases "status_code response = 200 \<or> status_code response = 204")
    case False
    with Inr show ?thesis
      by (simp add: bindM_session_put_call Let_def monad_simps)
  next
    case True
    from get_issue_logs [of E k JNull ?s1] obtain more where
      "logs (snd (get_issue E k JNull ?s1)) = logs s @ more"
      by auto
    with get_issue_calls [of E k JNull ?s1] Inr True show ?thesis
      by (auto simp add: bindM_session_put_call)
  qed
qed

lemma update_issue_fields_sent:
  assumes current: "remote E (calls s) (Call ''jira.issue'' [JStr (issue_key r)]) = Inr current_issue"
    and present: "truthy current_issue"
  shows "\<exists>sent rest more.
           calls (snd (update_issue E r s))
             = calls s @ Call ''jira.issue'' [JStr (issue_key r)]
                 # Call ''jira._session.put''
                     [JStr (get_url E (''rest/api/2/issue/'' @ issue_key r)),
                      JDict [(''fields'', JDict sent)]] # rest
         \<and> (\<forall>k. map_of sent k =
               (case map snd (filter (\<lambda>nv. update_key E (fst nv) = k) (fields' r)) of
                  [] \<Rightarrow> None
                | vs \<Rightarrow> Some (last vs)))
         \<and> logs (snd (update_issue E r s))
             = logs s @ concat (map (\<lambda>nv.
                 if truthy_id (map_of (CUSTOM_FIELD_MAPPINGS E) (fst nv)) then []
                 else [(Warning, ''Unknown custom field: '' @ fst nv)]) (fields' r)) @ more"
proof -
  let ?sent = "foldl (\<lambda>acc nv. AList.update (update_key E (fst nv)) (snd nv) acc) [] (fields' r)"
  let ?W = "concat (map (\<lambda>nv.
                 if truthy_id (map_of (CUSTOM_FIELD_MAPPINGS E) (fst nv)) then []
                 else [(Warning, ''Unknown custom field: '' @ fst nv)]) (fields' r))"
  let ?s2 = "s\<lparr>calls := calls s @ [Call ''jira.issue'' [JStr (issue_key r)]],
                 logs := logs s @ ?W\<rparr>"
  let ?tail = "bindM (session_put_call E (get_url E (''rest/api/2/issue/'' @ issue_key r))
                 (JDict [(''fields'', JDict ?sent)])) (\<lambda>response.
        if status_code response \<notin> set [200, 204]
        then (let error_msg = ''Failed to update issue. Status: ''
                                @ str_int (status_code response)
                                @ '', Response: '' @ resp_text response
              in bindM (log Error error_msg) (\<lambda>_. raise (Exn ValueError error_msg)))
        else get_issue E (JStr (issue_key r)) JNull)"
  have body: "update_issue_try E r s = ?tail ?s2"
    using current present
    by (simp add: update_issue_try_def monad_simps bindM_eval [OF update_fields_loop_run]
        del: update_fields_loop.simps)
  from update_call_tail [of E "get_url E (''rest/api/2/issue/'' @ issue_key r)"
         "JDict [(''fields'', JDict ?sent)]" "JStr (issue_key r)" ?s2]
  obtain rest more where
    c: "calls (snd (?tail ?s2)) = calls s @ Call ''jira.issue'' [JStr (issue_key r)]
          # Call ''jira._session.put''
              [JStr (get_url E (''rest/api/2/issue/'' @ issue_key r)),
               JDict [(''fields'', JDict ?sent)]] # rest"
    and l: "logs (snd (?tail ?s2)) = logs s @ ?W @ more"
    by auto
  from try_except_reraise_logs [of "update_issue_try E r" Error
         "\<lambda>e. ''Error updating issue: '' @ exn_str e" s]
  obtain more' where
    l': "logs (snd (update_issue E r s)) = logs (snd (update_issue_try E r s)) @ more'"
    by (auto simp: update_issue_def)
  have c': "calls (snd (update_issue E r s)) = calls (snd (update_issue_try E r s))"
    by (simp add: update_issue_def try_except_reraise)
  show ?thesis
  proof (intro exI conjI allI)
    show "calls (snd (update_issue E r s))
             = calls s @ Call ''jira.issue'' [JStr (issue_key r)]
                 # Call ''jira._session.put''
                     [JStr (get_url E (''rest/api/2/issue/'' @ issue_key r)),
                      JDict [(''fields'', JDict ?sent)]] # rest"
      using c c' body by simp
    show "map_of ?sent k =
               (case map snd (filter (\<lambda>nv. update_key E (fst nv) = k) (fields' r)) of
                  [] \<Rightarrow> None
                | vs \<Rightarrow> Some (last vs))" for k
      using last_write_wins_total [of "\<lambda>nv. update_key E (fst nv)" "[]" "fields' r" k]
      by (simp split: list.splits)
    show "logs (snd (update_issue E r s)) = logs s @ ?W @ (more @ more')"
      using l l' body by simp
  qed
qed


lemma sample_env_library:
  "str_lower (sample_env r) = ascii_lower"
  "fromisoformat_other (sample_env r) = (\<lambda>s. Inl (invalid_isoformat s))"
  "strftime_year (sample_env r) = zero_pad 4"
  by (simp_all add: sample_env_def)

text \<open>
  C5 does not hold for updates. \<^verbatim>\<open>Team Name\<close> is not in the catalog; an update that
  supplies it sends its value all the same, under the key \<^verbatim>\<open>team name\<close>.
\<close>

theorem C5_update_keeps_unresolved_name:
  "map_of (CUSTOM_FIELD_MAPPINGS (sample_env sample_remote)) ''Team Name'' = None
   \<and> calls (snd (update_issue (sample_env sample_remote)
          \<lparr>issue_key = ''DEV-1'', fields' = [(''Team Name'', JStr ''Core'')]\<rparr> s0)) =
     [Call ''jira.issue'' [JStr ''DEV-1''],
      Call ''jira._session.put''
        [JStr ''https://example.atlassian.net/rest/api/2/issue/DEV-1'',
         JDict [(''fields'', JDict [(''team name'', JStr ''Core'')])]],
      Call ''jira.issue'' [JStr ''DEV-1'', JNull]]"
proof
  show "map_of (CUSTOM_FIELD_MAPPINGS (sample_env sample_remote)) ''Team Name'' = None"
    by (simp add: sample_env_sel seed_mappings_def)
  have low: "update_key (sample_env sample_remote) ''Team Name'' = ''team name''"
    by (simp add: update_key_def sample_env_sel sample_env_library seed_mappings_def
        ascii_lower_def ascii_lower_char_def)
  have loop: "update_fields_loop (sample_env sample_remote) [(''Team Name'', JStr ''Core'')] [] s =
          (Inr [(''team name'', JStr ''Core'')],
           s\<lparr>logs := logs s @ [(Warning, ''Unknown custom field: Team Name'')]\<rparr>)" for s
    unfolding update_fields_loop_run
    by (simp add: sample_env_sel seed_mappings_def low)
  show "calls (snd (update_issue (sample_env sample_remote)
          \<lparr>issue_key = ''DEV-1'', fields' = [(''Team Name'', JStr ''Core'')]\<rparr> s0)) =
     [Call ''jira.issue'' [JStr ''DEV-1''],
      Call ''jira._session.put''
        [JStr ''https://example.atlassian.net/rest/api/2/issue/DEV-1'',
         JDict [(''fields'', JDict [(''team name'', JStr ''Core'')])]],
      Call ''jira.issue'' [JStr ''DEV-1'', JNull]]"
    by (simp add: update_issue_def try_except_reraise update_issue_try_def monad_simps
        sample_env_sel sample_issue_def bindM_eval [OF loop] bindM_session_put_call s0_def
        get_issue_calls del: update_fields_loop.simps)
qed

text \<open>
  C5, amended. Take a create request whose project lookup and type-specific step have
  succeeded, the latter leaving the fields \<open>fields1\<close>. The next remote call is
  \<^verbatim>\<open>create_issue\<close>, and the fields it sends hold under every key the value of the last
  supplied custom field whose name the catalog resolves to that key, and the entry of
  \<open>fields1\<close> if there is none: a name that does not resolve contributes nothing. Each
  such name is logged with two warnings, and the request is not aborted. Take an update
  request whose issue lookup has succeeded. The next remote call is the write, and the
  fields it sends hold under every key the value of the last supplied field whose key is
  that one, where the key of a name is the identifier the catalog resolves it to, and the
  lower-cased name if it does not resolve. Each name that does not resolve is logged with
  one warning.
\<close>

theorem C5_custom_field_names_sent:
  "(\<forall>project fields1 s2.
      remote E (calls s) (Call ''jira.project'' [JStr (project_key creq)]) = Inr project
      \<and> truthy project
      \<and> type_specific_fields E creq (initial_fields creq)
          (s\<lparr>calls := calls s @ [Call ''jira.project'' [JStr (project_key creq)]]\<rparr>)
        = (Inr fields1, s2)
      \<longrightarrow>
      (\<exists>sent rest more.
           calls (snd (create_issue E creq s))
             = calls s2 @ Call ''jira.create_issue'' [JDict sent] # rest
         \<and> (\<forall>k. map_of sent k =
               (case map snd (filter (\<lambda>nv. processed_key E (fst nv) = Some k)
                                (custom_fields creq)) of
                  [] \<Rightarrow> map_of fields1 k
                | vs \<Rightarrow> Some (last vs)))
         \<and> logs (snd (create_issue E creq s))
             = logs s2 @ concat (map (\<lambda>nv.
                 if truthy_id (map_of (CUSTOM_FIELD_MAPPINGS E) (fst nv)) then []
                 else [(Warning, ''Unknown custom field: '' @ fst nv),
                       (Warning, ''Skipping unknown custom field: '' @ fst nv)])
                 (custom_fields creq)) @ more))
   \<and> (\<forall>current_issue.
      remote E (calls s) (Call ''jira.issue'' [JStr (issue_key ureq)]) = Inr current_issue
      \<and> truthy current_issue
      \<longrightarrow>
      (\<exists>sent rest more.
           calls (snd (update_issue E ureq s))
             = calls s @ Call ''jira.issue'' [JStr (issue_key ureq)]
                 # Call ''jira._session.put''
                     [JStr (get_url E (''rest/api/2/issue/'' @ issue_key ureq)),
                      JDict [(''fields'', JDict sent)]] # rest
         \<and> (\<forall>k. map_of sent k =
               (case map snd (filter (\<lambda>nv. update_key E (fst nv) = k) (fields' ureq)) of
                  [] \<Rightarrow> None
                | vs \<Rightarrow> Some (last vs)))
         \<and> logs (snd (update_issue E ureq s))
             = logs s @ concat (map (\<lambda>nv.
                 if truthy_id (map_of (CUSTOM_FIELD_MAPPINGS E) (fst nv)) then []
                 else [(Warning, ''Unknown custom field: '' @ fst nv)]) (fields' ureq))
               @ more))"
proof (intro conjI allI impI)
  fix project fields1 s2
  assume "remote E (calls s) (Call ''jira.project'' [JStr (project_key creq)]) = Inr project
      \<and> truthy project
      \<and> type_specific_fields E creq (initial_fields creq)
          (s\<lparr>calls := calls s @ [Call ''jira.project'' [JStr (project_key creq)]]\<rparr>)
        = (Inr fields1, s2)"
  then have "remote E (calls s) (Call ''jira.project'' [JStr (project_key creq)]) = Inr project"
    and "truthy project"
    and "type_specific_fields E creq (initial_fields creq)
          (s\<lparr>calls := calls s @ [Call ''jira.project'' [JStr (project_key creq)]]\<rparr>)
        = (Inr fields1, s2)"
    by simp_all
  then show "\<exists>sent rest more.
           calls (snd (create_issue E creq s))
             = calls s2 @ Call ''jira.create_issue'' [JDict sent] # rest
         \<and> (\<forall>k. map_of sent k =
               (case map snd (filter (\<lambda>nv. processed_key E (fst nv) = Some k)
                                (custom_fields creq)) of
                  [] \<Rightarrow> map_of fields1 k
                | vs \<Rightarrow> Some (last vs)))
         \<and> logs (snd (create_issue E creq s))
             = logs s2 @ concat (map (\<lambda>nv.
                 if truthy_id (map_of (CUSTOM_FIELD_MAPPINGS E) (fst nv)) then []
                 else [(Warning, ''Unknown custom field: '' @ fst nv),
                       (Warning, ''Skipping unknown custom field: '' @ fst nv)])
                 (custom_fields creq)) @ more"
    by (rule create_issue_fields_sent)
next
  fix current_issue
  assume "remote E (calls s) (Call ''jira.issue'' [JStr (issue_key ureq)]) = Inr current_issue
      \<and> truthy current_issue"
  then have "remote E (calls s) (Call ''jira.issue'' [JStr (issue_key ureq)]) = Inr current_issue"
    and "truthy current_issue"
    by simp_all
  then show "\<exists>sent rest more.
           calls (snd (update_issue E ureq s))
             = calls s @ Call ''jira.issue'' [JStr (issue_key ureq)]
                 # Call ''jira._session.put''
                     [JStr (get_url E (''rest/api/2/issue/'' @ issue_key ureq)),
                      JDict [(''fields'', JDict sent)]] # rest
         \<and> (\<forall>k. map_of sent k =
               (case map snd (filter (\<lambda>nv. update_key E (fst nv) = k) (fields' ureq)) of
                  [] \<Rightarrow> None
                | vs \<Rightarrow> Some (last vs)))
         \<and> logs (snd (update_issue E ureq s))
             = logs s @ concat (map (\<lambda>nv.
                 if truthy_id (map_of (CUSTOM_FIELD_MAPPINGS E) (fst nv)) then []
                 else [(Warning, ''Unknown custom field: '' @ fst nv)]) (fields' ureq))
               @ more"
    by (rule update_issue_fields_sent)
qed

theorem C5_custom_field_names_sent_witness:
  "(\<exists>sent rest.
      calls (snd (create_issue (sample_env sample_remote)
         \<lparr>project_key = ''DEV'', summary = ''S'', description = ''d'', issue_type = ''Story'',
          epic_link = None,
          custom_fields = [(''Story Points'', JInt 5), (''Team Name'', JStr ''Core'')]\<rparr> s0))
        = Call ''jira.project'' [JStr ''DEV''] # Call ''jira.create_issue'' [JDict sent] # rest
      \<and> map_of sent ''customfield_10026'' = Some (JInt 5)
      \<and> map_of sent ''summary'' = Some (JStr ''S'')
      \<and> map_of sent ''Team Name'' = None
      \<and> map_of sent ''team name'' = None
      \<and> (Warning, ''Skipping unknown custom field: Team Name'')
           \<in> set (logs (snd (create_issue (sample_env sample_remote)
         \<lparr>project_key = ''DEV'', summary = ''S'', description = ''d'', issue_type = ''Story'',
          epic_link = None,
          custom_fields = [(''Story Points'', JInt 5), (''Team Name'', JStr ''Core'')]\<rparr> s0))))
   \<and> (\<exists>sent rest.
      calls (snd (update_issue (sample_env sample_remote)
         \<lparr>issue_key = ''DEV-1'',
          fields' = [(''Team'', JInt 1), (''team'', JInt 2), (''Story Points'', JInt 8)]\<rparr> s0))
        = Call ''jira.issue'' [JStr ''DEV-1'']
            # Call ''jira._session.put''
                [JStr ''https://example.atlassian.net/rest/api/2/issue/DEV-1'',
                 JDict [(''fields'', JDict sent)]] # rest
      \<and> map_of sent ''team'' = Some (JInt 2)
      \<and> map_of sent ''Team'' = None
      \<and> map_of sent ''customfield_10026'' = Some (JInt 8)
      \<and> map_of sent ''Story Points'' = None
      \<and> (Warning, ''Unknown custom field: Team'')
           \<in> set (logs (snd (update_issue (sample_env sample_remote)
         \<lparr>issue_key = ''DEV-1'',
          fields' = [(''Team'', JInt 1), (''team'', JInt 2), (''Story Points'', JInt 8)]\<rparr> s0))))"
proof -
  let ?E = "sample_env sample_remote"
  let ?creq = "\<lparr>project_key = ''DEV'', summary = ''S'', description = ''d'',
                issue_type = ''Story'', epic_link = None,
                custom_fields = [(''Story Points'', JInt 5), (''Team Name'', JStr ''Core'')]\<rparr>"
  let ?ureq = "\<lparr>issue_key = ''DEV-1'',
          fields' = [(''Team'', JInt 1), (''team'', JInt 2), (''Story Points'', JInt 8)]\<rparr>"
  let ?s1 = "s0\<lparr>calls := calls s0 @ [Call ''jira.project'' [JStr (project_key ?creq)]]\<rparr>"
  note inst = C5_custom_field_names_sent [of ?E s0 ?creq ?ureq]
  have project: "remote ?E (calls s0) (Call ''jira.project'' [JStr (project_key ?creq)])
                   = Inr (JDict [(''key'', JStr ''DEV'')])"
    by (simp add: sample_env_sel)
  have typed: "type_specific_fields ?E ?creq (initial_fields ?creq) ?s1
                 = (Inr (initial_fields ?creq), ?s1)"
    by (simp add: type_specific_fields_def monad_simps)
  have pk: "processed_key ?E ''Story Points'' = Some ''customfield_10026''"
    "processed_key ?E ''Team Name'' = None"
    by (simp_all add: processed_key_def sample_env_sel seed_mappings_def)
  have unresolved: "\<not> truthy_id (map_of (CUSTOM_FIELD_MAPPINGS ?E) ''Team Name'')"
    "truthy_id (map_of (CUSTOM_FIELD_MAPPINGS ?E) ''Story Points'')"
    by (simp_all add: sample_env_sel seed_mappings_def)
  from inst [THEN conjunct1, rule_format, of "JDict [(''key'', JStr ''DEV'')]"
               "initial_fields ?creq" ?s1] project typed
  obtain sent rest more where
    c: "calls (snd (create_issue ?E ?creq s0))
          = calls ?s1 @ Call ''jira.create_issue'' [JDict sent] # rest"
    and m: "\<And>k. map_of sent k =
               (case map snd (filter (\<lambda>nv. processed_key ?E (fst nv) = Some k)
                                (custom_fields ?creq)) of
                  [] \<Rightarrow> map_of (initial_fields ?creq) k
                | vs \<Rightarrow> Some (last vs))"
    and l: "logs (snd (create_issue ?E ?creq s0))
             = logs ?s1 @ concat (map (\<lambda>nv.
                 if truthy_id (map_of (CUSTOM_FIELD_MAPPINGS ?E) (fst nv)) then []
                 else [(Warning, ''Unknown custom field: '' @ fst nv),
                       (Warning, ''Skipping unknown custom field: '' @ fst nv)])
                 (custom_fields ?creq)) @ more"
    by auto
  have first: "\<exists>sent rest.
      calls (snd (create_issue ?E ?creq s0))
        = Call ''jira.project'' [JStr ''DEV''] # Call ''jira.create_issue'' [JDict sent] # rest
      \<and> map_of sent ''customfield_10026'' = Some (JInt 5)
      \<and> map_of sent ''summary'' = Some (JStr ''S'')
      \<and> map_of sent ''Team Name'' = None
      \<and> map_of sent ''team name'' = None
      \<and> (Warning, ''Skipping unknown custom field: Team Name'')
           \<in> set (logs (snd (create_issue ?E ?creq s0)))"
  proof (intro exI [of _ sent] exI [of _ rest] conjI)
    show "calls (snd (create_issue ?E ?creq s0))
        = Call ''jira.project'' [JStr ''DEV''] # Call ''jira.create_issue'' [JDict sent] # rest"
      using c by (simp add: s0_def)
    show "map_of sent ''customfield_10026'' = Some (JInt 5)"
      by (simp add: m pk)
    show "map_of sent ''summary'' = Some (JStr ''S'')"
      by (simp add: m pk initial_fields_def)
    show "map_of sent ''Team Name'' = None"
      by (simp add: m pk initial_fields_def)
    show "map_of sent ''team name'' = None"
      by (simp add: m pk initial_fields_def)
    show "(Warning, ''Skipping unknown custom field: Team Name'')
           \<in> set (logs (snd (create_issue ?E ?creq s0)))"
      by (simp add: l unresolved)
  qed
  have current: "remote ?E (calls s0) (Call ''jira.issue'' [JStr (issue_key ?ureq)])
                   = Inr (sample_issue ''Epic'')"
    by (simp add: sample_env_sel)
  have present: "truthy (sample_issue ''Epic'')"
    by (simp add: sample_issue_def)
  have uk: "update_key ?E ''Team'' = ''team''" "update_key ?E ''team'' = ''team''"
    "update_key ?E ''Story Points'' = ''customfield_10026''"
    by (simp_all add: update_key_def sample_env_sel sample_env_library seed_mappings_def
        ascii_lower_def ascii_lower_char_def)
  have unresolved': "\<not> truthy_id (map_of (CUSTOM_FIELD_MAPPINGS ?E) ''Team'')"
    by (simp add: sample_env_sel seed_mappings_def)
  from inst [THEN conjunct2, rule_format, of "sample_issue ''Epic''"] current present
  obtain sent' rest' more' where
    c': "calls (snd (update_issue ?E ?ureq s0))
             = calls s0 @ Call ''jira.issue'' [JStr (issue_key ?ureq)]
                 # Call ''jira._session.put''
                     [JStr (get_url ?E (''rest/api/2/issue/'' @ issue_key ?ureq)),
                      JDict [(''fields'', JDict sent')]] # rest'"
    and m': "\<And>k. map_of sent' k =
               (case map snd (filter (\<lambda>nv. update_key ?E (fst nv) = k) (fields' ?ureq)) of
                  [] \<Rightarrow> None
                | vs \<Rightarrow> Some (last vs))"
    and l': "logs (snd (update_issue ?E ?ureq s0))
             = logs s0 @ concat (map (\<lambda>nv.
                 if truthy_id (map_of (CUSTOM_FIELD_MAPPINGS ?E) (fst nv)) then []
                 else [(Warning, ''Unknown custom field: '' @ fst nv)]) (fields' ?ureq))
               @ more'"
    by auto
  have second: "\<exists>sent rest.
      calls (snd (update_issue ?E ?ureq s0))
        = Call ''jira.issue'' [JStr ''DEV-1'']
            # Call ''jira._session.put''
                [JStr ''https://example.atlassian.net/rest/api/2/issue/DEV-1'',
                 JDict [(''fields'', JDict sent)]] # rest
      \<and> map_of sent ''team'' = Some (JInt 2)
      \<and> map_of sent ''Team'' = None
      \<and> map_of sent ''customfield_10026'' = Some (JInt 8)
      \<and> map_of sent ''Story Points'' = None
      \<and> (Warning, ''Unknown custom field: Team'')
           \<in> set (logs (snd (update_issue ?E ?ureq s0)))"
  proof (intro exI [of _ sent'] exI [of _ rest'] conjI)
    show "calls (snd (update_issue ?E ?ureq s0))
        = Call ''jira.issue'' [JStr ''DEV-1'']
            # Call ''jira._session.put''
                [JStr ''https://example.atlassian.net/rest/api/2/issue/DEV-1'',
                 JDict [(''fields'', JDict sent')]] # rest'"
      using c' by (simp add: s0_def sample_env_sel)
    show "map_of sent' ''team'' = Some (JInt 2)"
      by (simp add: m' uk)
    show "map_of sent' ''Team'' = None"
      by (simp add: m' uk)
    show "map_of sent' ''customfield_10026'' = Some (JInt 8)"
      by (simp add: m' uk)
    show "map_of sent' ''Story Points'' = None"
      by (simp add: m' uk)
    show "(Warning, ''Unknown custom field: Team'')
           \<in> set (logs (snd (update_issue ?E ?ureq s0)))"
      by (simp add: l' unresolved')
  qed
  from first second show ?thesis ..
qed

section \<open>Display dates\<close>

lemma digit_char_digit_val: "is_digit c \<Longrightarrow> digit_char (digit_val c) = c"
  by (auto simp: is_digit_def digit_char_def digit_val_def)

lemma digit_val_less: "is_digit c \<Longrightarrow> digit_val c < 10"
  by (auto simp: is_digit_def digit_val_def)

lemma num_of_snoc: "num_of (ds @ [c]) = 10 * num_of ds + digit_val c"
  by (simp add: num_of_def)

lemma str_nat_digit: "v < 10 \<Longrightarrow> str_nat v = [digit_char v]"
  by simp

lemma str_nat_step: "0 < n \<Longrightarrow> v < 10 \<Longrightarrow> str_nat (10 * n + v) = str_nat n @ [digit_char v]"
  by (subst str_nat.simps) simp

lemma zero_pad_snoc:
  assumes "v < 10" and "0 < w"
  shows "zero_pad (Suc w) (10 * n + v) = zero_pad w n @ [digit_char v]"
proof (cases "n = 0")
  case True
  from assms obtain w' where w: "w = Suc w'"
    by (cases w) auto
  have "replicate w' CHR ''0'' @ [CHR ''0''] = CHR ''0'' # replicate w' CHR ''0''"
    by (simp add: replicate_append_same)
  with True assms w show ?thesis
    by (simp add: zero_pad_def digit_char_def)
next
  case False
  with assms show ?thesis
    by (simp add: zero_pad_def str_nat_step Suc_diff_le del: str_nat.simps)
qed


lemma zero_pad_digits:
  "ds \<noteq> [] \<Longrightarrow> list_all is_digit ds \<Longrightarrow> zero_pad (length ds) (num_of ds) = ds"
proof (induction ds rule: rev_induct)
  case Nil
  then show ?case by simp
next
  case (snoc c ds)
  show ?case
  proof (cases "ds = []")
    case True
    with snoc.prems show ?thesis
      by (simp add: num_of_def zero_pad_def digit_val_less digit_char_digit_val)
  next
    case False
    with snoc have ih: "zero_pad (length ds) (num_of ds) = ds" and c: "is_digit c"
      by simp_all
    from False have "0 < length ds" by simp
    with c ih show ?thesis
      by (simp add: num_of_snoc zero_pad_snoc digit_val_less digit_char_digit_val
          del: str_nat.simps)
  qed
qed

lemma digits_Some: "digits ds = Some n \<Longrightarrow> zero_pad (length ds) n = ds \<and> list_all is_digit ds"
  by (auto simp: digits_def zero_pad_digits split: if_splits)

lemma ten_chars:
  "length t = 10 \<Longrightarrow>
   t = take 4 t @ [t ! 4] @ take 2 (drop 5 t) @ [t ! 7] @ drop 8 t"
proof -
  assume "length t = 10"
  then obtain a0 a1 a2 a3 a4 a5 a6 a7 a8 a9 where "t = [a0, a1, a2, a3, a4, a5, a6, a7, a8, a9]"
    by (auto simp: length_Suc_conv eval_nat_numeral)
  then show ?thesis by simp
qed

lemma parse_date_Some:
  assumes "parse_date t = Some (y, m, d)"
  shows "zero_pad 4 y @ ''-'' @ zero_pad 2 m @ ''-'' @ zero_pad 2 d = t
         \<and> CHR ''+'' \<notin> set t"
proof -
  from assms have len: "length t = 10" and d4: "t ! 4 = CHR ''-''" and d7: "t ! 7 = CHR ''-''"
    and y: "digits (take 4 t) = Some y" and m: "digits (take 2 (drop 5 t)) = Some m"
    and d: "digits (drop 8 t) = Some d"
    by (auto simp: parse_date_def split: if_splits option.splits)
  from digits_Some [OF y] len have py: "zero_pad 4 y = take 4 t" "list_all is_digit (take 4 t)"
    by simp_all
  from digits_Some [OF m] len have pm: "zero_pad 2 m = take 2 (drop 5 t)"
    "list_all is_digit (take 2 (drop 5 t))"
    by simp_all
  from digits_Some [OF d] len have pd: "zero_pad 2 d = drop 8 t" "list_all is_digit (drop 8 t)"
    by simp_all
  have shape: "t = take 4 t @ [t ! 4] @ take 2 (drop 5 t) @ [t ! 7] @ drop 8 t"
    using len by (rule ten_chars)
  have nodigit: "\<not> is_digit CHR ''+''"
    by (simp add: is_digit_def)
  have "CHR ''+'' \<notin> set (take 4 t @ [t ! 4] @ take 2 (drop 5 t) @ [t ! 7] @ drop 8 t)"
    using py(2) pm(2) pd(2) d4 d7 nodigit
    by (auto simp: list_all_iff)
  with shape have "CHR ''+'' \<notin> set t" by simp
  moreover have "zero_pad 4 y @ ''-'' @ zero_pad 2 m @ ''-'' @ zero_pad 2 d = t"
    using shape py(1) pm(1) pd(1) d4 d7 by simp
  ultimately show ?thesis by simp
qed



lemma isoformat_common_fields:
  assumes "isoformat_common s = Some dt"
  shows "parse_date (take 10 s) = Some (year dt, month dt, day dt)"
proof (cases "parse_date (take 10 s)")
  case None
  with assms show ?thesis by (simp add: isoformat_common_def)
next
  case (Some ymd)
  obtain y m d where ymd: "ymd = (y, m, d)" by (cases ymd)
  show ?thesis
  proof (cases "length s = 10")
    case True
    with assms Some ymd show ?thesis by (auto simp: isoformat_common_def)
  next
    case False
    show ?thesis
    proof (cases "parse_time (time_part s)")
      case None
      with assms Some ymd False show ?thesis by (simp add: isoformat_common_def)
    next
      case hm: (Some hmsf)
      obtain h mi sec us where hmsf: "hmsf = (h, mi, sec, us)" by (cases hmsf)
      show ?thesis
      proof (cases "zone_part s = []")
        case True
        with assms Some ymd False hm hmsf show ?thesis by (auto simp: isoformat_common_def)
      next
        case nz: False
        show ?thesis
        proof (cases "parse_tz (zone_part s)")
          case None
          with assms Some ymd False hm hmsf nz show ?thesis by (simp add: isoformat_common_def)
        next
          case (Some off)
          with assms \<open>parse_date (take 10 s) = Some ymd\<close> ymd False hm hmsf nz show ?thesis
            by (auto simp: isoformat_common_def)
        qed
      qed
    qed
  qed
qed

lemma length_str_nat: "10 ^ k \<le> n \<Longrightarrow> k < length (str_nat n)"
proof (induction k arbitrary: n)
  case 0
  show ?case
    by (subst str_nat.simps) simp
next
  case (Suc k)
  define a :: nat where "a = 10 ^ k"
  from Suc.prems have ge: "10 * a \<le> n"
    by (simp add: a_def)
  have "1 \<le> a"
    by (simp add: a_def)
  with ge have big: "\<not> n < 10"
    by arith
  from ge have "a \<le> n div 10"
    by arith
  then have "k < length (str_nat (n div 10))"
    unfolding a_def by (rule Suc.IH)
  with big show ?case
    by (subst str_nat.simps) (simp del: str_nat.simps)
qed

lemma four_digit_year: "1000 \<le> y \<Longrightarrow> zero_pad 4 y = str_nat y"
  using length_str_nat [of 3 y] by (simp add: zero_pad_def del: str_nat.simps)

lemma isoformat_common_date:
  assumes "isoformat_common s = Some dt" and "1000 \<le> year dt"
  shows "strftime_ymd E dt = take 10 s \<and> CHR ''+'' \<notin> set (take 10 s) \<and> 10 \<le> length s"
proof -
  from assms(1) have p: "parse_date (take 10 s) = Some (year dt, month dt, day dt)"
    by (rule isoformat_common_fields)
  then have "length (take 10 s) = 10"
    by (auto simp: parse_date_def split: if_splits)
  then have "10 \<le> length s" by simp
  with parse_date_Some [OF p] assms(2) show ?thesis
    by (simp add: strftime_ymd_def four_digit_year del: str_nat.simps)
qed

lemma replace_Z_cons:
  "replace ''Z'' new (c # cs) =
     (if c = CHR ''Z'' then new @ replace ''Z'' new cs else c # replace ''Z'' new cs)"
  by simp

lemma replace_Z_prefix:
  "CHR ''+'' \<notin> set (take n (replace ''Z'' ''+00:00'' s)) \<Longrightarrow>
   take n (replace ''Z'' ''+00:00'' s) = take n s"
proof (induction s arbitrary: n)
  case Nil
  then show ?case by simp
next
  case (Cons c cs)
  show ?case
  proof (cases n)
    case 0
    then show ?thesis by simp
  next
    case (Suc k)
    with Cons.prems have notZ: "c \<noteq> CHR ''Z''"
      by (auto simp: replace_Z_cons simp del: replace.simps)
    with Cons.prems Suc have "CHR ''+'' \<notin> set (take k (replace ''Z'' ''+00:00'' cs))"
      by (simp add: replace_Z_cons del: replace.simps)
    then have "take k (replace ''Z'' ''+00:00'' cs) = take k cs"
      by (rule Cons.IH)
    with notZ Suc show ?thesis
      by (simp add: replace_Z_cons del: replace.simps)
  qed
qed


lemma format_date_common:
  assumes "isoformat_common (replace ''Z'' ''+00:00'' ts) = Some dt" and "1000 \<le> year dt"
  shows "format_date E (JStr ts) = Inr (take 10 ts) \<and> length (take 10 ts) = 10"
proof -
  from isoformat_common_date [OF assms]
  have a: "strftime_ymd E dt = take 10 (replace ''Z'' ''+00:00'' ts)"
    and b: "CHR ''+'' \<notin> set (take 10 (replace ''Z'' ''+00:00'' ts))"
    and c: "10 \<le> length (replace ''Z'' ''+00:00'' ts)"
    by simp_all
  from b have e: "take 10 (replace ''Z'' ''+00:00'' ts) = take 10 ts"
    by (rule replace_Z_prefix)
  from c have "length (take 10 (replace ''Z'' ''+00:00'' ts)) = 10"
    by simp
  with e have "length (take 10 ts) = 10" by simp
  with a e assms(1) show ?thesis
    by (simp add: fromisoformat_def bindE_def del: replace.simps)
qed

lemma format_date_parsed:
  "format_date E created = Inr d \<Longrightarrow>
   \<exists>ts dt. created = JStr ts
     \<and> fromisoformat E (replace ''Z'' ''+00:00'' ts) = Inr dt \<and> d = strftime_ymd E dt"
  by (cases created) (auto simp: bindE_Inr_iff simp del: replace.simps)

lemma format_date_example:
  "format_date E (JStr ''2024-01-05T10:00:00Z'') = Inr ''2024-01-05''"
proof -
  have r: "replace ''Z'' ''+00:00'' ''2024-01-05T10:00:00Z'' = ''2024-01-05T10:00:00+00:00''"
    by simp
  have f: "isoformat_common ''2024-01-05T10:00:00+00:00'' =
             Some \<lparr> year = 2024, month = 1, day = 5, hour = 10, minute = 0, second = 0,
                   microsecond = 0, utcoffset = Some 0 \<rparr>"
    by (simp add: isoformat_common_def parse_date_def digits_def is_digit_def num_of_def
        digit_val_def days_in_month_def is_leap_def parse_time_def parse_hh_mm_ss_ff_def
        parse_tz_def time_part_def zone_part_def Let_def)
  show ?thesis
    by (simp add: r f fromisoformat_def bindE_def strftime_ymd_def zero_pad_def digit_char_def
        del: replace.simps)
qed

lemma get_issue_created_date:
  assumes "get_issue E k x s = (Inr doc, s')"
  shows "\<exists>issue f created d.
           remote E (calls s) (Call ''jira.issue'' [k, x]) = Inr issue
           \<and> getitem issue ''fields'' = Inr f
           \<and> getitem f ''created'' = Inr created
           \<and> format_date E created = Inr d
           \<and> meta doc ''created_date'' = Inr (JStr d)"
  using assms
  by (auto simp add: get_issue_def try_except_def monad_simps bindE_def meta_def
      split: sum.splits prod.splits)

lemma issue_comment_created:
  "issue_comment E comment = Inr (b, cr, a) \<Longrightarrow>
   \<exists>created. getitem comment ''created'' = Inr created \<and> format_date E created = Inr cr"
  by (auto simp: issue_comment_def bindE_Inr_iff)

lemma get_page_content_last_modified:
  assumes "get_page_content E pid ch s = (Inr doc, s')"
  shows "\<exists>page v w.
           remote E (calls s) (Call ''confluence.get_page_by_id''
             [pid, JStr ''body.storage,version,space'']) = Inr page
           \<and> get_default page ''version'' (JDict []) = Inr v
           \<and> get_default v ''when'' JNull = Inr w
           \<and> meta doc ''last_modified'' = Inr w"
  using assms
  by (auto simp add: get_page_content_def monad_simps bindE_def meta_def
      split: sum.splits prod.splits)

lemma comment_document_last_modified:
  assumes "comment_document E pid ch sk sn c s = (Inr doc, s')"
  shows "\<exists>v w. get_default c ''version'' (JDict []) = Inr v
           \<and> get_default v ''when'' JNull = Inr w
           \<and> meta doc ''last_modified'' = Inr w"
  using assms
  by (auto simp add: comment_document_def monad_simps bindE_def meta_def
      split: sum.splits prod.splits)

lemma search_hit_last_modified:
  assumes "search_hit E hit = Inr (Some doc)"
  shows "\<exists>w. get_default hit ''lastModified'' JNull = Inr w
           \<and> meta doc ''last_modified'' = Inr w"
  using assms
  by (auto simp add: search_hit_def bindE_def meta_def split: sum.splits if_splits)


lemma isoformat_common_sample_comment:
  "isoformat_common ''2024-02-29T23:59:59+05:30'' =
     Some \<lparr> year = 2024, month = 2, day = 29, hour = 23, minute = 59, second = 59,
            microsecond = 0, utcoffset = Some 19800000000 \<rparr>"
  by (simp add: isoformat_common_def parse_date_def digits_def is_digit_def num_of_def
      digit_val_def days_in_month_def is_leap_def parse_time_def parse_hh_mm_ss_ff_def
      parse_tz_def time_part_def zone_part_def Let_def)

lemma format_date_sample_comment:
  "format_date E (JStr ''2024-02-29T23:59:59+05:30'') = Inr ''2024-02-29''"
proof -
  have r: "replace ''Z'' ''+00:00'' ''2024-02-29T23:59:59+05:30'' = ''2024-02-29T23:59:59+05:30''"
    by simp
  show ?thesis
    by (simp add: r isoformat_common_sample_comment fromisoformat_def bindE_def
        strftime_ymd_def zero_pad_def digit_char_def del: replace.simps)
qed

lemma sample_get_issue:
  "get_issue (sample_env sample_remote) (JStr ''DEV-1'') JNull s =
     (Inr sample_issue_document,
      s\<lparr>calls := calls s @ [Call ''jira.issue'' [JStr ''DEV-1'', JNull]]\<rparr>)"
  by (simp add: sample_issue_document_def get_issue_def try_except_def monad_simps
      sample_env_sel sample_issue_def bindE_def clean_text_def sample_text_def issue_comment_def format_date_example
      format_date_sample_comment seed_mappings_def custom_fields_text_def comment_line_def
      rstrip_def del: format_date.simps)

text \<open>
  C6 does not hold for Confluence. The page of the sample remote side was last modified at
  \<^verbatim>\<open>2024-01-05T10:00:00Z\<close>; the document \<^verbatim>\<open>get_page_content\<close> builds carries that
  timestamp unchanged as \<^verbatim>\<open>last_modified\<close>, not the date \<^verbatim>\<open>2024-01-05\<close>.
\<close>

theorem C6_page_last_modified_passed_through:
  "fst (get_page_content (sample_env sample_remote) (JStr ''123'') True s0) =
     Inr \<lparr>page_content = JStr ''<p>Hello</p>'',
          metadata =
            [(''page_id'', JStr ''123''), (''title'', JStr ''Home''),
             (''version'', JInt 7),
             (''url'', JStr ''https://example.atlassian.net/wiki/spaces/DEV/pages/123''),
             (''space_key'', JStr ''DEV''), (''author_name'', JStr ''Ann''),
             (''space_name'', JStr ''Development''),
             (''last_modified'', JStr ''2024-01-05T10:00:00Z'')]\<rparr>"
  by (simp add: get_page_content_def monad_simps sample_env_sel sample_page_def bindE_def
      sample_text_def s0_def)

text \<open>
  C6, amended. The dates of a Jira issue are rendered by \<open>format_date\<close>: the created date
  in the metadata of the document and the created date of each comment. \<open>format_date\<close>
  replaces every \<^verbatim>\<open>Z\<close> of the timestamp by \<^verbatim>\<open>+00:00\<close>, parses the result with
  \<^verbatim>\<open>datetime.fromisoformat\<close> and prints the year, month and day of what was parsed; the
  time of day and the offset have no part in the text. \<^verbatim>\<open>2024-01-05T10:00:00Z\<close> gives
  \<^verbatim>\<open>2024-01-05\<close>, and every timestamp that after the replacement has the common shape
  \<^verbatim>\<open>YYYY-MM-DD[*HH[:MM[:SS[.fff[fff]]]][+HH:MM[:SS[.ffffff]]]]\<close> with a year from 1000
  on gives its own first ten characters. For any other timestamp the result is what the
  installed library parses and prints. Confluence has no such step: the
  \<^verbatim>\<open>last_modified\<close> entry of a page document, of a comment document and of a search hit
  is the value the remote side sent (\<^verbatim>\<open>version.when\<close>, \<^verbatim>\<open>version.when\<close> and
  \<^verbatim>\<open>lastModified\<close>), unchanged.
\<close>

theorem C6_issue_dates_rendered_as_calendar_date:
  "format_date E (JStr ''2024-01-05T10:00:00Z'') = Inr ''2024-01-05''
   \<and> (\<forall>dt. isoformat_common (replace ''Z'' ''+00:00'' ts) = Some dt \<and> 1000 \<le> year dt \<longrightarrow>
         format_date E (JStr ts) = Inr (take 10 ts) \<and> length (take 10 ts) = 10)
   \<and> (\<forall>d. format_date E created = Inr d \<longrightarrow>
         (\<exists>ts dt. created = JStr ts
            \<and> fromisoformat E (replace ''Z'' ''+00:00'' ts) = Inr dt
            \<and> d = strftime_ymd E dt))
   \<and> strftime_ymd E (parsed\<lparr>hour := h, minute := mi, second := sec, microsecond := us,
                             utcoffset := off\<rparr>) = strftime_ymd E parsed
   \<and> (\<forall>doc s'. get_issue E k x s = (Inr doc, s') \<longrightarrow>
         (\<exists>issue f created d.
            remote E (calls s) (Call ''jira.issue'' [k, x]) = Inr issue
            \<and> getitem issue ''fields'' = Inr f
            \<and> getitem f ''created'' = Inr created
            \<and> format_date E created = Inr d
            \<and> meta doc ''created_date'' = Inr (JStr d)))
   \<and> (\<forall>b cr a. issue_comment E comment = Inr (b, cr, a) \<longrightarrow>
         (\<exists>created. getitem comment ''created'' = Inr created
            \<and> format_date E created = Inr cr))
   \<and> (\<forall>doc s'. get_page_content E pid ch s = (Inr doc, s') \<longrightarrow>
         (\<exists>page v w.
            remote E (calls s) (Call ''confluence.get_page_by_id''
              [pid, JStr ''body.storage,version,space'']) = Inr page
            \<and> get_default page ''version'' (JDict []) = Inr v
            \<and> get_default v ''when'' JNull = Inr w
            \<and> meta doc ''last_modified'' = Inr w))
   \<and> (\<forall>doc s'. comment_document E pid ch space_key space_name page_comment s = (Inr doc, s') \<longrightarrow>
         (\<exists>v w. get_default page_comment ''version'' (JDict []) = Inr v
            \<and> get_default v ''when'' JNull = Inr w
            \<and> meta doc ''last_modified'' = Inr w))
   \<and> (\<forall>doc. search_hit E hit = Inr (Some doc) \<longrightarrow>
         (\<exists>w. get_default hit ''lastModified'' JNull = Inr w
            \<and> meta doc ''last_modified'' = Inr w))"
proof (intro conjI allI impI)
  show "format_date E (JStr ''2024-01-05T10:00:00Z'') = Inr ''2024-01-05''"
    by (rule format_date_example)
next
  fix dt
  assume a: "isoformat_common (replace ''Z'' ''+00:00'' ts) = Some dt \<and> 1000 \<le> year dt"
  then have "format_date E (JStr ts) = Inr (take 10 ts) \<and> length (take 10 ts) = 10"
    by (intro format_date_common [of ts dt]) simp_all
  then show "format_date E (JStr ts) = Inr (take 10 ts)" and "length (take 10 ts) = 10"
    by simp_all
next
  fix d
  assume "format_date E created = Inr d"
  then show "\<exists>ts dt. created = JStr ts
            \<and> fromisoformat E (replace ''Z'' ''+00:00'' ts) = Inr dt
            \<and> d = strftime_ymd E dt"
    by (rule format_date_parsed)
next
  show "strftime_ymd E (parsed\<lparr>hour := h, minute := mi, second := sec, microsecond := us,
                             utcoffset := off\<rparr>) = strftime_ymd E parsed"
    by (simp add: strftime_ymd_def del: str_nat.simps)
next
  fix doc s'
  assume "get_issue E k x s = (Inr doc, s')"
  then show "\<exists>issue f created d.
            remote E (calls s) (Call ''jira.issue'' [k, x]) = Inr issue
            \<and> getitem issue ''fields'' = Inr f
            \<and> getitem f ''created'' = Inr created
            \<and> format_date E created = Inr d
            \<and> meta doc ''created_date'' = Inr (JStr d)"
    by (rule get_issue_created_date)
next
  fix b cr a
  assume "issue_comment E comment = Inr (b, cr, a)"
  then show "\<exists>created. getitem comment ''created'' = Inr created
            \<and> format_date E created = Inr cr"
    by (rule issue_comment_created)
next
  fix doc s'
  assume "get_page_content E pid ch s = (Inr doc, s')"
  then show "\<exists>page v w.
            remote E (calls s) (Call ''confluence.get_page_by_id''
              [pid, JStr ''body.storage,version,space'']) = Inr page
            \<and> get_default page ''version'' (JDict []) = Inr v
            \<and> get_default v ''when'' JNull = Inr w
            \<and> meta doc ''last_modified'' = Inr w"
    by (rule get_page_content_last_modified)
next
  fix doc s'
  assume "comment_document E pid ch space_key space_name page_comment s = (Inr doc, s')"
  then show "\<exists>v w. get_default page_comment ''version'' (JDict []) = Inr v
            \<and> get_default v ''when'' JNull = Inr w
            \<and> meta doc ''last_modified'' = Inr w"
    by (rule comment_document_last_modified)
next
  fix doc
  assume "search_hit E hit = Inr (Some doc)"
  then show "\<exists>w. get_default hit ''lastModified'' JNull = Inr w
            \<and> meta doc ''last_modified'' = Inr w"
    by (rule search_hit_last_modified)
qed


theorem C6_issue_dates_rendered_as_calendar_date_witness:
  "format_date (sample_env sample_remote) (JStr ''2024-02-29T23:59:59+05:30'')
     = Inr ''2024-02-29''
   \<and> (\<exists>doc s'. get_issue (sample_env sample_remote) (JStr ''DEV-1'') JNull s0 = (Inr doc, s')
          \<and> meta doc ''created_date'' = Inr (JStr ''2024-01-05''))
   \<and> (\<exists>doc s'. get_page_content (sample_env sample_remote) (JStr ''123'') True s0 = (Inr doc, s')
          \<and> meta doc ''last_modified'' = Inr (JStr ''2024-01-05T10:00:00Z''))
   \<and> (\<exists>doc s'. comment_document (sample_env sample_remote) (JStr ''123'') True
                   (JStr ''DEV'') (JStr ''Development'') sample_page_comment s0 = (Inr doc, s')
          \<and> meta doc ''last_modified'' = Inr (JStr ''2024-03-01T08:30:00.000Z''))
   \<and> (\<exists>doc. search_hit (sample_env sample_remote) sample_hit_dated = Inr (Some doc)
          \<and> meta doc ''last_modified'' = Inr (JStr ''2024-01-05T10:00:00.000Z''))"
proof -
  let ?E = "sample_env sample_remote"
  note inst = C6_issue_dates_rendered_as_calendar_date
    [where E = ?E and ts = "''2024-02-29T23:59:59+05:30''" and k = "JStr ''DEV-1''"
       and x = JNull and s = s0 and pid = "JStr ''123''" and ch = True
       and space_key = "JStr ''DEV''" and space_name = "JStr ''Development''"
       and page_comment = sample_page_comment and hit = sample_hit_dated]
  have r: "replace ''Z'' ''+00:00'' ''2024-02-29T23:59:59+05:30'' = ''2024-02-29T23:59:59+05:30''"
    by simp
  have "\<forall>dt. isoformat_common (replace ''Z'' ''+00:00'' ''2024-02-29T23:59:59+05:30'')
                        = Some dt \<and> 1000 \<le> year dt \<longrightarrow>
         format_date ?E (JStr ''2024-02-29T23:59:59+05:30'')
           = Inr (take 10 ''2024-02-29T23:59:59+05:30'')
         \<and> length (take 10 ''2024-02-29T23:59:59+05:30'') = 10"
    by (rule inst [THEN conjunct2, THEN conjunct1])
  then have w1: "format_date ?E (JStr ''2024-02-29T23:59:59+05:30'') = Inr ''2024-02-29''"
    unfolding r isoformat_common_sample_comment by simp
  have issue: "\<forall>doc s'. get_issue ?E (JStr ''DEV-1'') JNull s0 = (Inr doc, s') \<longrightarrow>
         (\<exists>issue f created d.
            remote ?E (calls s0) (Call ''jira.issue'' [JStr ''DEV-1'', JNull]) = Inr issue
            \<and> getitem issue ''fields'' = Inr f
            \<and> getitem f ''created'' = Inr created
            \<and> format_date ?E created = Inr d
            \<and> meta doc ''created_date'' = Inr (JStr d))"
    by (rule inst [THEN conjunct2, THEN conjunct2, THEN conjunct2, THEN conjunct2,
        THEN conjunct1])
  have example: "format_date ?E (JStr ''2024-01-05T10:00:00Z'') = Inr ''2024-01-05''"
    by (rule inst [THEN conjunct1])
  from issue sample_get_issue [of s0] obtain issue f created d where
    "remote ?E (calls s0) (Call ''jira.issue'' [JStr ''DEV-1'', JNull]) = Inr issue"
    "getitem issue ''fields'' = Inr f" "getitem f ''created'' = Inr created"
    "format_date ?E created = Inr d"
    and cd: "meta sample_issue_document ''created_date'' = Inr (JStr d)"
    by blast
  then have "d = ''2024-01-05''"
    using example by (auto simp: sample_env_sel sample_issue_def simp del: format_date.simps)
  with cd sample_get_issue [of s0]
  have w2: "\<exists>doc s'. get_issue ?E (JStr ''DEV-1'') JNull s0 = (Inr doc, s')
          \<and> meta doc ''created_date'' = Inr (JStr ''2024-01-05'')"
    by simp
  have page: "\<forall>doc s'. get_page_content ?E (JStr ''123'') True s0 = (Inr doc, s') \<longrightarrow>
         (\<exists>page v w.
            remote ?E (calls s0) (Call ''confluence.get_page_by_id''
              [JStr ''123'', JStr ''body.storage,version,space'']) = Inr page
            \<and> get_default page ''version'' (JDict []) = Inr v
            \<and> get_default v ''when'' JNull = Inr w
            \<and> meta doc ''last_modified'' = Inr w)"
    by (rule inst [THEN conjunct2, THEN conjunct2, THEN conjunct2, THEN conjunct2,
        THEN conjunct2, THEN conjunct2, THEN conjunct1])
  obtain doc1 s1 where run1: "get_page_content ?E (JStr ''123'') True s0 = (Inr doc1, s1)"
    by (simp add: get_page_content_def monad_simps sample_env_sel sample_page_def bindE_def
        sample_text_def)
  with page obtain pg v w where
    "remote ?E (calls s0) (Call ''confluence.get_page_by_id''
              [JStr ''123'', JStr ''body.storage,version,space'']) = Inr pg"
    "get_default pg ''version'' (JDict []) = Inr v" "get_default v ''when'' JNull = Inr w"
    and m1: "meta doc1 ''last_modified'' = Inr w"
    by blast
  then have "w = JStr ''2024-01-05T10:00:00Z''"
    by (auto simp: sample_env_sel sample_page_def)
  with m1 run1
  have w3: "\<exists>doc s'. get_page_content ?E (JStr ''123'') True s0 = (Inr doc, s')
          \<and> meta doc ''last_modified'' = Inr (JStr ''2024-01-05T10:00:00Z'')"
    by blast
  have cmt: "\<forall>doc s'. comment_document ?E (JStr ''123'') True (JStr ''DEV'')
                   (JStr ''Development'') sample_page_comment s0 = (Inr doc, s') \<longrightarrow>
         (\<exists>v w. get_default sample_page_comment ''version'' (JDict []) = Inr v
            \<and> get_default v ''when'' JNull = Inr w
            \<and> meta doc ''last_modified'' = Inr w)"
    by (rule inst [THEN conjunct2, THEN conjunct2, THEN conjunct2, THEN conjunct2,
        THEN conjunct2, THEN conjunct2, THEN conjunct2, THEN conjunct1])
  obtain doc2 s2 where run2: "comment_document ?E (JStr ''123'') True (JStr ''DEV'')
                   (JStr ''Development'') sample_page_comment s0 = (Inr doc2, s2)"
    by (simp add: comment_document_def monad_simps sample_env_sel sample_page_comment_def
        bindE_def sample_text_def)
  with cmt obtain v2 w2' where
    "get_default sample_page_comment ''version'' (JDict []) = Inr v2"
    "get_default v2 ''when'' JNull = Inr w2'"
    and m2: "meta doc2 ''last_modified'' = Inr w2'"
    by blast
  then have "w2' = JStr ''2024-03-01T08:30:00.000Z''"
    by (auto simp: sample_page_comment_def)
  with m2 run2
  have w4: "\<exists>doc s'. comment_document ?E (JStr ''123'') True
                   (JStr ''DEV'') (JStr ''Development'') sample_page_comment s0 = (Inr doc, s')
          \<and> meta doc ''last_modified'' = Inr (JStr ''2024-03-01T08:30:00.000Z'')"
    by blast
  have hit: "\<forall>doc. search_hit ?E sample_hit_dated = Inr (Some doc) \<longrightarrow>
         (\<exists>w. get_default sample_hit_dated ''lastModified'' JNull = Inr w
            \<and> meta doc ''last_modified'' = Inr w)"
    by (rule inst [THEN conjunct2, THEN conjunct2, THEN conjunct2, THEN conjunct2,
        THEN conjunct2, THEN conjunct2, THEN conjunct2, THEN conjunct2])
  obtain doc3 where run3: "search_hit ?E sample_hit_dated = Inr (Some doc3)"
    by (simp add: search_hit_def sample_hit_dated_def bindE_def)
  with hit obtain w3' where "get_default sample_hit_dated ''lastModified'' JNull = Inr w3'"
    and m3: "meta doc3 ''last_modified'' = Inr w3'"
    by blast
  then have "w3' = JStr ''2024-01-05T10:00:00.000Z''"
    by (auto simp: sample_hit_dated_def)
  with m3 run3
  have w5: "\<exists>doc. search_hit ?E sample_hit_dated = Inr (Some doc)
          \<and> meta doc ''last_modified'' = Inr (JStr ''2024-01-05T10:00:00.000Z'')"
    by blast
  from w1 w2 w3 w4 w5 show ?thesis
    by (intro conjI)
qed

section \<open>The excerpt of an issue search result\<close>

lemma get_issue_document_shape:
  assumes "get_issue E k x s = (Inr doc, s')"
  shows "\<exists>c a b ty st cd pr ln cf.
           doc = \<lparr>page_content = JStr c,
                  metadata = [(''key'', a), (''title'', b), (''type'', ty), (''status'', st),
                              (''created_date'', cd), (''priority'', pr), (''link'', ln),
                              (''custom_fields'', cf)]\<rparr>"
  using assms
  by (auto simp add: get_issue_def try_except_def monad_simps
      split: sum.splits prod.splits)

lemma mapM_results:
  "mapM f xs s = (Inr ys, s') \<Longrightarrow> \<forall>y \<in> set ys. \<exists>x s1 s2. f x s1 = (Inr y, s2)"
proof (induction xs arbitrary: ys s s')
  case Nil
  then show ?case by (simp add: monad_simps)
next
  case (Cons x xs)
  from Cons.prems
  have "bindM (f x) (\<lambda>y. bindM (mapM f xs) (\<lambda>ys. returnM (y # ys))) s = (Inr ys, s')"
    by simp
  from bindM_InrD [OF this] obtain y s1 where fx: "f x s = (Inr y, s1)"
    and rest: "bindM (mapM f xs) (\<lambda>ys. returnM (y # ys)) s1 = (Inr ys, s')"
    by blast
  from bindM_InrD [OF rest] obtain ys' s2 where m: "mapM f xs s1 = (Inr ys', s2)"
    and r: "returnM (y # ys') s2 = (Inr ys, s')"
    by blast
  from r have ys: "ys = y # ys'"
    by (simp add: returnM_def)
  from Cons.IH [OF m] fx ys show ?case by auto
qed

lemma search_issues_documents:
  assumes "search_issues E jql flds start limit expand s = (Inr documents, s')"
    and "doc \<in> set documents"
  shows "\<exists>k s1 s2. get_issue E k expand s1 = (Inr doc, s2)"
proof -
  let ?body = "bindM (remote_call E ''jira.jql'' [jql, flds, JInt start, JInt limit, expand])
      (\<lambda>results.
       bindM (lift (bindE (getitem results ''issues'') iterate)) (\<lambda>issues.
       mapM (\<lambda>issue. bindM (lift (getitem issue ''key'')) (\<lambda>k. get_issue E k expand))
         issues))"
  have "fst (search_issues E jql flds start limit expand s) = fst (?body s)"
    by (simp add: search_issues_def try_except_reraise)
  with assms(1) obtain s1 where body: "?body s = (Inr documents, s1)"
    by (cases "?body s") simp
  from bindM_InrD [OF body] obtain results s2 where
    "bindM (lift (bindE (getitem results ''issues'') iterate)) (\<lambda>issues.
       mapM (\<lambda>issue. bindM (lift (getitem issue ''key'')) (\<lambda>k. get_issue E k expand))
         issues) s2 = (Inr documents, s1)"
    by blast
  from bindM_InrD [OF this] obtain issues s3 where
    "mapM (\<lambda>issue. bindM (lift (getitem issue ''key'')) (\<lambda>k. get_issue E k expand)) issues s3
       = (Inr documents, s1)"
    by blast
  from mapM_results [OF this] assms(2) obtain issue s4 s5 where
    "bindM (lift (getitem issue ''key'')) (\<lambda>k. get_issue E k expand) s4 = (Inr doc, s5)"
    by blast
  from bindM_InrD [OF this] show ?thesis
    by blast
qed

lemma issue_summary_excerpt:
  assumes "get_issue E k x s1 = (Inr doc, s2)"
  shows "\<exists>c obj. page_content doc = JStr c
           \<and> jira_search_result doc = Inr obj
           \<and> getitem obj ''key'' = meta doc ''key''
           \<and> getitem obj ''excerpt'' =
               Inr (JStr (if length c \<le> 500 then c else take 500 c @ ''...''))"
proof -
  from get_issue_document_shape [OF assms] obtain c a b ty st cd pr ln cf where
    doc: "doc = \<lparr>page_content = JStr c,
                  metadata = [(''key'', a), (''title'', b), (''type'', ty), (''status'', st),
                              (''created_date'', cd), (''priority'', pr), (''link'', ln),
                              (''custom_fields'', cf)]\<rparr>"
    by blast
  show ?thesis
    by (rule exI [of _ c]) (simp add: doc jira_search_result_def meta_def bindE_def)
qed

lemma mapE_all:
  "\<forall>x \<in> set xs. \<exists>y. f x = Inr y \<and> P x y \<Longrightarrow>
   \<exists>ys. mapE f xs = Inr ys \<and> list_all2 (\<lambda>x y. f x = Inr y \<and> P x y) xs ys"
proof (induction xs)
  case Nil
  then show ?case by simp
next
  case (Cons x xs)
  then obtain ys where ys: "mapE f xs = Inr ys"
    and all: "list_all2 (\<lambda>x y. f x = Inr y \<and> P x y) xs ys"
    by auto
  from Cons.prems obtain y where y: "f x = Inr y" "P x y"
    by auto
  from ys all y show ?case
    by (intro exI [of _ "y # ys"]) (simp add: bindE_def)
qed

text \<open>
  C7. Let the arguments of a \<^verbatim>\<open>jira_search\<close> call be readable and let the issue search
  return the documents \<open>documents\<close>. Then the tool call returns one text payload, the
  serialization of the list that has one summary object for each document, in the same
  order, and leaves the state the search left. Every document has a string as content;
  the excerpt of its summary object is the content itself when the content has at most 500
  characters, and otherwise its first 500 characters followed by \<^verbatim>\<open>...\<close>. A content of
  600 characters gives exactly its first 500 characters and the marker.
\<close>

theorem C7_issue_search_excerpt:
  assumes limit: "effective_limit E arguments = Inr limit"
    and jql: "getitem arguments ''jql'' = Inr jql"
    and flds: "get_default arguments ''fields'' (JStr ''*all'') = Inr flds"
    and found: "search_issues E jql flds 0 limit JNull s = (Inr documents, s')"
  shows "\<exists>objs. call_tool E ''jira_search'' arguments s = (Inr (text_result E (JList objs)), s')
           \<and> list_all2 (\<lambda>doc obj. jira_search_result doc = Inr obj
                \<and> (\<exists>c. page_content doc = JStr c
                     \<and> getitem obj ''key'' = meta doc ''key''
                     \<and> getitem obj ''excerpt'' =
                         Inr (JStr (if length c \<le> 500 then c else take 500 c @ ''...''))
                     \<and> (length c = 600 \<longrightarrow>
                          getitem obj ''excerpt'' = Inr (JStr (take 500 c @ ''...''))
                          \<and> length (take 500 c) = 500)))
               documents objs"
proof -
  let ?P = "\<lambda>doc obj. \<exists>c. page_content doc = JStr c
                     \<and> getitem obj ''key'' = meta doc ''key''
                     \<and> getitem obj ''excerpt'' =
                         Inr (JStr (if length c \<le> 500 then c else take 500 c @ ''...''))
                     \<and> (length c = 600 \<longrightarrow>
                          getitem obj ''excerpt'' = Inr (JStr (take 500 c @ ''...''))
                          \<and> length (take 500 c) = 500)"
  have "\<forall>doc \<in> set documents. \<exists>obj. jira_search_result doc = Inr obj \<and> ?P doc obj"
  proof
    fix doc
    assume "doc \<in> set documents"
    with found obtain k s1 s2 where "get_issue E k JNull s1 = (Inr doc, s2)"
      by (blast dest: search_issues_documents)
    from issue_summary_excerpt [OF this] obtain c obj where
      "page_content doc = JStr c" "jira_search_result doc = Inr obj"
      "getitem obj ''key'' = meta doc ''key''"
      "getitem obj ''excerpt'' = Inr (JStr (if length c \<le> 500 then c else take 500 c @ ''...''))"
      by blast
    then show "\<exists>obj. jira_search_result doc = Inr obj \<and> ?P doc obj"
      by (intro exI [of _ obj] conjI exI [of _ c]) simp_all
  qed
  from mapE_all [of documents jira_search_result ?P, OF this] obtain objs where
    objs: "mapE jira_search_result documents = Inr objs"
    and all: "list_all2 (\<lambda>doc obj. jira_search_result doc = Inr obj \<and> ?P doc obj) documents objs"
    by blast
  have "dispatch E ''jira_search'' arguments s = (Inr (text_result E (JList objs)), s')"
    by (simp add: dispatch_def limit jql flds objs monad_simps
        bindM_eval [of "search_issues E jql flds 0 limit JNull" s documents s', OF found])
  then have "call_tool E ''jira_search'' arguments s = (Inr (text_result E (JList objs)), s')"
    by (simp add: call_tool_def try_except_def)
  with all show ?thesis
    by blast
qed


lemma long_get_issue:
  "get_issue (sample_env long_remote) (JStr ''DEV-7'') JNull s =
     (Inr long_issue_document,
      s\<lparr>calls := calls s @ [Call ''jira.issue'' [JStr ''DEV-7'', JNull]]\<rparr>)"
  by (simp add: long_issue_document_def get_issue_def try_except_def monad_simps
      sample_env_sel long_issue_def bindE_def clean_text_def sample_text_def
      format_date_example seed_mappings_def custom_fields_text_def
      rstrip_def del: format_date.simps)

lemma long_search_issues:
  "search_issues (sample_env long_remote) (JStr ''project = DEV'') (JStr ''*all'') 0 10 JNull s0 =
     (Inr [long_issue_document],
      \<lparr>calls = [Call ''jira.jql'' [JStr ''project = DEV'', JStr ''*all'', JInt 0, JInt 10, JNull],
                Call ''jira.issue'' [JStr ''DEV-7'', JNull]],
        logs = []\<rparr>)"
  by (simp add: search_issues_def try_except_def bindM_def remote_call_def lift_def returnM_def
      bindE_def sample_env_sel long_get_issue s0_def)

theorem C7_issue_search_excerpt_witness:
  "\<exists>obj. call_tool (sample_env long_remote) ''jira_search''
            (JDict [(''jql'', JStr ''project = DEV'')]) s0 =
          (Inr (text_result (sample_env long_remote) (JList [obj])),
           \<lparr>calls = [Call ''jira.jql''
                       [JStr ''project = DEV'', JStr ''*all'', JInt 0, JInt 10, JNull],
                     Call ''jira.issue'' [JStr ''DEV-7'', JNull]],
             logs = []\<rparr>)
      \<and> getitem obj ''key'' = Inr (JStr ''DEV-7'')
      \<and> getitem obj ''excerpt'' =
          Inr (JStr (''Issue: DEV-7\<newline>Title: Long\<newline>Type: Story\<newline>Status: Open\<newline>Created: 2024-01-05\<newline>\<newline>Description:\<newline>''
                     @ replicate 416 CHR ''a'' @ ''...''))"
proof -
  let ?E = "sample_env long_remote"
  let ?args = "JDict [(''jql'', JStr ''project = DEV'')]"
  let ?c = "''Issue: DEV-7\<newline>Title: Long\<newline>Type: Story\<newline>Status: Open\<newline>Created: 2024-01-05\<newline>\<newline>Description:\<newline>''
         @ replicate 504 CHR ''a'' @ ''\<newline>\<newline>Comments:\<newline>''"
  have limit: "effective_limit ?E ?args = Inr 10"
    by (simp add: effective_limit_def bindE_def)
  have jql: "getitem ?args ''jql'' = Inr (JStr ''project = DEV'')"
    by simp
  have flds: "get_default ?args ''fields'' (JStr ''*all'') = Inr (JStr ''*all'')"
    by simp
  from C7_issue_search_excerpt [OF limit jql flds long_search_issues]
  obtain objs where run: "call_tool ?E ''jira_search'' ?args s0 =
      (Inr (text_result ?E (JList objs)),
       \<lparr>calls = [Call ''jira.jql''
                   [JStr ''project = DEV'', JStr ''*all'', JInt 0, JInt 10, JNull],
                 Call ''jira.issue'' [JStr ''DEV-7'', JNull]],
         logs = []\<rparr>)"
    and all: "list_all2 (\<lambda>doc obj. jira_search_result doc = Inr obj
                \<and> (\<exists>c. page_content doc = JStr c
                     \<and> getitem obj ''key'' = meta doc ''key''
                     \<and> getitem obj ''excerpt'' =
                         Inr (JStr (if length c \<le> 500 then c else take 500 c @ ''...''))
                     \<and> (length c = 600 \<longrightarrow>
                          getitem obj ''excerpt'' = Inr (JStr (take 500 c @ ''...''))
                          \<and> length (take 500 c) = 500)))
               [long_issue_document] objs"
    by blast
  from all obtain obj where objs: "objs = [obj]"
    and c: "\<exists>c. page_content long_issue_document = JStr c
                     \<and> getitem obj ''key'' = meta long_issue_document ''key''
                     \<and> getitem obj ''excerpt'' =
                         Inr (JStr (if length c \<le> 500 then c else take 500 c @ ''...''))
                     \<and> (length c = 600 \<longrightarrow>
                          getitem obj ''excerpt'' = Inr (JStr (take 500 c @ ''...''))
                          \<and> length (take 500 c) = 500)"
    by (auto simp: list_all2_Cons1)
  have content: "page_content long_issue_document = JStr ?c"
    by (simp add: long_issue_document_def)
  have len: "length ?c = 600"
    by simp
  from c content len have ex: "getitem obj ''excerpt'' = Inr (JStr (take 500 ?c @ ''...''))"
    and key: "getitem obj ''key'' = meta long_issue_document ''key''"
    by auto
  have cut: "take 500 ?c = ''Issue: DEV-7\<newline>Title: Long\<newline>Type: Story\<newline>Status: Open\<newline>Created: 2024-01-05\<newline>\<newline>Description:\<newline>''
                     @ replicate 416 CHR ''a''"
    by simp
  have k: "meta long_issue_document ''key'' = Inr (JStr ''DEV-7'')"
    by (simp add: meta_def long_issue_document_def)
  from run objs ex key cut k show ?thesis
    by (intro exI [of _ obj]) simp
qed

end
